theory Spec2Isabelle
  imports Complex_Main "HOL-Library.Word" "HOL-Library.Monad_Syntax" "HOL-Library.Sublist"
begin

unbundle bit_operations_syntax

section \<open>The output stream and the binary container (Raw2Gltf.cpp, lines 953-1069)\<close>

text \<open>
  \<^verbatim>\<open>std::ofstream\<close> as the bytes of the file and the write pointer. \<^verbatim>\<open>put\<close>
  stores one byte at the write pointer, overwriting what is there or extending the
  file, and advances the pointer; \<^verbatim>\<open>write\<close> and \<^verbatim>\<open><<\<close> are sequences of
  \<^verbatim>\<open>put\<close>. A write pointer beyond the end of the file leaves a gap of zero bytes.
\<close>

type_synonym byte = "8 word"
type_synonym uint32_t = "32 word"

record ofstream =
  bytes :: "byte list"
  pos :: nat

definition put :: "byte \<Rightarrow> ofstream \<Rightarrow> ofstream" where
  "put b s =
     (let filled = bytes s @ replicate (pos s - length (bytes s)) 0
      in \<lparr>bytes = take (pos s) filled @ [b] @ drop (pos s + 1) filled, pos = pos s + 1\<rparr>)"

definition write_s :: "byte list \<Rightarrow> ofstream \<Rightarrow> ofstream" where
  "write_s bs s = fold put bs s"

definition tellp :: "ofstream \<Rightarrow> nat" where
  "tellp s = pos s"

definition seekp :: "nat \<Rightarrow> ofstream \<Rightarrow> ofstream" where
  "seekp p s = s\<lparr>pos := p\<rparr>"

definition seekp_end :: "ofstream \<Rightarrow> ofstream" where
  "seekp_end s = s\<lparr>pos := length (bytes s)\<rparr>"

text \<open>
  \<^verbatim>\<open>to_uint32\<close> is declared outside Raw2Gltf.cpp; it is taken as the narrowing
  conversion of a \<^verbatim>\<open>size_t\<close> to \<^verbatim>\<open>uint32_t\<close> that its name and its use say.
\<close>

definition to_uint32 :: "nat \<Rightarrow> uint32_t" where
  "to_uint32 n = word_of_nat n"

definition glbHeader :: "byte list" where
  "glbHeader = [0x67, 0x6C, 0x54, 0x46, 0x02, 0x00, 0x00, 0x00, 0x00, 0x00, 0x00, 0x00]"

definition glb2JsonHeader :: "byte list" where
  "glb2JsonHeader = [0x00, 0x00, 0x00, 0x00, 0x4A, 0x53, 0x4F, 0x4E]"

definition glb2BinaryHeader :: "byte list" where
  "glb2BinaryHeader = [0x00, 0x00, 0x00, 0x00, 0x42, 0x49, 0x4E, 0x00]"

lemma pad_measure:
  "(n::nat) mod 4 \<noteq> 0 \<Longrightarrow> (4 - (n + 1) mod 4) mod 4 < (4 - n mod 4) mod 4"
proof -
  assume a: "n mod 4 \<noteq> 0"
  have c: "(n + 1) mod 4 = (if Suc (n mod 4) = 4 then 0 else Suc (n mod 4))"
    using mod_Suc [of n 4] by simp
  obtain k where k: "k = n mod 4" by simp
  from a c k have "k \<noteq> 0" "k < 4" "(n + 1) mod 4 = (if Suc k = 4 then 0 else Suc k)"
    by simp_all
  then have "(4 - (n + 1) mod 4) mod 4 < (4 - k) mod 4"
    by (cases "Suc k = 4") auto
  with k show ?thesis by simp
qed

lemma unat_mod4: "unat (j :: uint32_t) mod 4 = unat (j mod 4)"
  by (simp add: unat_mod)

lemma unat_succ_mod4: "unat ((j :: uint32_t) + 1) mod 4 = (unat j + 1) mod 4"
proof -
  have "unat (j + 1) = (unat j + 1) mod 2 ^ 32"
    by (simp add: unat_word_ariths)
  moreover have "(4::nat) dvd 2 ^ 32" by simp
  ultimately show ?thesis by (simp add: mod_mod_cancel)
qed

text \<open>\<^verbatim>\<open>while ((jsonLength % 4) != 0) { gltfOutStream.put(' '); jsonLength++; }\<close>\<close>

function pad_json :: "ofstream \<Rightarrow> uint32_t \<Rightarrow> ofstream \<times> uint32_t" where
  "pad_json s jsonLength =
     (if jsonLength mod 4 \<noteq> 0 then pad_json (put 0x20 s) (jsonLength + 1)
      else (s, jsonLength))"
  by pat_completeness auto
termination pad_json
proof (relation "measure (\<lambda>(s, j). (4 - unat j mod 4) mod 4)", goal_cases)
  case 1
  show ?case by simp
next
  case (2 s j)
  then have "unat j mod 4 \<noteq> 0"
    by (simp add: unat_mod4 unat_eq_zero)
  then have "(4 - (unat j + 1) mod 4) mod 4 < (4 - unat j mod 4) mod 4"
    by (rule pad_measure)
  then show ?case by (simp only: in_measure prod.case unat_succ_mod4)
qed

text \<open>
  \<^verbatim>\<open>while ((binaryLength % 4) != 0) { gltfOutStream.put('\0'); binaryLength++; }\<close>
  \<^verbatim>\<open>binaryLength\<close> is a \<^verbatim>\<open>size_t\<close> that starts at the size of a vector held in
  memory and grows by at most 3, so it does not wrap and is a natural number here.
\<close>

function pad_binary :: "ofstream \<Rightarrow> nat \<Rightarrow> ofstream \<times> nat" where
  "pad_binary s binaryLength =
     (if binaryLength mod 4 \<noteq> 0 then pad_binary (put 0x00 s) (binaryLength + 1)
      else (s, binaryLength))"
  by pat_completeness auto
termination pad_binary
proof (relation "measure (\<lambda>(s, n). (4 - n mod 4) mod 4)", goal_cases)
  case 1
  show ?case by simp
next
  case (2 s n)
  then have "(4 - (n + 1) mod 4) mod 4 < (4 - n mod 4) mod 4"
    by (rule pad_measure)
  then show ?case by (simp only: in_measure prod.case)
qed

text \<open>
  The four \<^verbatim>\<open>put((x >> k) & 0xFF)\<close> of a length field, lowest byte first. The
  argument of \<^verbatim>\<open>put\<close> is a \<^verbatim>\<open>char\<close>: the masked value is narrowed to a byte.
\<close>

definition put_u32_le :: "uint32_t \<Rightarrow> ofstream \<Rightarrow> ofstream" where
  "put_u32_le x s =
     put (ucast (drop_bit 24 x AND 0xFF))
       (put (ucast (drop_bit 16 x AND 0xFF))
         (put (ucast (drop_bit 8 x AND 0xFF))
           (put (ucast (drop_bit 0 x AND 0xFF)) s)))"

text \<open>The same four \<^verbatim>\<open>put\<close> for the \<^verbatim>\<open>size_t binaryLength\<close>.\<close>

definition put_size_le :: "nat \<Rightarrow> ofstream \<Rightarrow> ofstream" where
  "put_size_le n s =
     put (word_of_nat (drop_bit 24 n AND 0xFF))
       (put (word_of_nat (drop_bit 16 n AND 0xFF))
         (put (word_of_nat (drop_bit 8 n AND 0xFF))
           (put (word_of_nat (drop_bit 0 n AND 0xFF)) s)))"

text \<open>
  The part of \<^verbatim>\<open>Raw2Gltf\<close> that writes to \<^verbatim>\<open>gltfOutStream\<close>. \<open>dump\<close> is the text
  that \<^verbatim>\<open>glTFJson.dump(indent)\<close> returns for the document, as bytes, and \<open>binary\<close> is
  \<^verbatim>\<open>*gltf->binary\<close>.
\<close>

definition emit :: "bool \<Rightarrow> (nat \<Rightarrow> byte list) \<Rightarrow> byte list \<Rightarrow> ofstream \<Rightarrow> ofstream" where
  "emit outputBinary dump binary gltfOutStream =
     (let s1 = (if outputBinary
                then write_s glb2JsonHeader (write_s glbHeader gltfOutStream)
                else gltfOutStream);
          s2 = write_s (dump (if outputBinary then 0 else 4)) s1
      in if outputBinary then
           (let jsonLength0 = (word_of_nat (tellp s2) :: uint32_t) - 20;
                (s3, jsonLength) = pad_json s2 jsonLength0;
                binHeader = (word_of_nat (tellp s3) :: uint32_t);
                s4 = write_s glb2BinaryHeader s3;
                s5 = write_s binary s4;
                (s6, binaryLength) = pad_binary s5 (length binary);
                totalLength = to_uint32 (tellp s6);
                s7 = put_u32_le jsonLength (put_u32_le totalLength (seekp 8 s6));
                s8 = put_size_le binaryLength (seekp (unat binHeader) s7)
            in seekp_end s8)
         else s2)"

text \<open>A file that has just been opened for writing.\<close>

definition fresh :: ofstream where
  "fresh = \<lparr>bytes = [], pos = 0\<rparr>"

text \<open>What a reader of the container sees: a little-endian 32-bit field at an offset.\<close>

definition get_u32_le :: "byte list \<Rightarrow> nat \<Rightarrow> nat" where
  "get_u32_le bs off =
     unat (bs ! off) + 2 ^ 8 * unat (bs ! (off + 1)) + 2 ^ 16 * unat (bs ! (off + 2))
       + 2 ^ 24 * unat (bs ! (off + 3))"

text \<open>Names for the parts of the container, used to state its layout.\<close>

definition pad4 :: "nat \<Rightarrow> nat" where
  "pad4 n = (4 - n mod 4) mod 4"

definition u32_le :: "uint32_t \<Rightarrow> byte list" where
  "u32_le x = [ucast (drop_bit 0 x AND 0xFF), ucast (drop_bit 8 x AND 0xFF),
               ucast (drop_bit 16 x AND 0xFF), ucast (drop_bit 24 x AND 0xFF)]"

definition size_le :: "nat \<Rightarrow> byte list" where
  "size_le n = [word_of_nat (drop_bit 0 n AND 0xFF), word_of_nat (drop_bit 8 n AND 0xFF),
                word_of_nat (drop_bit 16 n AND 0xFF), word_of_nat (drop_bit 24 n AND 0xFF)]"

definition magic_version :: "byte list" where
  "magic_version = [0x67, 0x6C, 0x54, 0x46, 0x02, 0x00, 0x00, 0x00]"

definition json_patched :: "(nat \<Rightarrow> byte list) \<Rightarrow> byte list \<Rightarrow> ofstream" where
  "json_patched dump binary =
     \<lparr>bytes = magic_version
         @ u32_le (to_uint32 (28 + length (dump 0) + pad4 (length (dump 0))
                                + length binary + pad4 (length binary)))
         @ u32_le (word_of_nat (length (dump 0) + pad4 (length (dump 0))))
         @ [0x4A, 0x53, 0x4F, 0x4E]
         @ dump 0 @ replicate (pad4 (length (dump 0))) 0x20
         @ glb2BinaryHeader
         @ binary @ replicate (pad4 (length binary)) 0x00,
       pos = 16\<rparr>"

definition glb_file :: "(nat \<Rightarrow> byte list) \<Rightarrow> byte list \<Rightarrow> byte list" where
  "glb_file dump binary = bytes (emit True dump binary fresh)"

definition example_dump :: "nat \<Rightarrow> byte list" where
  "example_dump indent = [0x7B, 0x7D]"

section \<open>The source scene, as Raw2Gltf.cpp reads it\<close>

text \<open>
  The program copies the \<^verbatim>\<open>float\<close> values of the scene into the document; a \<^verbatim>\<open>float\<close> is
  the real number that it stands for, and the vectors of the program are tuples of them.
  The arithmetic on \<^verbatim>\<open>float\<close> that the program calls is not computed on these reals:
  \<^verbatim>\<open>Vec3f::Length()\<close>, which is defined outside Raw2Gltf.cpp and rounds, underflows and
  overflows, is a parameter \<open>Length\<close> of the functions that call it, and what is proved of
  them holds for every such function.
\<close>

type_synonym Vec2f = "real \<times> real"
type_synonym Vec3f = "real \<times> real \<times> real"
type_synonym Vec4f = "real \<times> real \<times> real \<times> real"
type_synonym Vec4i = "int \<times> int \<times> int \<times> int"
type_synonym Quatf = "real \<times> real \<times> real \<times> real"
type_synonym Mat4f = "real list"

record RawNode =
  node_id :: int
  node_name :: string
  translation :: Vec3f
  rotation :: Quatf
  scale :: Vec3f
  isJoint :: bool
  childIds :: "int list"
  surfaceId :: int
  lightIx :: int
  extraSkinIx :: int
  node_userProperties :: "string list"

record RawChannel =
  nodeIndex :: int
  channel_translations :: "Vec3f list"
  channel_rotations :: "Quatf list"
  channel_scales :: "Vec3f list"
  channel_weights :: "real list"

record RawAnimation =
  animation_name :: string
  times :: "real list"
  channels :: "RawChannel list"

datatype CameraMode = CAMERA_MODE_PERSPECTIVE | CAMERA_MODE_ORTHOGRAPHIC

record RawCamera =
  camera_name :: string
  camera_nodeId :: int
  mode :: CameraMode
  perspective_aspectRatio :: real
  perspective_fovDegreesY :: real
  perspective_nearZ :: real
  perspective_farZ :: real
  orthographic_magX :: real
  orthographic_magY :: real
  orthographic_nearZ :: real
  orthographic_farZ :: real

datatype RawLightType = RAW_LIGHT_TYPE_DIRECTIONAL | RAW_LIGHT_TYPE_POINT | RAW_LIGHT_TYPE_SPOT

record RawLight =
  light_name :: string
  light_type :: RawLightType
  light_color :: Vec3f
  intensity :: real
  innerConeAngle :: real
  outerConeAngle :: real

record RawTexture =
  texture_name :: string
  fileLocation :: string

datatype RawTextureUsage =
    RAW_TEXTURE_USAGE_ALBEDO
  | RAW_TEXTURE_USAGE_DIFFUSE
  | RAW_TEXTURE_USAGE_NORMAL
  | RAW_TEXTURE_USAGE_EMISSIVE
  | RAW_TEXTURE_USAGE_OCCLUSION
  | RAW_TEXTURE_USAGE_METALLIC
  | RAW_TEXTURE_USAGE_ROUGHNESS
  | RAW_TEXTURE_USAGE_SHININESS

datatype RawMaterialType =
    RAW_MATERIAL_TYPE_OPAQUE
  | RAW_MATERIAL_TYPE_TRANSPARENT
  | RAW_MATERIAL_TYPE_SKINNED_OPAQUE
  | RAW_MATERIAL_TYPE_SKINNED_TRANSPARENT

text \<open>
  The shading models that Raw2Gltf.cpp tells apart; every other value of the enumeration
  is \<open>RAW_SHADING_MODEL_OTHER\<close>.
\<close>

datatype RawShadingModel =
    RAW_SHADING_MODEL_PBR_MET_ROUGH
  | RAW_SHADING_MODEL_BLINN
  | RAW_SHADING_MODEL_PHONG
  | RAW_SHADING_MODEL_OTHER

record RawMetRoughMatProps =
  mr_diffuseFactor :: Vec4f
  mr_emissiveFactor :: Vec3f
  mr_emissiveIntensity :: real
  mr_metallic :: real
  mr_roughness :: real
  mr_invertRoughnessMap :: bool

record RawTraditionalMatProps =
  tr_diffuseFactor :: Vec4f
  tr_emissiveFactor :: Vec3f
  tr_shininess :: real

text \<open>
  \<^verbatim>\<open>material.info\<close> points to one of the two property blocks; its \<^verbatim>\<open>shadingModel\<close>
  says which, and Raw2Gltf.cpp casts the pointer accordingly. A traditional block carries
  its shading model.
\<close>

datatype RawMatProps =
    MetRoughProps RawMetRoughMatProps
  | TraditionalProps RawShadingModel RawTraditionalMatProps

fun shadingModel :: "RawMatProps \<Rightarrow> RawShadingModel" where
  "shadingModel (MetRoughProps p) = RAW_SHADING_MODEL_PBR_MET_ROUGH"
| "shadingModel (TraditionalProps m p) = m"

record RawMaterial =
  material_id :: int
  material_name :: string
  material_type :: RawMaterialType
  isDoubleSided :: bool
  textures :: "RawTextureUsage \<Rightarrow> int"
  info :: RawMatProps
  material_userProperties :: "string list"

record RawBlendVertex =
  blend_position :: Vec3f
  blend_normal :: Vec3f
  blend_tangent :: Vec4f

record RawVertex =
  position :: Vec3f
  normal :: Vec3f
  tangent :: Vec4f
  color :: Vec4f
  uv0 :: Vec2f
  uv1 :: Vec2f
  jointIndices :: "Vec4i list"
  jointWeights :: "Vec4f list"
  blends :: "RawBlendVertex list"

record RawTriangle =
  verts :: "int \<times> int \<times> int"
  materialIndex :: int

datatype RawVertexAttribute =
    RAW_VERTEX_ATTRIBUTE_POSITION
  | RAW_VERTEX_ATTRIBUTE_NORMAL
  | RAW_VERTEX_ATTRIBUTE_TANGENT
  | RAW_VERTEX_ATTRIBUTE_COLOR
  | RAW_VERTEX_ATTRIBUTE_UV0
  | RAW_VERTEX_ATTRIBUTE_UV1
  | RAW_VERTEX_ATTRIBUTE_JOINT_INDICES
  | RAW_VERTEX_ATTRIBUTE_JOINT_WEIGHTS

record RawBlendChannel =
  defaultDeform :: real
  hasNormals :: bool
  hasTangents :: bool
  channel_name :: string

record RawSurface =
  surface_id :: int
  surface_name :: string
  bounds_min :: Vec3f
  bounds_max :: Vec3f
  blendChannels :: "RawBlendChannel list"
  jointIds :: "int list"
  inverseBindMatrices :: "Mat4f list"
  skeletonRootId :: int

text \<open>
  \<^verbatim>\<open>RawModel\<close>: the bit mask \<^verbatim>\<open>GetVertexAttributes()\<close> is the set of the attributes whose
  bit is set.
\<close>

record RawModel =
  rootNode :: int
  vertexAttributes :: "RawVertexAttribute set"
  globalWeightCount :: int
  extraSkinCount :: nat
  vertices :: "RawVertex list"
  triangles :: "RawTriangle list"
  raw_textures :: "RawTexture list"
  raw_materials :: "RawMaterial list"
  surfaces :: "RawSurface list"
  raw_animations :: "RawAnimation list"
  raw_cameras :: "RawCamera list"
  raw_lights :: "RawLight list"
  raw_nodes :: "RawNode list"

text \<open>
  The accessors of \<^verbatim>\<open>RawModel\<close> take an \<^verbatim>\<open>int\<close> and index a vector: outside the vector
  the behaviour of the program is undefined, which is \<open>None\<close> here.
\<close>

definition nth_at :: "'a list \<Rightarrow> int \<Rightarrow> 'a option" where
  "nth_at xs i = (if 0 \<le> i \<and> i < int (length xs) then Some (xs ! nat i) else None)"

definition GetNode :: "RawModel \<Rightarrow> int \<Rightarrow> RawNode option" where
  "GetNode raw i = nth_at (raw_nodes raw) i"

definition GetNodeCount :: "RawModel \<Rightarrow> int" where
  "GetNodeCount raw = int (length (raw_nodes raw))"

definition GetVertexCount :: "RawModel \<Rightarrow> int" where
  "GetVertexCount raw = int (length (vertices raw))"

definition GetTriangleCount :: "RawModel \<Rightarrow> int" where
  "GetTriangleCount raw = int (length (triangles raw))"




definition GetTexture :: "RawModel \<Rightarrow> int \<Rightarrow> RawTexture option" where
  "GetTexture raw i = nth_at (raw_textures raw) i"

text \<open>
  Modelled from the spec: \<^verbatim>\<open>RawModel::GetNodeById\<close> and \<^verbatim>\<open>RawModel::GetSurfaceById\<close>
  are defined outside Raw2Gltf.cpp. Identifiers are "opaque signed 64-bit; negative indices
  mean absent": the index of the first entry with the identifier, and -1 when there is none.
\<close>

fun index_of :: "('a \<Rightarrow> bool) \<Rightarrow> 'a list \<Rightarrow> int" where
  "index_of P [] = -1"
| "index_of P (x # xs) = (if P x then 0 else (let i = index_of P xs in if i < 0 then -1 else i + 1))"

definition GetNodeById :: "RawModel \<Rightarrow> int \<Rightarrow> int" where
  "GetNodeById raw ident = index_of (\<lambda>n. node_id n = ident) (raw_nodes raw)"

definition GetSurfaceById :: "RawModel \<Rightarrow> int \<Rightarrow> int" where
  "GetSurfaceById raw ident = index_of (\<lambda>s. surface_id s = ident) (surfaces raw)"

datatype UseLongIndicesOptions = NEVER | AUTO | ALWAYS

record DracoOptions =
  draco_enabled :: bool
  compressionLevel :: int
  quantBitsPosition :: int
  quantBitsTexCoord :: int
  quantBitsNormal :: int
  quantBitsColor :: int
  quantBitsGeneric :: int

record GltfOptions =
  useLongIndices :: UseLongIndicesOptions
  useKHRMatUnlit :: bool
  useKHRLightsPunctual :: bool
  usePBRMetRough :: bool
  disableSparseBlendShapes :: bool
  useBlendShapeNormals :: bool
  useBlendShapeTangents :: bool
  enableUserProperties :: bool
  outputBinary :: bool
  draco :: DracoOptions

section \<open>The glTF document under construction\<close>

text \<open>
  Modelled from the spec: \<^verbatim>\<open>GLType\<close> and its constants are declared in GltfModel.hpp,
  outside Raw2Gltf.cpp. The spec names the component types (UINT16, UINT32, float) and the
  accessor types SCALAR, VEC2, VEC3, VEC4 and MAT4; Raw2Gltf.cpp writes one of them out, as
  \<^verbatim>\<open>{CT_FLOAT, 1, "SCALAR"}\<close>.
\<close>

datatype ComponentType = CT_USHORT | CT_UINT | CT_FLOAT

record GLType =
  componentType :: ComponentType
  componentCount :: nat
  dataType :: string

definition GLT_FLOAT :: GLType where
  "GLT_FLOAT = \<lparr>componentType = CT_FLOAT, componentCount = 1, dataType = ''SCALAR''\<rparr>"

definition GLT_USHORT :: GLType where
  "GLT_USHORT = \<lparr>componentType = CT_USHORT, componentCount = 1, dataType = ''SCALAR''\<rparr>"

definition GLT_UINT :: GLType where
  "GLT_UINT = \<lparr>componentType = CT_UINT, componentCount = 1, dataType = ''SCALAR''\<rparr>"

definition GLT_VEC2F :: GLType where
  "GLT_VEC2F = \<lparr>componentType = CT_FLOAT, componentCount = 2, dataType = ''VEC2''\<rparr>"

definition GLT_VEC3F :: GLType where
  "GLT_VEC3F = \<lparr>componentType = CT_FLOAT, componentCount = 3, dataType = ''VEC3''\<rparr>"

definition GLT_VEC4F :: GLType where
  "GLT_VEC4F = \<lparr>componentType = CT_FLOAT, componentCount = 4, dataType = ''VEC4''\<rparr>"

definition GLT_VEC4I :: GLType where
  "GLT_VEC4I = \<lparr>componentType = CT_USHORT, componentCount = 4, dataType = ''VEC4''\<rparr>"

definition GLT_MAT4F :: GLType where
  "GLT_MAT4F = \<lparr>componentType = CT_FLOAT, componentCount = 16, dataType = ''MAT4''\<rparr>"

definition GLT_QUATF :: GLType where
  "GLT_QUATF = \<lparr>componentType = CT_FLOAT, componentCount = 4, dataType = ''VEC4''\<rparr>"

fun componentSize :: "ComponentType \<Rightarrow> nat" where
  "componentSize CT_USHORT = 2"
| "componentSize CT_UINT = 4"
| "componentSize CT_FLOAT = 4"

definition byteStride :: "GLType \<Rightarrow> nat" where
  "byteStride t = componentSize (componentType t) * componentCount t"

text \<open>The values that the program copies into the binary buffer.\<close>

datatype gl_value =
    UIntV nat
  | FloatV real
  | Vec2V Vec2f
  | Vec3V Vec3f
  | Vec4V Vec4f
  | Vec4iV Vec4i
  | Mat4V Mat4f

datatype BufferViewTarget = GL_ARRAY_NONE | GL_ARRAY_BUFFER | GL_ELEMENT_ARRAY_BUFFER

text \<open>
  A buffer view is known by the elements that were copied into it, each with the type it
  was written as, or by the length of the encoded bytes it covers. The bytes of the
  binary buffer themselves are not part of this model.
\<close>

record BufferViewData =
  view_ix :: nat
  target :: BufferViewTarget
  view_data :: "(GLType \<times> gl_value) list"
  raw_length :: nat

definition view_byteLength :: "BufferViewData \<Rightarrow> nat" where
  "view_byteLength v = sum_list (map (\<lambda>(t, x). byteStride t) (view_data v)) + raw_length v"

record SparseData =
  sparse_count :: nat
  sparse_indices :: nat
  sparse_indexType :: GLType
  sparse_values :: nat
  sparse_valueType :: GLType

record AccessorData =
  accessor_ix :: nat
  accessor_bufferView :: "nat option"
  accessor_byteOffset :: nat
  accessor_type :: GLType
  accessor_count :: nat
  accessor_min :: "real list"
  accessor_max :: "real list"
  accessor_name :: string
  sparse :: "SparseData option"

record Target =
  target_position :: nat
  target_normal :: "nat option"
  target_tangent :: "nat option"

record PrimitiveData =
  indices :: nat
  primitive_material :: nat
  attributes :: "(string \<times> nat) list"
  targets :: "Target list"
  dracoMesh :: bool
  dracoBufferView :: "nat option"

record MeshData =
  mesh_ix :: nat
  mesh_name :: string
  mesh_weights :: "real list"
  primitives :: "PrimitiveData list"

text \<open>
  A texture of the document is known by the request that made it: the source texture and
  the purpose tag of \<^verbatim>\<open>simple\<close>, or the source textures, the tag, the pixel combiner and
  the sRGB flag of \<^verbatim>\<open>combine\<close>.
\<close>

type_synonym pixel = "real \<times> real \<times> real \<times> real"

datatype TextureData =
    SimpleTexture int string
  | CombinedTexture "int list" string "pixel list \<Rightarrow> pixel" bool

record PBRMetallicRoughness =
  baseColorTexture :: "TextureData option"
  metRoughTexture :: "TextureData option"
  baseColorFactor :: Vec4f
  pbr_metallic :: real
  pbr_roughness :: real

record MaterialData =
  material_ix :: nat
  mat_name :: string
  isTransparent :: bool
  mat_isDoubleSided :: bool
  mat_shadingModel :: RawShadingModel
  normalTexture :: "TextureData option"
  occlusionTexture :: "TextureData option"
  emissiveTexture :: "TextureData option"
  emissiveFactor :: Vec3f
  khrCmnUnlitMat :: bool
  pbrMetRough :: "PBRMetallicRoughness option"
  mat_userProperties :: "string list"

text \<open>
  Modelled from the spec: \<^verbatim>\<open>NodeData\<close> is declared in NodeData.hpp. A node has
  "name, T/R/S, children: indices, mesh?, skin?, camera?, light?, userProperties"; the
  absent references are \<open>-1\<close>, the value that Raw2Gltf.cpp compares \<^verbatim>\<open>nodeData->skin\<close> with.
\<close>

record NodeData =
  nd_ix :: nat
  nd_name :: string
  nd_translation :: Vec3f
  nd_rotation :: Quatf
  nd_scale :: Vec3f
  nd_isJoint :: bool
  nd_children :: "int list"
  nd_mesh :: int
  nd_skin :: int
  nd_camera :: int
  nd_light :: int
  nd_userProperties :: "string list"

definition new_NodeData :: "string \<Rightarrow> Vec3f \<Rightarrow> Quatf \<Rightarrow> Vec3f \<Rightarrow> bool \<Rightarrow> NodeData" where
  "new_NodeData name t r s j =
     \<lparr>nd_ix = 0, nd_name = name, nd_translation = t, nd_rotation = r, nd_scale = s,
      nd_isJoint = j, nd_children = [], nd_mesh = -1, nd_skin = -1, nd_camera = -1,
      nd_light = -1, nd_userProperties = []\<rparr>"

text \<open>
  Modelled from the spec: \<^verbatim>\<open>AnimationData\<close> is declared in AnimationData.hpp. An animation
  is "name, shared time accessor, channels: (target node, target path, sampler accessor)".
\<close>

record AnimationChannel =
  channel_node :: nat
  channel_path :: string
  channel_output :: nat

record AnimationData =
  animation_ix :: nat
  anim_name :: string
  timeAccessor :: nat
  anim_channels :: "AnimationChannel list"

record CameraData =
  camera_ix :: nat
  cam_name :: string
  cam_type :: string
  aspectRatio :: real
  yfov :: real
  xmag :: real
  ymag :: real
  znear :: real
  zfar :: real

record LightData =
  light_ix :: nat
  lt_name :: string
  lt_type :: RawLightType
  lt_color :: Vec3f
  lt_intensity :: real
  lt_innerConeAngle :: real
  lt_outerConeAngle :: real

record SkinData =
  skin_ix :: nat
  joints :: "nat list"
  skin_inverseBindMatrices :: "nat option"
  skeletonRoot :: "nat option"
  isExtraSkin :: bool

record SceneData =
  scene_ix :: nat
  scene_name :: string
  scene_root :: nat

record GltfModel =
  accessors :: "AccessorData list"
  bufferViews :: "BufferViewData list"
  meshes :: "MeshData list"
  materials :: "MaterialData list"
  nodes :: "NodeData list"
  animations :: "AnimationData list"
  cameras :: "CameraData list"
  lights :: "LightData list"
  skins :: "SkinData list"
  scenes :: "SceneData list"

text \<open>\<^verbatim>\<open>new GltfModel(options)\<close>: every holder is empty.\<close>

definition new_GltfModel :: GltfModel where
  "new_GltfModel =
     \<lparr>accessors = [], bufferViews = [], meshes = [], materials = [], nodes = [],
      animations = [], cameras = [], lights = [], skins = [], scenes = []\<rparr>"

subsection \<open>The operations of GltfModel\<close>

text \<open>
  Modelled from the spec: the holders and the operations on buffer views and accessors
  are defined in GltfModel.hpp and GltfModel.cpp, outside Raw2Gltf.cpp. A holder appends
  the entity and stamps it with the dense index it gets, the number of entries before it.
  References to held entities are their indices.
\<close>

definition hold_accessor :: "AccessorData \<Rightarrow> GltfModel \<Rightarrow> nat \<times> GltfModel" where
  "hold_accessor a g =
     (length (accessors g),
      g\<lparr>accessors := accessors g @ [a\<lparr>accessor_ix := length (accessors g)\<rparr>]\<rparr>)"

definition hold_bufferView :: "BufferViewData \<Rightarrow> GltfModel \<Rightarrow> nat \<times> GltfModel" where
  "hold_bufferView v g =
     (length (bufferViews g),
      g\<lparr>bufferViews := bufferViews g @ [v\<lparr>view_ix := length (bufferViews g)\<rparr>]\<rparr>)"


definition hold_material :: "MaterialData \<Rightarrow> GltfModel \<Rightarrow> nat \<times> GltfModel" where
  "hold_material m g =
     (length (materials g),
      g\<lparr>materials := materials g @ [m\<lparr>material_ix := length (materials g)\<rparr>]\<rparr>)"

definition hold_node :: "NodeData \<Rightarrow> GltfModel \<Rightarrow> nat \<times> GltfModel" where
  "hold_node n g =
     (length (nodes g), g\<lparr>nodes := nodes g @ [n\<lparr>nd_ix := length (nodes g)\<rparr>]\<rparr>)"

definition hold_animation :: "AnimationData \<Rightarrow> GltfModel \<Rightarrow> nat \<times> GltfModel" where
  "hold_animation a g =
     (length (animations g),
      g\<lparr>animations := animations g @ [a\<lparr>animation_ix := length (animations g)\<rparr>]\<rparr>)"

definition hold_camera :: "CameraData \<Rightarrow> GltfModel \<Rightarrow> nat \<times> GltfModel" where
  "hold_camera c g =
     (length (cameras g), g\<lparr>cameras := cameras g @ [c\<lparr>camera_ix := length (cameras g)\<rparr>]\<rparr>)"

definition hold_light :: "LightData \<Rightarrow> GltfModel \<Rightarrow> nat \<times> GltfModel" where
  "hold_light l g =
     (length (lights g), g\<lparr>lights := lights g @ [l\<lparr>light_ix := length (lights g)\<rparr>]\<rparr>)"

definition hold_skin :: "SkinData \<Rightarrow> GltfModel \<Rightarrow> nat \<times> GltfModel" where
  "hold_skin s g =
     (length (skins g), g\<lparr>skins := skins g @ [s\<lparr>skin_ix := length (skins g)\<rparr>]\<rparr>)"

definition hold_scene :: "SceneData \<Rightarrow> GltfModel \<Rightarrow> nat \<times> GltfModel" where
  "hold_scene s g =
     (length (scenes g), g\<lparr>scenes := scenes g @ [s\<lparr>scene_ix := length (scenes g)\<rparr>]\<rparr>)"

text \<open>
  Modelled from the spec: \<^verbatim>\<open>GetAlignedBufferView\<close> "returns a fresh empty view", and
  \<^verbatim>\<open>CopyToBufferView\<close> and \<^verbatim>\<open>appendAsBinaryArray\<close> append the data to the buffer and extend
  "the view's length to cover the new bytes". \<^verbatim>\<open>AddRawBufferView\<close> "creates a view covering
  an arbitrary pre-encoded byte range".
\<close>

definition GetAlignedBufferView :: "BufferViewTarget \<Rightarrow> GltfModel \<Rightarrow> nat \<times> GltfModel" where
  "GetAlignedBufferView t g =
     hold_bufferView \<lparr>view_ix = 0, target = t, view_data = [], raw_length = 0\<rparr> g"

definition CopyToBufferView :: "nat \<Rightarrow> gl_value list \<Rightarrow> GLType \<Rightarrow> GltfModel \<Rightarrow> GltfModel" where
  "CopyToBufferView v xs t g =
     g\<lparr>bufferViews := (bufferViews g)
        [v := (bufferViews g ! v)\<lparr>view_data := view_data (bufferViews g ! v) @ map (Pair t) xs\<rparr>]\<rparr>"

definition appendAsBinaryArray :: "nat \<Rightarrow> gl_value list \<Rightarrow> GLType \<Rightarrow> GltfModel \<Rightarrow> GltfModel" where
  "appendAsBinaryArray v xs t g = CopyToBufferView v xs t g"

definition AddRawBufferView :: "nat \<Rightarrow> GltfModel \<Rightarrow> nat \<times> GltfModel" where
  "AddRawBufferView n g =
     hold_bufferView \<lparr>view_ix = 0, target = GL_ARRAY_NONE, view_data = [], raw_length = n\<rparr> g"

text \<open>
  Modelled from the spec: \<^verbatim>\<open>AddAccessorWithView\<close> "reuses an existing view, appending at
  the current end", and \<^verbatim>\<open>AddAccessorAndView\<close> "creates a new buffer view (target inferred
  from component type: integer index types to element-array; everything else to
  array-buffer or none depending on context), copies data, and creates an accessor
  spanning it"; the other target is taken to be none. \<^verbatim>\<open>new AccessorData(type)\<close> is an
  accessor with no buffer view.
\<close>

definition new_AccessorData :: "GLType \<Rightarrow> AccessorData" where
  "new_AccessorData t =
     \<lparr>accessor_ix = 0, accessor_bufferView = None, accessor_byteOffset = 0, accessor_type = t,
      accessor_count = 0, accessor_min = [], accessor_max = [], accessor_name = [],
      sparse = None\<rparr>"

definition AddAccessorWithView ::
    "nat \<Rightarrow> GLType \<Rightarrow> gl_value list \<Rightarrow> string \<Rightarrow> GltfModel \<Rightarrow> nat \<times> GltfModel" where
  "AddAccessorWithView v t xs name g =
     hold_accessor
       ((new_AccessorData t)
          \<lparr>accessor_bufferView := Some v,
           accessor_byteOffset := view_byteLength (bufferViews g ! v),
           accessor_count := length xs, accessor_name := name\<rparr>)
       (CopyToBufferView v xs t g)"

definition AddAccessorAndView :: "GLType \<Rightarrow> gl_value list \<Rightarrow> GltfModel \<Rightarrow> nat \<times> GltfModel" where
  "AddAccessorAndView t xs g =
     (let (v, g1) = GetAlignedBufferView
                      (if componentType t = CT_FLOAT then GL_ARRAY_NONE
                       else GL_ELEMENT_ARRAY_BUFFER) g
      in AddAccessorWithView v t xs [] g1)"

text \<open>
  Modelled from the spec: \<^verbatim>\<open>AddSparseAccessor\<close> makes a "sparse accessor whose non-sparse
  fields mirror base"; with the dummy views its "sparse substitution touches one vertex".
  \<^verbatim>\<open>AddSparseAccessorWithView\<close> is the "same but copies values into valuesView first", and
  substitutes as many elements as there are values.
\<close>

definition AddSparseAccessor ::
    "nat \<Rightarrow> nat \<Rightarrow> GLType \<Rightarrow> nat \<Rightarrow> GLType \<Rightarrow> string \<Rightarrow> GltfModel \<Rightarrow> nat \<times> GltfModel" where
  "AddSparseAccessor base indexView indexType valueView valueType name g =
     hold_accessor
       ((accessors g ! base)
          \<lparr>accessor_min := [], accessor_max := [], accessor_name := name,
           sparse := Some \<lparr>sparse_count = 1, sparse_indices = indexView,
                           sparse_indexType = indexType, sparse_values = valueView,
                           sparse_valueType = valueType\<rparr>\<rparr>) g"

definition AddSparseAccessorWithView ::
    "nat \<Rightarrow> nat \<Rightarrow> GLType \<Rightarrow> nat \<Rightarrow> GLType \<Rightarrow> gl_value list \<Rightarrow> string \<Rightarrow> GltfModel
      \<Rightarrow> nat \<times> GltfModel" where
  "AddSparseAccessorWithView base indexView indexType valueView valueType xs name g =
     hold_accessor
       ((accessors g ! base)
          \<lparr>accessor_min := [], accessor_max := [], accessor_name := name,
           sparse := Some \<lparr>sparse_count = length xs, sparse_indices = indexView,
                           sparse_indexType = indexType, sparse_values = valueView,
                           sparse_valueType = valueType\<rparr>\<rparr>)
       (CopyToBufferView valueView xs valueType g)"

section \<open>Surfaces: primitives, attributes and morph targets (Raw2Gltf.cpp, lines 475-817)\<close>

text \<open>
  A \<^verbatim>\<open>for\<close> loop over a vector whose body may fail: the state goes through the elements in
  order, and a failure ends the run.
\<close>

primrec mfold :: "('a \<Rightarrow> 's \<Rightarrow> 's option) \<Rightarrow> 'a list \<Rightarrow> 's \<Rightarrow> 's option" where
  "mfold f [] s = Some s"
| "mfold f (x # xs) s = (case f x s of None \<Rightarrow> None | Some s' \<Rightarrow> mfold f xs s')"

text \<open>\<^verbatim>\<open>std::to_string\<close> of a number that is not negative.\<close>

fun to_string :: "nat \<Rightarrow> string" where
  "to_string n =
     (if n < 10 then [char_of (48 + n)] else to_string (n div 10) @ [char_of (48 + n mod 10)])"

text \<open>\<^verbatim>\<open>getIndexArray\<close>: the cast to \<^verbatim>\<open>TriangleIndex\<close>, a \<^verbatim>\<open>uint32_t\<close>, wraps.\<close>

definition TriangleIndex :: "int \<Rightarrow> gl_value" where
  "TriangleIndex i = UIntV (nat (i mod 2 ^ 32))"

definition getIndexArray :: "RawModel \<Rightarrow> gl_value list" where
  "getIndexArray raw =
     concat (map (\<lambda>t. case verts t of (a, b, c) \<Rightarrow> [TriangleIndex a, TriangleIndex b, TriangleIndex c])
                 (triangles raw))"

definition toStdVec :: "Vec3f \<Rightarrow> real list" where
  "toStdVec v = (case v of (x, y, z) \<Rightarrow> [x, y, z])"

text \<open>\<^verbatim>\<open>accessor->min = ...; accessor->max = ...;\<close> on a held accessor.\<close>

definition set_min_max :: "nat \<Rightarrow> real list \<Rightarrow> real list \<Rightarrow> GltfModel \<Rightarrow> GltfModel" where
  "set_min_max a lo hi g =
     g\<lparr>accessors := (accessors g)[a := (accessors g ! a)\<lparr>accessor_min := lo, accessor_max := hi\<rparr>]\<rparr>"

text \<open>
  Lines 502-504: the width of the indices of one surface model.
\<close>

definition useLongIndices_of :: "GltfOptions \<Rightarrow> RawModel \<Rightarrow> bool" where
  "useLongIndices_of options surfaceModel =
     (useLongIndices options = ALWAYS \<or>
      (useLongIndices options = AUTO \<and> GetVertexCount surfaceModel > 65535))"

definition index_type :: "bool \<Rightarrow> GLType" where
  "index_type useLong = (if useLong then GLT_UINT else GLT_USHORT)"

definition new_PrimitiveData :: "nat \<Rightarrow> nat \<Rightarrow> bool \<Rightarrow> PrimitiveData" where
  "new_PrimitiveData indexes mData withDraco =
     \<lparr>indices = indexes, primitive_material = mData, attributes = [], targets = [],
      dracoMesh = withDraco, dracoBufferView = None\<rparr>"

text \<open>Lines 506-534: the indices of the primitive, with or without Draco.\<close>

definition build_indices ::
    "GltfOptions \<Rightarrow> RawModel \<Rightarrow> nat \<Rightarrow> GltfModel \<Rightarrow> PrimitiveData \<times> GltfModel" where
  "build_indices options surfaceModel mData g =
     (let useLong = useLongIndices_of options surfaceModel
      in if draco_enabled (draco options) then
           (let (indexes, g1) = hold_accessor (new_AccessorData (index_type useLong)) g;
                g2 = g1\<lparr>accessors := (accessors g1)
                       [indexes := (accessors g1 ! indexes)
                          \<lparr>accessor_count := unat (to_uint32 (3 * length (triangles surfaceModel)))\<rparr>]\<rparr>
            in (new_PrimitiveData indexes mData True, g2))
         else
           (let (view, g1) = GetAlignedBufferView GL_ELEMENT_ARRAY_BUFFER g;
                (indexes, g2) = AddAccessorWithView view (index_type useLong)
                                  (getIndexArray surfaceModel) [] g1
            in (new_PrimitiveData indexes mData False, g2)))"

text \<open>
  Modelled from the spec: \<^verbatim>\<open>AddAttributeToPrimitive\<close> and \<^verbatim>\<open>AddAttributeArrayToPrimitive\<close>
  are defined in GltfModel.hpp. Each base attribute "appends to the array-buffer view and
  creates an accessor"; with compression the compressed view stands for "the raw
  attribute/index views", and an attribute that the codec takes gets an accessor with no
  buffer view. The accessor is entered in the attribute map of the primitive under its name.
\<close>

definition AddAttributeToPrimitive ::
    "string \<Rightarrow> GLType \<Rightarrow> bool \<Rightarrow> gl_value list \<Rightarrow> PrimitiveData \<Rightarrow> GltfModel
      \<Rightarrow> nat \<times> PrimitiveData \<times> GltfModel" where
  "AddAttributeToPrimitive gltfName glType hasDracoType xs primitive g =
     (let (accessor, g2) =
            (if hasDracoType \<and> dracoMesh primitive then
               (let (a, g1) = hold_accessor (new_AccessorData glType) g
                in (a, g1\<lparr>accessors := (accessors g1)
                        [a := (accessors g1 ! a)\<lparr>accessor_count := length xs\<rparr>]\<rparr>))
             else
               (let (view, g1) = GetAlignedBufferView GL_ARRAY_BUFFER g
                in AddAccessorWithView view glType xs [] g1))
      in (accessor, primitive\<lparr>attributes := attributes primitive @ [(gltfName, accessor)]\<rparr>, g2))"

text \<open>
  The entry \<open>k\<close> of a per-vertex array attribute, for every vertex; a vertex without that
  entry is a read outside the vector.
\<close>

primrec those_map :: "('a \<Rightarrow> 'b option) \<Rightarrow> 'a list \<Rightarrow> 'b list option" where
  "those_map f [] = Some []"
| "those_map f (x # xs) =
     (case f x of None \<Rightarrow> None
      | Some y \<Rightarrow> (case those_map f xs of None \<Rightarrow> None | Some ys \<Rightarrow> Some (y # ys)))"

text \<open>
  Lines 612-637: \<^verbatim>\<open>for (int i = 0; i < GetGlobalWeightCount(); i += 4)\<close> runs for
  \<open>i / 4 = 0, 1, ...\<close> below a quarter of the weight count, rounded up.
\<close>

definition weight_groups :: "RawModel \<Rightarrow> nat list" where
  "weight_groups surfaceModel = [0 ..< nat ((globalWeightCount surfaceModel + 3) div 4)]"

definition add_joints ::
    "RawModel \<Rightarrow> nat \<Rightarrow> PrimitiveData \<times> GltfModel \<Rightarrow> (PrimitiveData \<times> GltfModel) option" where
  "add_joints surfaceModel k s =
     (case those_map (\<lambda>v. nth_at (jointIndices v) (int k)) (vertices surfaceModel) of
        None \<Rightarrow> None
      | Some xs \<Rightarrow>
          (let (a, primitive, g) =
                 AddAttributeToPrimitive (''JOINTS_'' @ to_string k) GLT_VEC4I True
                   (map Vec4iV xs) (fst s) (snd s)
           in Some (primitive, g)))"

definition add_weights ::
    "RawModel \<Rightarrow> nat \<Rightarrow> PrimitiveData \<times> GltfModel \<Rightarrow> (PrimitiveData \<times> GltfModel) option" where
  "add_weights surfaceModel k s =
     (case those_map (\<lambda>v. nth_at (jointWeights v) (int k)) (vertices surfaceModel) of
        None \<Rightarrow> None
      | Some xs \<Rightarrow>
          (let (a, primitive, g) =
                 AddAttributeToPrimitive (''WEIGHTS_'' @ to_string k) GLT_VEC4F True
                   (map Vec4V xs) (fst s) (snd s)
           in Some (primitive, g)))"

text \<open>
  Lines 540-637: the base attributes. The result holds \<^verbatim>\<open>pAccBase\<close>, \<^verbatim>\<open>nAccBase\<close> and
  \<^verbatim>\<open>tAccBase\<close>, which stay null when the surface model does not have the attribute.
\<close>

record BaseAccessors =
  pAccBase :: "nat option"
  nAccBase :: "nat option"
  tAccBase :: "nat option"

definition add_position ::
    "RawModel \<Rightarrow> RawSurface \<Rightarrow> BaseAccessors \<times> PrimitiveData \<times> GltfModel
      \<Rightarrow> BaseAccessors \<times> PrimitiveData \<times> GltfModel" where
  "add_position surfaceModel rawSurface s =
     (case s of (b, primitive, g) \<Rightarrow>
        if RAW_VERTEX_ATTRIBUTE_POSITION \<in> vertexAttributes surfaceModel then
          (let (accessor, primitive1, g1) =
                 AddAttributeToPrimitive ''POSITION'' GLT_VEC3F True
                   (map (Vec3V \<circ> position) (vertices surfaceModel)) primitive g;
               g2 = set_min_max accessor (toStdVec (bounds_min rawSurface))
                      (toStdVec (bounds_max rawSurface)) g1
           in (b\<lparr>pAccBase := Some accessor\<rparr>, primitive1, g2))
        else s)"

definition add_normal ::
    "RawModel \<Rightarrow> BaseAccessors \<times> PrimitiveData \<times> GltfModel
      \<Rightarrow> BaseAccessors \<times> PrimitiveData \<times> GltfModel" where
  "add_normal surfaceModel s =
     (case s of (b, primitive, g) \<Rightarrow>
        if RAW_VERTEX_ATTRIBUTE_NORMAL \<in> vertexAttributes surfaceModel then
          (let (accessor, primitive1, g1) =
                 AddAttributeToPrimitive ''NORMAL'' GLT_VEC3F True
                   (map (Vec3V \<circ> normal) (vertices surfaceModel)) primitive g
           in (b\<lparr>nAccBase := Some accessor\<rparr>, primitive1, g1))
        else s)"

definition add_tangent ::
    "RawModel \<Rightarrow> BaseAccessors \<times> PrimitiveData \<times> GltfModel
      \<Rightarrow> BaseAccessors \<times> PrimitiveData \<times> GltfModel" where
  "add_tangent surfaceModel s =
     (case s of (b, primitive, g) \<Rightarrow>
        if RAW_VERTEX_ATTRIBUTE_TANGENT \<in> vertexAttributes surfaceModel then
          (let (accessor, primitive1, g1) =
                 AddAttributeToPrimitive ''TANGENT'' GLT_VEC4F False
                   (map (Vec4V \<circ> tangent) (vertices surfaceModel)) primitive g
           in (b\<lparr>tAccBase := Some accessor\<rparr>, primitive1, g1))
        else s)"

definition add_plain ::
    "RawModel \<Rightarrow> RawVertexAttribute \<Rightarrow> string \<Rightarrow> GLType \<Rightarrow> gl_value list
      \<Rightarrow> PrimitiveData \<times> GltfModel \<Rightarrow> PrimitiveData \<times> GltfModel" where
  "add_plain surfaceModel attribute gltfName glType xs s =
     (if attribute \<in> vertexAttributes surfaceModel then
        (let (a, primitive, g) = AddAttributeToPrimitive gltfName glType True xs (fst s) (snd s)
         in (primitive, g))
      else s)"

definition build_attributes ::
    "RawModel \<Rightarrow> RawSurface \<Rightarrow> PrimitiveData \<Rightarrow> GltfModel
      \<Rightarrow> (BaseAccessors \<times> PrimitiveData \<times> GltfModel) option" where
  "build_attributes surfaceModel rawSurface primitive g =
     (let (b, s3) =
            add_tangent surfaceModel
              (add_normal surfaceModel
                (add_position surfaceModel rawSurface
                  (\<lparr>pAccBase = None, nAccBase = None, tAccBase = None\<rparr>, primitive, g)));
          s4 = add_plain surfaceModel RAW_VERTEX_ATTRIBUTE_COLOR ''COLOR_0'' GLT_VEC4F
                 (map (Vec4V \<circ> color) (vertices surfaceModel)) s3;
          s5 = add_plain surfaceModel RAW_VERTEX_ATTRIBUTE_UV0 ''TEXCOORD_0'' GLT_VEC2F
                 (map (Vec2V \<circ> uv0) (vertices surfaceModel)) s4;
          s6 = add_plain surfaceModel RAW_VERTEX_ATTRIBUTE_UV1 ''TEXCOORD_1'' GLT_VEC2F
                 (map (Vec2V \<circ> uv1) (vertices surfaceModel)) s5
      in case (if RAW_VERTEX_ATTRIBUTE_JOINT_INDICES \<in> vertexAttributes surfaceModel
               then mfold (add_joints surfaceModel) (weight_groups surfaceModel) s6
               else Some s6) of
           None \<Rightarrow> None
         | Some s7 \<Rightarrow>
             (case (if RAW_VERTEX_ATTRIBUTE_JOINT_WEIGHTS \<in> vertexAttributes surfaceModel
                    then mfold (add_weights surfaceModel) (weight_groups surfaceModel) s7
                    else Some s7) of
                None \<Rightarrow> None
              | Some s8 \<Rightarrow> Some (b, s8)))"

subsection \<open>Morph targets (lines 639-777)\<close>

text \<open>
  Modelled from the spec: \<^verbatim>\<open>Bounds\<close> is declared outside Raw2Gltf.cpp; the program uses it
  to "track bounds of position deltas". The first point is both bounds, a later point
  widens them.
\<close>

record Bounds =
  bounds_lo :: Vec3f
  bounds_hi :: Vec3f
  initialized :: bool

definition new_Bounds :: Bounds where
  "new_Bounds = \<lparr>bounds_lo = (0, 0, 0), bounds_hi = (0, 0, 0), initialized = False\<rparr>"

definition AddPoint :: "Vec3f \<Rightarrow> Bounds \<Rightarrow> Bounds" where
  "AddPoint p b =
     (if initialized b then
        (case (p, bounds_lo b, bounds_hi b) of ((x, y, z), (lx, ly, lz), (hx, hy, hz)) \<Rightarrow>
           \<lparr>bounds_lo = (min lx x, min ly y, min lz z),
            bounds_hi = (max hx x, max hy y, max hz z), initialized = True\<rparr>)
      else \<lparr>bounds_lo = p, bounds_hi = p, initialized = True\<rparr>)"

record Collected =
  sparseIndices :: "nat list"
  positions :: "Vec3f list"
  normals :: "Vec3f list"
  tangents :: "Vec4f list"
  shapeBounds :: Bounds

definition new_Collected :: Collected where
  "new_Collected =
     \<lparr>sparseIndices = [], positions = [], normals = [], tangents = [], shapeBounds = new_Bounds\<rparr>"

text \<open>
  Lines 651-679, the body of the loop over the vertices, for the vertex \<open>jj\<close>. \<open>Length\<close>
  is \<^verbatim>\<open>Vec3f::Length()\<close>; the test \<^verbatim>\<open>blendVertex.position.Length() > 0.00\<close> is false when
  the length is not a number, which is any value of \<open>Length\<close> that is not positive.
\<close>

definition collect_vertex ::
    "(Vec3f \<Rightarrow> real) \<Rightarrow> GltfOptions \<Rightarrow> RawBlendChannel \<Rightarrow> nat \<Rightarrow> nat \<times> RawVertex \<Rightarrow> Collected \<Rightarrow> Collected option" where
  "collect_vertex Length options channel channelIx jv c =
     (case nth_at (blends (snd jv)) (int channelIx) of
        None \<Rightarrow> None
      | Some blendVertex \<Rightarrow>
          (let c1 = c\<lparr>shapeBounds := AddPoint (blend_position blendVertex) (shapeBounds c)\<rparr>;
               isSparseVertex =
                 (if Length (blend_position blendVertex) > 0 then True
                  else disableSparseBlendShapes options)
           in if isSparseVertex then
                Some (c1\<lparr>sparseIndices := sparseIndices c1 @ [fst jv],
                         positions := positions c1 @ [blend_position blendVertex],
                         normals :=
                           (if useBlendShapeNormals options \<and> hasNormals channel
                            then normals c1 @ [blend_normal blendVertex] else normals c1),
                         tangents :=
                           (if useBlendShapeTangents options \<and> hasTangents channel
                            then tangents c1 @ [blend_tangent blendVertex] else tangents c1)\<rparr>)
              else Some c1))"

definition collect ::
    "(Vec3f \<Rightarrow> real) \<Rightarrow> GltfOptions \<Rightarrow> RawModel \<Rightarrow> RawBlendChannel \<Rightarrow> nat \<Rightarrow> Collected option" where
  "collect Length options surfaceModel channel channelIx =
     mfold (collect_vertex Length options channel channelIx)
       (zip [0 ..< length (vertices surfaceModel)] (vertices surfaceModel)) new_Collected"

text \<open>
  The state of the loop over the blend channels: the document, the primitive, and the two
  dummy views \<^verbatim>\<open>dummyIdxView\<close> and \<^verbatim>\<open>dummyDataView\<close>, which are declared in the body of the
  loop over the surface models and are null at first.
\<close>

record TargetState =
  ts_gltf :: GltfModel
  ts_primitive :: PrimitiveData
  dummyIdxView :: "nat option"
  dummyDataView :: "nat option"

text \<open>Lines 689-715: the channel has no sparse vertex.\<close>

definition empty_channel ::
    "bool \<Rightarrow> BaseAccessors \<Rightarrow> RawBlendChannel \<Rightarrow> TargetState \<Rightarrow> (nat \<times> TargetState) option" where
  "empty_channel useLong b channel s =
     (let (idxView, g1) =
            (case dummyIdxView s of
               Some v \<Rightarrow> (v, ts_gltf s)
             | None \<Rightarrow>
                 (let (v, g0) = GetAlignedBufferView GL_ARRAY_NONE (ts_gltf s)
                  in (v, CopyToBufferView v [UIntV 0] (index_type useLong) g0)));
          (dataView, g2) =
            (case dummyDataView s of
               Some v \<Rightarrow> (v, g1)
             | None \<Rightarrow>
                 (let (v, g0) = GetAlignedBufferView GL_ARRAY_NONE g1
                  in (v, appendAsBinaryArray v [Vec3V (0, 0, 0)] GLT_VEC3F g0)))
      in case pAccBase b of
           None \<Rightarrow> None
         | Some base \<Rightarrow>
             (let (pAcc, g3) = AddSparseAccessor base idxView (index_type useLong) dataView
                                 GLT_VEC3F (channel_name channel) g2
              in Some (pAcc, s\<lparr>ts_gltf := g3, dummyIdxView := Some idxView,
                                dummyDataView := Some dataView\<rparr>)))"

text \<open>
  Lines 716-751: the channel has sparse vertices. The result holds \<^verbatim>\<open>pAcc\<close>, \<^verbatim>\<open>nAcc\<close> and
  \<^verbatim>\<open>tAcc\<close>.
\<close>

definition sparse_channel ::
    "bool \<Rightarrow> BaseAccessors \<Rightarrow> RawBlendChannel \<Rightarrow> Collected \<Rightarrow> GltfModel
      \<Rightarrow> (Target \<times> GltfModel) option" where
  "sparse_channel useLong b channel c g =
     (let (indexBufferView, g0) = GetAlignedBufferView GL_ARRAY_NONE g;
          g1 = CopyToBufferView indexBufferView (map UIntV (sparseIndices c)) (index_type useLong) g0
      in case pAccBase b of
           None \<Rightarrow> None
         | Some pBase \<Rightarrow>
             (let (pView, g2) = GetAlignedBufferView GL_ARRAY_NONE g1;
                  (pAcc, g3) = AddSparseAccessorWithView pBase indexBufferView (index_type useLong)
                                 pView GLT_VEC3F (map Vec3V (positions c)) (channel_name channel) g2
              in case (if normals c \<noteq> [] then
                         (case nAccBase b of
                            None \<Rightarrow> None
                          | Some nBase \<Rightarrow>
                              (let (nView, g4) = GetAlignedBufferView GL_ARRAY_NONE g3;
                                   (nAcc, g5) = AddSparseAccessorWithView nBase indexBufferView
                                                  (index_type useLong) nView GLT_VEC3F
                                                  (map Vec3V (normals c)) (channel_name channel) g4
                               in Some (Some nAcc, g5)))
                       else Some (None, g3)) of
                   None \<Rightarrow> None
                 | Some (nAcc, g5) \<Rightarrow>
                     (if tangents c \<noteq> [] then
                        (case nAccBase b of
                           None \<Rightarrow> None
                         | Some nBase \<Rightarrow>
                             (let (tView, g6) = GetAlignedBufferView GL_ARRAY_NONE g5;
                                  (tAcc, g7) = AddSparseAccessorWithView nBase indexBufferView
                                                 (index_type useLong) tView GLT_VEC4F
                                                 (map Vec4V (tangents c)) (channel_name channel) g6
                              in Some (\<lparr>target_position = pAcc, target_normal = nAcc,
                                        target_tangent = Some tAcc\<rparr>, g7)))
                      else Some (\<lparr>target_position = pAcc, target_normal = nAcc,
                                  target_tangent = None\<rparr>, g5))))"

text \<open>Lines 752-772: sparse blend shapes are disabled.\<close>

definition dense_channel :: "RawBlendChannel \<Rightarrow> Collected \<Rightarrow> GltfModel \<Rightarrow> Target \<times> GltfModel" where
  "dense_channel channel c g =
     (let (pView, g1) = GetAlignedBufferView GL_ARRAY_BUFFER g;
          (pAcc, g2) = AddAccessorWithView pView GLT_VEC3F (map Vec3V (positions c))
                         (channel_name channel) g1;
          (nAcc, g4) =
            (if normals c \<noteq> [] then
               (let (nView, g3) = GetAlignedBufferView GL_ARRAY_BUFFER g2;
                    (a, g') = AddAccessorWithView nView GLT_VEC3F (map Vec3V (normals c))
                                (channel_name channel) g3
                in (Some a, g'))
             else (None, g2));
          (nAcc', g6) =
            (if tangents c \<noteq> [] then
               (let (tView, g5) = GetAlignedBufferView GL_ARRAY_BUFFER g4;
                    (a, g') = AddAccessorWithView tView GLT_VEC4F (map Vec4V (tangents c))
                                (channel_name channel) g5
                in (Some a, g'))
             else (nAcc, g4))
      in (\<lparr>target_position = pAcc, target_normal = nAcc', target_tangent = None\<rparr>, g6))"

text \<open>
  Modelled from the spec: \<^verbatim>\<open>PrimitiveData::AddTarget\<close> is defined in PrimitiveData.cpp; it
  attaches "(pAcc, nAcc?, tAcc?) as a target on the primitive".
\<close>

definition AddTarget :: "Target \<Rightarrow> PrimitiveData \<Rightarrow> PrimitiveData" where
  "AddTarget t primitive = primitive\<lparr>targets := targets primitive @ [t]\<rparr>"

text \<open>
  Lines 681-772: the accessors \<^verbatim>\<open>pAcc\<close>, \<^verbatim>\<open>nAcc\<close> and \<^verbatim>\<open>tAcc\<close> of one channel, from
  what was collected for it.
\<close>

definition channel_accessors ::
    "GltfOptions \<Rightarrow> bool \<Rightarrow> BaseAccessors \<Rightarrow> RawBlendChannel \<Rightarrow> Collected \<Rightarrow> TargetState
      \<Rightarrow> (Target \<times> TargetState) option" where
  "channel_accessors options useLong b channel c s =
     (if \<not> disableSparseBlendShapes options then
        (if length (sparseIndices c) = 0 then
           (case empty_channel useLong b channel s of
              None \<Rightarrow> None
            | Some (pAcc, s1) \<Rightarrow>
                Some (\<lparr>target_position = pAcc, target_normal = None,
                       target_tangent = None\<rparr>, s1))
         else
           (case sparse_channel useLong b channel c (ts_gltf s) of
              None \<Rightarrow> None
            | Some (t, g1) \<Rightarrow> Some (t, s\<lparr>ts_gltf := g1\<rparr>)))
      else
        (let (t, g1) = dense_channel channel c (ts_gltf s)
         in Some (t, s\<lparr>ts_gltf := g1\<rparr>)))"

text \<open>Lines 640-777, the body of the loop over the blend channels.\<close>

definition channel_step ::
    "(Vec3f \<Rightarrow> real) \<Rightarrow> GltfOptions \<Rightarrow> RawModel \<Rightarrow> bool \<Rightarrow> BaseAccessors \<Rightarrow> nat \<times> RawBlendChannel
      \<Rightarrow> TargetState \<Rightarrow> TargetState option" where
  "channel_step Length options surfaceModel useLong b ic s =
     (case collect Length options surfaceModel (snd ic) (fst ic) of
        None \<Rightarrow> None
      | Some c \<Rightarrow>
          (case channel_accessors options useLong b (snd ic) c s of
             None \<Rightarrow> None
           | Some (t, s1) \<Rightarrow>
               Some (s1\<lparr>ts_gltf := set_min_max (target_position t)
                                      (toStdVec (bounds_lo (shapeBounds c)))
                                      (toStdVec (bounds_hi (shapeBounds c))) (ts_gltf s1),
                        ts_primitive := AddTarget t (ts_primitive s1)\<rparr>)))"

definition build_targets ::
    "(Vec3f \<Rightarrow> real) \<Rightarrow> GltfOptions \<Rightarrow> RawModel \<Rightarrow> RawSurface \<Rightarrow> bool \<Rightarrow> BaseAccessors \<Rightarrow> PrimitiveData
      \<Rightarrow> GltfModel \<Rightarrow> TargetState option" where
  "build_targets Length options surfaceModel rawSurface useLong b primitive g =
     mfold (channel_step Length options surfaceModel useLong b)
       (zip [0 ..< length (blendChannels rawSurface)] (blendChannels rawSurface))
       \<lparr>ts_gltf = g, ts_primitive = primitive, dummyIdxView = None, dummyDataView = None\<rparr>"

text \<open>
  Lines 779-815. The codec is outside the program: \<open>encode\<close> gives the size of the buffer
  that \<^verbatim>\<open>EncodeMeshToBuffer\<close> fills, or nothing when its status is not OK, which fails the
  assertion.
\<close>

definition draco_finish ::
    "GltfOptions \<Rightarrow> (RawModel \<Rightarrow> nat option) \<Rightarrow> RawModel \<Rightarrow> PrimitiveData \<Rightarrow> GltfModel
      \<Rightarrow> (PrimitiveData \<times> GltfModel) option" where
  "draco_finish options encode surfaceModel primitive g =
     (if draco_enabled (draco options) then
        (case encode surfaceModel of
           None \<Rightarrow> None
         | Some n \<Rightarrow>
             (let (view, g1) = AddRawBufferView (unat (to_uint32 n)) g
              in Some (primitive\<lparr>dracoBufferView := Some view\<rparr>, g1)))
      else Some (primitive, g))"

text \<open>Lines 502-815: the primitive of one surface model.\<close>

definition build_primitive ::
    "(Vec3f \<Rightarrow> real) \<Rightarrow> GltfOptions \<Rightarrow> (RawModel \<Rightarrow> nat option) \<Rightarrow> RawModel \<Rightarrow> RawSurface \<Rightarrow> nat \<Rightarrow> GltfModel
      \<Rightarrow> (PrimitiveData \<times> GltfModel) option" where
  "build_primitive Length options encode surfaceModel rawSurface mData g =
     (let useLong = useLongIndices_of options surfaceModel;
          (primitive, g1) = build_indices options surfaceModel mData g
      in case build_attributes surfaceModel rawSurface primitive g1 of
           None \<Rightarrow> None
         | Some (b, primitive2, g2) \<Rightarrow>
             (case build_targets Length options surfaceModel rawSurface useLong b primitive2 g2 of
                None \<Rightarrow> None
              | Some s \<Rightarrow> draco_finish options encode surfaceModel (ts_primitive s) (ts_gltf s)))"






subsection \<open>What a step leaves as it was\<close>

text \<open>
  \<open>frame g g'\<close>: the accessors and the buffer views that \<open>g\<close> holds are held by \<open>g'\<close>
  unchanged, at the same indices; \<open>g'\<close> may hold more.
\<close>

definition frame :: "GltfModel \<Rightarrow> GltfModel \<Rightarrow> bool" where
  "frame g g' \<longleftrightarrow>
     prefix (accessors g) (accessors g') \<and> prefix (bufferViews g) (bufferViews g')"

text \<open>
  A sparse accessor is sound for the index type \<open>T\<close> when it substitutes at least one
  element, its indices have the type \<open>T\<close>, and the view of its indices is held and has
  elements of the type \<open>T\<close> only.
\<close>

definition sparse_ok :: "GLType \<Rightarrow> GltfModel \<Rightarrow> AccessorData \<Rightarrow> bool" where
  "sparse_ok T g a =
     (case sparse a of
        None \<Rightarrow> True
      | Some sp \<Rightarrow>
          0 < sparse_count sp \<and> sparse_indexType sp = T
          \<and> sparse_indices sp < length (bufferViews g)
          \<and> list_all (\<lambda>tx. fst tx = T) (view_data (bufferViews g ! sparse_indices sp)))"

text \<open>The accessors that \<open>g'\<close> holds and \<open>g\<close> does not.\<close>

definition created :: "GltfModel \<Rightarrow> GltfModel \<Rightarrow> AccessorData list" where
  "created g g' = drop (length (accessors g)) (accessors g')"

text \<open>
  The two dummy views, once they exist, are held and have one element each: a zero index
  of the type \<open>T\<close>, and a zero vector.
\<close>

definition dummy_inv :: "GLType \<Rightarrow> TargetState \<Rightarrow> bool" where
  "dummy_inv T s \<longleftrightarrow>
     (\<forall>v. dummyIdxView s = Some v \<longrightarrow>
        v < length (bufferViews (ts_gltf s))
        \<and> view_data (bufferViews (ts_gltf s) ! v) = [(T, UIntV 0)])
     \<and> (\<forall>v. dummyDataView s = Some v \<longrightarrow>
        v < length (bufferViews (ts_gltf s))
        \<and> view_data (bufferViews (ts_gltf s) ! v) = [(GLT_VEC3F, Vec3V (0, 0, 0))])"

text \<open>The non-sparse fields of the accessor \<open>a\<close> are those of the accessor \<open>base\<close>.\<close>

definition mirrors :: "AccessorData \<Rightarrow> AccessorData \<Rightarrow> bool" where
  "mirrors a base \<longleftrightarrow>
     accessor_bufferView a = accessor_bufferView base
     \<and> accessor_byteOffset a = accessor_byteOffset base
     \<and> accessor_type a = accessor_type base
     \<and> accessor_count a = accessor_count base"

text \<open>
  \<open>ts_ext s s'\<close>: the loop over the blend channels has gone from the state \<open>s\<close> to the
  state \<open>s'\<close>. What was held is held unchanged, a dummy view that existed is still the same
  view, and the targets of the primitive have only been added to.
\<close>

definition ts_ext :: "TargetState \<Rightarrow> TargetState \<Rightarrow> bool" where
  "ts_ext s s' \<longleftrightarrow>
     frame (ts_gltf s) (ts_gltf s')
     \<and> (\<forall>v. dummyIdxView s = Some v \<longrightarrow> dummyIdxView s' = Some v)
     \<and> (\<forall>v. dummyDataView s = Some v \<longrightarrow> dummyDataView s' = Some v)
     \<and> prefix (targets (ts_primitive s)) (targets (ts_primitive s'))"

subsection \<open>Names for what the steps create, used to state the lemmas\<close>

text \<open>The dummy views of a channel without sparse vertices\<close>

definition dummy_views :: "bool \<Rightarrow> TargetState \<Rightarrow> (nat \<times> nat) \<times> GltfModel" where
  "dummy_views useLong s =
     (let (idxView, g1) =
            (case dummyIdxView s of
               Some v \<Rightarrow> (v, ts_gltf s)
             | None \<Rightarrow>
                 (let (v, g0) = GetAlignedBufferView GL_ARRAY_NONE (ts_gltf s)
                  in (v, CopyToBufferView v [UIntV 0] (index_type useLong) g0)));
          (dataView, g2) =
            (case dummyDataView s of
               Some v \<Rightarrow> (v, g1)
             | None \<Rightarrow>
                 (let (v, g0) = GetAlignedBufferView GL_ARRAY_NONE g1
                  in (v, appendAsBinaryArray v [Vec3V (0, 0, 0)] GLT_VEC3F g0)))
      in ((idxView, dataView), g2))"

definition sparse_attr ::
    "nat \<Rightarrow> nat \<Rightarrow> GLType \<Rightarrow> GLType \<Rightarrow> gl_value list \<Rightarrow> string \<Rightarrow> GltfModel \<Rightarrow> nat \<times> GltfModel" where
  "sparse_attr base iv T vt xs name g =
     (let (view, g1) = GetAlignedBufferView GL_ARRAY_NONE g
      in AddSparseAccessorWithView base iv T view vt xs name g1)"

definition sparse_accessor ::
    "AccessorData \<Rightarrow> string \<Rightarrow> nat \<Rightarrow> nat \<Rightarrow> GLType \<Rightarrow> nat \<Rightarrow> GLType \<Rightarrow> nat \<Rightarrow> AccessorData" where
  "sparse_accessor base name n iv T vv vt ix =
     base\<lparr>accessor_min := [], accessor_max := [], accessor_name := name,
          sparse := Some \<lparr>sparse_count = n, sparse_indices = iv, sparse_indexType = T,
                          sparse_values = vv, sparse_valueType = vt\<rparr>,
          accessor_ix := ix\<rparr>"

definition filled_view :: "nat \<Rightarrow> BufferViewTarget \<Rightarrow> GLType \<Rightarrow> gl_value list \<Rightarrow> BufferViewData" where
  "filled_view ix t T xs = \<lparr>view_ix = ix, target = t, view_data = map (Pair T) xs, raw_length = 0\<rparr>"

definition fresh_view ::
    "BufferViewTarget \<Rightarrow> gl_value list \<Rightarrow> GLType \<Rightarrow> GltfModel \<Rightarrow> nat \<times> GltfModel" where
  "fresh_view t xs T g =
     (let (v, g0) = GetAlignedBufferView t g in (v, CopyToBufferView v xs T g0))"

definition dense_attr ::
    "BufferViewTarget \<Rightarrow> GLType \<Rightarrow> gl_value list \<Rightarrow> string \<Rightarrow> GltfModel \<Rightarrow> nat \<times> GltfModel" where
  "dense_attr t T xs name g =
     (let (view, g1) = GetAlignedBufferView t g in AddAccessorWithView view T xs name g1)"

definition dense_accessor :: "GLType \<Rightarrow> nat \<Rightarrow> nat \<Rightarrow> string \<Rightarrow> nat \<Rightarrow> AccessorData" where
  "dense_accessor T view n name ix =
     \<lparr>accessor_ix = ix, accessor_bufferView = Some view, accessor_byteOffset = 0,
      accessor_type = T, accessor_count = n, accessor_min = [], accessor_max = [],
      accessor_name = name, sparse = None\<rparr>"

text \<open>The invariant of the loop over the blend channels, after \<open>k\<close> channels.\<close>

definition targets_inv ::
    "GLType \<Rightarrow> BaseAccessors \<Rightarrow> TargetState \<Rightarrow> (nat \<Rightarrow> Target \<Rightarrow> TargetState \<Rightarrow> bool)
      \<Rightarrow> nat \<Rightarrow> TargetState \<Rightarrow> bool" where
  "targets_inv T b s0 R k s \<longleftrightarrow>
     ts_ext s0 s \<and> dummy_inv T s
     \<and> list_all (sparse_ok T (ts_gltf s)) (created (ts_gltf s0) (ts_gltf s))
     \<and> length (targets (ts_primitive s)) = length (targets (ts_primitive s0)) + k
     \<and> (\<forall>ci<k. R ci (targets (ts_primitive s) ! (length (targets (ts_primitive s0)) + ci)) s)"

text \<open>
  What claim C9 says of one target \<open>t\<close> of a channel with the collected data \<open>c\<close>: its normal
  slot holds a dense accessor of four-component vectors over a view with the collected
  tangents, and the dense accessor of the normals, when there are normals, is held but is
  not in the target.
\<close>

definition tangent_in_normal_slot ::
    "Collected \<Rightarrow> RawBlendChannel \<Rightarrow> Target \<Rightarrow> GltfModel \<Rightarrow> bool" where
  "tangent_in_normal_slot c channel t g \<longleftrightarrow>
     (\<exists>a v. target_normal t = Some a \<and> a < length (accessors g)
        \<and> accessors g ! a =
             dense_accessor GLT_VEC4F v (length (tangents c)) (channel_name channel) a
        \<and> v < length (bufferViews g)
        \<and> bufferViews g ! v = filled_view v GL_ARRAY_BUFFER GLT_VEC4F (map Vec4V (tangents c))
        \<and> (normals c \<noteq> [] \<longrightarrow>
             (\<exists>n w. n < length (accessors g) \<and> n \<noteq> a \<and> n \<noteq> target_position t
                \<and> accessors g ! n =
                     dense_accessor GLT_VEC3F w (length (normals c)) (channel_name channel) n)))"

text \<open>
  What claim C8 says of one target \<open>t\<close> of a channel with the collected data \<open>c\<close>: its
  tangent slot holds a sparse accessor whose non-sparse fields are those of the base
  accessor of the normals, \<^verbatim>\<open>nAccBase\<close>, and which substitutes the collected tangents,
  four-component vectors, at indices of the type \<open>T\<close>.
\<close>

definition tangent_over_normal_base ::
    "BaseAccessors \<Rightarrow> GLType \<Rightarrow> Collected \<Rightarrow> Target \<Rightarrow> GltfModel \<Rightarrow> bool" where
  "tangent_over_normal_base b T c t g \<longleftrightarrow>
     (\<exists>ta nb sp. target_tangent t = Some ta \<and> nAccBase b = Some nb
        \<and> ta < length (accessors g) \<and> nb < length (accessors g)
        \<and> mirrors (accessors g ! ta) (accessors g ! nb)
        \<and> sparse (accessors g ! ta) = Some sp
        \<and> sparse_count sp = length (tangents c)
        \<and> sparse_indexType sp = T
        \<and> sparse_valueType sp = GLT_VEC4F)"

text \<open>A document that holds a base accessor for the positions and one for the normals.\<close>

definition ex_document :: GltfModel where
  "ex_document =
     new_GltfModel
       \<lparr>accessors := [dense_accessor GLT_VEC3F 0 1 [] 0, dense_accessor GLT_VEC3F 1 1 [] 1],
        bufferViews := [filled_view 0 GL_ARRAY_BUFFER GLT_VEC3F [Vec3V (0, 0, 0)],
                        filled_view 1 GL_ARRAY_BUFFER GLT_VEC3F [Vec3V (0, 0, 1)]]\<rparr>"

definition ex_base :: BaseAccessors where
  "ex_base = \<lparr>pAccBase = Some 0, nAccBase = Some 1, tAccBase = None\<rparr>"


text \<open>
  \<open>dense_ext g g'\<close>: \<open>g'\<close> holds what \<open>g\<close> holds, unchanged, and none of the accessors that it
  holds in addition is sparse.
\<close>

definition dense_ext :: "GltfModel \<Rightarrow> GltfModel \<Rightarrow> bool" where
  "dense_ext g g' \<longleftrightarrow> frame g g' \<and> list_all (\<lambda>a. sparse a = None) (created g g')"

text \<open>
  The index type that claim C4 gives to a surface model: \<^verbatim>\<open>GLT_UINT\<close> when long indices
  are forced, or are automatic and the surface model has more than 65535 vertices, and
  \<^verbatim>\<open>GLT_USHORT\<close> otherwise.
\<close>

definition index_width :: "GltfOptions \<Rightarrow> RawModel \<Rightarrow> GLType" where
  "index_width options surfaceModel =
     (if useLongIndices options = ALWAYS
         \<or> (useLongIndices options = AUTO \<and> 65535 < length (vertices surfaceModel))
      then GLT_UINT else GLT_USHORT)"

text \<open>
  The data model gives every vertex of a surface a delta for each blend channel of the
  surface: \<^verbatim>\<open>blends[channelIx]\<close> is within the vector.
\<close>

definition has_blends :: "RawModel \<Rightarrow> RawSurface \<Rightarrow> bool" where
  "has_blends surfaceModel rawSurface =
     list_all (\<lambda>v. length (blendChannels rawSurface) \<le> length (blends v)) (vertices surfaceModel)"

text \<open>
  The normals or the tangents of a channel are collected, given the options, for every
  vertex that the channel moves.
\<close>

definition wants_normal_base :: "GltfOptions \<Rightarrow> RawBlendChannel \<Rightarrow> bool" where
  "wants_normal_base options channel \<longleftrightarrow>
     (useBlendShapeNormals options \<and> hasNormals channel)
     \<or> (useBlendShapeTangents options \<and> hasTangents channel)"

text \<open>
  The base accessors that the loop over the blend channels dereferences are there:
  \<^verbatim>\<open>*pAccBase\<close> for every channel, and \<^verbatim>\<open>*nAccBase\<close> for a channel whose normals or
  tangents are collected.
\<close>

definition bases_present :: "GltfOptions \<Rightarrow> RawSurface \<Rightarrow> BaseAccessors \<Rightarrow> bool" where
  "bases_present options rawSurface b \<longleftrightarrow>
     pAccBase b \<noteq> None
     \<and> (nAccBase b \<noteq> None \<or> list_all (\<lambda>channel. \<not> wants_normal_base options channel)
                                 (blendChannels rawSurface))"




section \<open>A small scene\<close>

text \<open>
  One surface with one blend channel, \<^verbatim>\<open>smile\<close>, that has normals and tangents; a vertex
  that the channel moves and a vertex that it leaves in place.
\<close>

text \<open>
  The length of a vector without rounding. On the vectors of the small scene, whose
  components are 0 and 1, it is what \<^verbatim>\<open>Vec3f::Length()\<close> returns.
\<close>

definition exact_Length :: "Vec3f \<Rightarrow> real" where
  "exact_Length v = (case v of (x, y, z) \<Rightarrow> sqrt (x * x + y * y + z * z))"

definition ex_options :: "bool \<Rightarrow> GltfOptions" where
  "ex_options disableSparse =
     \<lparr>useLongIndices = AUTO, useKHRMatUnlit = False, useKHRLightsPunctual = True,
      usePBRMetRough = True, disableSparseBlendShapes = disableSparse,
      useBlendShapeNormals = True, useBlendShapeTangents = True,
      enableUserProperties = False, outputBinary = True,
      draco = \<lparr>draco_enabled = False, compressionLevel = -1, quantBitsPosition = -1,
               quantBitsTexCoord = -1, quantBitsNormal = -1, quantBitsColor = -1,
               quantBitsGeneric = -1\<rparr>\<rparr>"

definition ex_channel :: RawBlendChannel where
  "ex_channel = \<lparr>defaultDeform = 0, hasNormals = True, hasTangents = True,
                  channel_name = ''smile''\<rparr>"

definition ex_vertex :: "Vec3f \<Rightarrow> RawVertex" where
  "ex_vertex delta =
     \<lparr>position = (0, 0, 0), normal = (0, 0, 1), tangent = (1, 0, 0, 1), color = (1, 1, 1, 1),
      uv0 = (0, 0), uv1 = (0, 0), jointIndices = [], jointWeights = [],
      blends = [\<lparr>blend_position = delta, blend_normal = (0, 0, 0),
                 blend_tangent = (0, 0, 0, 0)\<rparr>]\<rparr>"

definition ex_moved :: RawVertex where
  "ex_moved = ex_vertex (1, 0, 0)"


definition ex_surface :: "int \<Rightarrow> RawSurface" where
  "ex_surface ident =
     \<lparr>surface_id = ident, surface_name = ''face'', bounds_min = (0, 0, 0),
      bounds_max = (0, 0, 0), blendChannels = [ex_channel], jointIds = [],
      inverseBindMatrices = [], skeletonRootId = 0\<rparr>"

definition ex_material :: RawMaterial where
  "ex_material =
     \<lparr>material_id = 7, material_name = ''skin'', material_type = RAW_MATERIAL_TYPE_OPAQUE,
      isDoubleSided = False, textures = (\<lambda>usage. -1),
      info = TraditionalProps RAW_SHADING_MODEL_BLINN
               \<lparr>tr_diffuseFactor = (1, 1, 1, 1), tr_emissiveFactor = (0, 0, 0),
                tr_shininess = 6\<rparr>,
      material_userProperties = []\<rparr>"

definition ex_model :: "int \<Rightarrow> RawVertex list \<Rightarrow> RawModel" where
  "ex_model ident vs =
     \<lparr>rootNode = 0,
      vertexAttributes = {RAW_VERTEX_ATTRIBUTE_POSITION, RAW_VERTEX_ATTRIBUTE_NORMAL},
      globalWeightCount = 0, extraSkinCount = 0, vertices = vs,
      triangles = [\<lparr>verts = (0, 0, 0), materialIndex = 0\<rparr>], raw_textures = [],
      raw_materials = [ex_material], surfaces = [ex_surface ident], raw_animations = [],
      raw_cameras = [], raw_lights = [], raw_nodes = []\<rparr>"

definition ex_no_base :: BaseAccessors where
  "ex_no_base = \<lparr>pAccBase = None, nAccBase = None, tAccBase = None\<rparr>"


definition ex_no_codec :: "RawModel \<Rightarrow> nat option" where
  "ex_no_codec surfaceModel = None"





text \<open>The surface model of the small scene with other vertex attributes.\<close>

definition ex_model_with :: "RawVertexAttribute set \<Rightarrow> RawVertex list \<Rightarrow> RawModel" where
  "ex_model_with attrs vs = (ex_model 1 vs)\<lparr>vertexAttributes := attrs\<rparr>"

text \<open>
  A surface with two blend channels, \<^verbatim>\<open>smile\<close> and \<^verbatim>\<open>frown\<close>, and a vertex with a delta
  for each of them.
\<close>

definition ex_surface_two :: RawSurface where
  "ex_surface_two = (ex_surface 1)\<lparr>blendChannels := [ex_channel, ex_channel\<lparr>channel_name := ''frown''\<rparr>]\<rparr>"

definition ex_vertex_two :: "Vec3f \<Rightarrow> Vec3f \<Rightarrow> RawVertex" where
  "ex_vertex_two delta1 delta2 =
     (ex_vertex delta1)\<lparr>blends := blends (ex_vertex delta1) @ blends (ex_vertex delta2)\<rparr>"

definition ex_model_two :: "RawVertexAttribute set \<Rightarrow> RawVertex list \<Rightarrow> RawModel" where
  "ex_model_two attrs vs = (ex_model 1 vs)\<lparr>vertexAttributes := attrs, surfaces := [ex_surface_two]\<rparr>"

lemma and_ff: "(x :: uint32_t) AND 0xFF = take_bit 8 x"
proof -
  have "(0xFF :: uint32_t) = mask 8" by (simp add: mask_eq_exp_minus_1)
  then show ?thesis by (simp add: take_bit_eq_mask)
qed

lemma byte_of_u32: "unat (ucast (drop_bit k (w :: uint32_t) AND 0xFF) :: byte) = unat w div 2 ^ k mod 256"
proof -
  have "unat (ucast (take_bit 8 (drop_bit k w)) :: byte) = unat (take_bit 8 (drop_bit k w))"
    by (simp add: unsigned_ucast_eq unsigned_take_bit_eq take_bit_eq_mod unat_mod)
  also have "\<dots> = take_bit 8 (drop_bit k (unat w))"
  proof -
    have "unat w < 2 ^ 32" using unsigned_less [of w, where ?'a = nat] by simp
    then have "take_bit 32 (unat w) = unat w" by (simp add: take_bit_nat_eq_self)
    then show ?thesis by (simp add: unsigned_take_bit_eq unsigned_drop_bit_eq)
  qed
  also have "\<dots> = unat w div 2 ^ k mod 256"
    by (simp add: take_bit_eq_mod drop_bit_eq_div)
  finally show ?thesis by (simp add: and_ff)
qed

lemma nat_and_ff: "(n :: nat) AND 0xFF = n mod 256"
proof -
  have h: "(0xFF :: nat) = mask 8" by (simp add: mask_eq_exp_minus_1)
  have "n AND mask 8 = n mod 256"
    by (simp add: take_bit_eq_mask [symmetric] take_bit_eq_mod)
  then show ?thesis by (simp only: h)
qed

lemma byte_of_size: "unat (word_of_nat (drop_bit k (n :: nat) AND 0xFF) :: byte) = n div 2 ^ k mod 256"
  by (simp add: nat_and_ff drop_bit_eq_div unat_of_nat)

lemma four_bytes: "(n :: nat) < 2 ^ 32 \<Longrightarrow>
   n div 2 ^ 0 mod 256 + 2 ^ 8 * (n div 2 ^ 8 mod 256) + 2 ^ 16 * (n div 2 ^ 16 mod 256)
     + 2 ^ 24 * (n div 2 ^ 24 mod 256) = n"
proof -
  assume less: "n < 2 ^ 32"
  define a where "a = n div 256"
  define b where "b = a div 256"
  define c where "c = b div 256"
  have n: "n = 256 * a + n mod 256" by (simp add: a_def)
  have a: "a = 256 * b + a mod 256" by (simp add: b_def)
  have b: "b = 256 * c + b mod 256" by (simp add: c_def)
  have b2: "b = n div 65536" by (simp add: b_def a_def div_mult2_eq)
  have c2: "c = n div 16777216" by (simp add: c_def b2 div_mult2_eq)
  from less have "c < 256" by (simp add: c2)
  then have c3: "c mod 256 = c" by simp
  have "n mod 256 + 256 * (a mod 256) + 65536 * (b mod 256) + 16777216 * (c mod 256) = n"
    using n a b c3 by linarith
  then show ?thesis using less by (simp add: a_def b2 c2)
qed

lemma pad4_less: "pad4 n < 4"
  by (simp add: pad4_def)

lemma pad4_step: "n mod 4 \<noteq> 0 \<Longrightarrow> pad4 n = Suc (pad4 (n + 1))"
proof -
  assume a: "n mod 4 \<noteq> 0"
  have c: "(n + 1) mod 4 = (if Suc (n mod 4) = 4 then 0 else Suc (n mod 4))"
    using mod_Suc [of n 4] by simp
  obtain k where k: "k = n mod 4" by simp
  from a c k have "k \<noteq> 0" "k < 4" "(n + 1) mod 4 = (if Suc k = 4 then 0 else Suc k)"
    by simp_all
  then have "(4 - k) mod 4 = Suc ((4 - (n + 1) mod 4) mod 4)"
    by (cases "Suc k = 4") auto
  with k show ?thesis by (simp add: pad4_def)
qed

lemma pad4_zero: "n mod 4 = 0 \<Longrightarrow> pad4 n = 0"
  by (simp add: pad4_def)

lemma pad4_mod: "(n + pad4 n) mod 4 = 0"
proof -
  have "n mod 4 < 4" by simp
  then consider "n mod 4 = 0" | "n mod 4 = 1" | "n mod 4 = 2" | "n mod 4 = 3" by linarith
  then have "(n mod 4 + pad4 n) mod 4 = 0"
    by cases (simp_all add: pad4_def)
  then show ?thesis by (metis mod_add_left_eq)
qed

lemma put_end: "pos s = length (bytes s) \<Longrightarrow> put b s = \<lparr>bytes = bytes s @ [b], pos = Suc (pos s)\<rparr>"
  by (simp add: put_def Let_def)

lemma write_end:
  "pos s = length (bytes s) \<Longrightarrow> write_s bs s = \<lparr>bytes = bytes s @ bs, pos = pos s + length bs\<rparr>"
  unfolding write_s_def
proof (induction bs arbitrary: s)
  case Nil
  then show ?case by simp
next
  case (Cons b bs)
  have "fold put (b # bs) s = fold put bs (put b s)" by simp
  also have "\<dots> = fold put bs \<lparr>bytes = bytes s @ [b], pos = Suc (pos s)\<rparr>"
    using Cons.prems by (simp add: put_end)
  also have "\<dots> = \<lparr>bytes = bytes s @ b # bs, pos = pos s + length (b # bs)\<rparr>"
    using Cons.prems by (subst Cons.IH) simp_all
  finally show ?case .
qed

lemma pad_json_end:
  "pos s = length (bytes s) \<Longrightarrow>
   pad_json s j = (\<lparr>bytes = bytes s @ replicate (pad4 (unat j)) 0x20, pos = pos s + pad4 (unat j)\<rparr>,
                   j + word_of_nat (pad4 (unat j)))"
proof (induction s j rule: pad_json.induct)
  case (1 s j)
  show ?case
  proof (cases "j mod 4 = 0")
    case True
    then have "unat j mod 4 = 0" by (simp add: unat_mod4)
    then have "pad4 (unat j) = 0" by (rule pad4_zero)
    with True show ?thesis by (subst pad_json.simps) simp
  next
    case False
    then have nz: "unat j mod 4 \<noteq> 0" by (simp add: unat_mod4 unat_eq_zero)
    have "pad4 (unat (j + 1)) = pad4 (unat j + 1)"
      by (simp add: pad4_def unat_succ_mod4)
    with nz have step: "pad4 (unat j) = Suc (pad4 (unat (j + 1)))"
      by (simp add: pad4_step)
    have e: "put 0x20 s = \<lparr>bytes = bytes s @ [0x20], pos = Suc (pos s)\<rparr>"
      using "1.prems" by (rule put_end)
    have "pad_json s j = pad_json (put 0x20 s) (j + 1)"
      using False by (subst pad_json.simps) simp
    also have "\<dots> = (\<lparr>bytes = bytes (put 0x20 s) @ replicate (pad4 (unat (j + 1))) 0x20,
                          pos = pos (put 0x20 s) + pad4 (unat (j + 1))\<rparr>,
                        j + 1 + word_of_nat (pad4 (unat (j + 1))))"
      using False "1.prems" by (intro "1.IH") (simp_all add: e)
    also have "\<dots> = (\<lparr>bytes = bytes s @ replicate (pad4 (unat j)) 0x20, pos = pos s + pad4 (unat j)\<rparr>,
                        j + word_of_nat (pad4 (unat j)))"
      by (simp add: e step replicate_append_same)
    finally show ?thesis .
  qed
qed

lemma pad_binary_end:
  "pos s = length (bytes s) \<Longrightarrow>
   pad_binary s n = (\<lparr>bytes = bytes s @ replicate (pad4 n) 0, pos = pos s + pad4 n\<rparr>, n + pad4 n)"
proof (induction s n rule: pad_binary.induct)
  case (1 s n)
  show ?case
  proof (cases "n mod 4 = 0")
    case True
    then have "pad4 n = 0" by (rule pad4_zero)
    with True show ?thesis by (subst pad_binary.simps) simp
  next
    case False
    then have step: "pad4 n = Suc (pad4 (n + 1))" by (rule pad4_step)
    have e: "put 0 s = \<lparr>bytes = bytes s @ [0], pos = Suc (pos s)\<rparr>"
      using "1.prems" by (rule put_end)
    have "pad_binary s n = pad_binary (put 0 s) (n + 1)"
      using False by (subst pad_binary.simps) simp
    also have "\<dots> = (\<lparr>bytes = bytes (put 0 s) @ replicate (pad4 (n + 1)) 0,
                          pos = pos (put 0 s) + pad4 (n + 1)\<rparr>, n + 1 + pad4 (n + 1))"
      using False "1.prems" by (intro "1.IH") (simp_all add: e)
    also have "\<dots> = (\<lparr>bytes = bytes s @ replicate (pad4 n) 0, pos = pos s + pad4 n\<rparr>, n + pad4 n)"
      by (simp add: e step replicate_append_same)
    finally show ?thesis .
  qed
qed

lemma put_mid:
  "pos s = length a \<Longrightarrow> bytes s = a @ x # c \<Longrightarrow> put b s = \<lparr>bytes = a @ b # c, pos = Suc (length a)\<rparr>"
  by (simp add: put_def Let_def)

lemma put4_mid:
  assumes "pos s = length a" and "bytes s = a @ [x0, x1, x2, x3] @ c"
  shows "put b3 (put b2 (put b1 (put b0 s))) = \<lparr>bytes = a @ [b0, b1, b2, b3] @ c, pos = length a + 4\<rparr>"
proof -
  have 0: "put b0 s = \<lparr>bytes = a @ b0 # [x1, x2, x3] @ c, pos = Suc (length a)\<rparr>"
    using assms by (intro put_mid) simp_all
  have 1: "put b1 (put b0 s) = \<lparr>bytes = (a @ [b0]) @ b1 # [x2, x3] @ c, pos = Suc (length (a @ [b0]))\<rparr>"
    by (intro put_mid) (simp_all add: 0)
  have 2: "put b2 (put b1 (put b0 s)) =
             \<lparr>bytes = (a @ [b0, b1]) @ b2 # [x3] @ c, pos = Suc (length (a @ [b0, b1]))\<rparr>"
    by (intro put_mid) (simp_all add: 1)
  have 3: "put b3 (put b2 (put b1 (put b0 s))) =
             \<lparr>bytes = (a @ [b0, b1, b2]) @ b3 # c, pos = Suc (length (a @ [b0, b1, b2]))\<rparr>"
    by (intro put_mid) (simp_all add: 2)
  then show ?thesis by simp
qed

lemma put_u32_le_mid:
  assumes "pos s = length a" and "bytes s = a @ [x0, x1, x2, x3] @ c"
  shows "put_u32_le w s = \<lparr>bytes = a @ u32_le w @ c, pos = length a + 4\<rparr>"
  unfolding put_u32_le_def u32_le_def using assms by (rule put4_mid)

lemma put_size_le_mid:
  assumes "pos s = length a" and "bytes s = a @ [x0, x1, x2, x3] @ c"
  shows "put_size_le n s = \<lparr>bytes = a @ size_le n @ c, pos = length a + 4\<rparr>"
  unfolding put_size_le_def size_le_def using assms by (rule put4_mid)

lemma pad4_unat_of_nat: "pad4 (unat (word_of_nat n :: uint32_t)) = pad4 n"
proof -
  have "unat (word_of_nat n :: uint32_t) = n mod 2 ^ 32" by (simp add: unat_of_nat)
  moreover have "(4::nat) dvd 2 ^ 32" by simp
  ultimately show ?thesis by (simp add: pad4_def mod_mod_cancel)
qed

lemma unat_of_nat_small: "n < 2 ^ 32 \<Longrightarrow> unat (word_of_nat n :: uint32_t) = n"
  by (simp add: unat_of_nat)

lemma header_lengths:
  "length glbHeader = 12" "length glb2JsonHeader = 8" "length glb2BinaryHeader = 8"
  by (simp_all add: glbHeader_def glb2JsonHeader_def glb2BinaryHeader_def)





lemma emit_binary_pre:
  "emit True dump binary fresh =
     seekp_end (put_size_le (length binary + pad4 (length binary))
       (seekp (unat (word_of_nat (20 + length (dump 0) + pad4 (length (dump 0))) :: uint32_t))
          (json_patched dump binary)))"
proof -
  define J where "J = dump 0"
  define pj where "pj = pad4 (length J)"
  define pb where "pb = pad4 (length binary)"
  define total where "total = 28 + length J + pj + length binary + pb"
  define s2 where "s2 = write_s J (write_s glb2JsonHeader (write_s glbHeader fresh))"
  have s2: "s2 = \<lparr>bytes = glbHeader @ glb2JsonHeader @ J, pos = 20 + length J\<rparr>"
    by (simp add: s2_def write_end fresh_def glbHeader_def glb2JsonHeader_def)
  have j0: "(word_of_nat (tellp s2) :: uint32_t) - 20 = word_of_nat (length J)"
    by (simp add: s2 tellp_def)
  define s3 where "s3 = \<lparr>bytes = glbHeader @ glb2JsonHeader @ J @ replicate pj 0x20,
                            pos = 20 + length J + pj\<rparr>"
  have p3: "pad_json s2 (word_of_nat (length J)) = (s3, word_of_nat (length J + pj))"
    by (subst pad_json_end) (simp_all add: s2 s3_def pj_def pad4_unat_of_nat header_lengths)
  have bh: "tellp s3 = 20 + length J + pj"
    by (simp add: s3_def tellp_def)
  define s5 where "s5 = write_s binary (write_s glb2BinaryHeader s3)"
  have s5: "s5 = \<lparr>bytes = glbHeader @ glb2JsonHeader @ J @ replicate pj 0x20
                            @ glb2BinaryHeader @ binary,
                     pos = 28 + length J + pj + length binary\<rparr>"
    by (simp add: s5_def s3_def write_end glbHeader_def glb2JsonHeader_def glb2BinaryHeader_def)
  define s6 where "s6 = \<lparr>bytes = glbHeader @ glb2JsonHeader @ J @ replicate pj 0x20
                            @ glb2BinaryHeader @ binary @ replicate pb 0, pos = total\<rparr>"
  have p6: "pad_binary s5 (length binary) = (s6, length binary + pb)"
    by (subst pad_binary_end) (simp_all add: s5 s6_def pb_def total_def header_lengths)
  have t: "tellp s6 = total" by (simp add: s6_def tellp_def)
  define rest where "rest = J @ replicate pj 0x20 @ glb2BinaryHeader @ binary @ replicate pb 0"
  have a: "put_u32_le (to_uint32 total) (seekp 8 s6) =
             \<lparr>bytes = magic_version @ u32_le (to_uint32 total) @ glb2JsonHeader @ rest, pos = 12\<rparr>"
  proof -
    have 1: "pos (seekp 8 s6) = length magic_version"
      by (simp add: seekp_def magic_version_def)
    have 2: "bytes (seekp 8 s6) = magic_version @ [0, 0, 0, 0] @ (glb2JsonHeader @ rest)"
      by (simp add: seekp_def s6_def magic_version_def glbHeader_def rest_def)
    show ?thesis using put_u32_le_mid [OF 1 2] by (simp add: magic_version_def)
  qed
  define s7 where "s7 = put_u32_le (word_of_nat (length J + pj)) (put_u32_le (to_uint32 total) (seekp 8 s6))"
  have s7: "s7 = \<lparr>bytes = (magic_version @ u32_le (to_uint32 total))
                      @ u32_le (word_of_nat (length J + pj)) @ [0x4A, 0x53, 0x4F, 0x4E] @ rest, pos = 16\<rparr>"
  proof -
    let ?s = "\<lparr>bytes = magic_version @ u32_le (to_uint32 total) @ glb2JsonHeader @ rest, pos = 12\<rparr>"
    have 1: "pos ?s = length (magic_version @ u32_le (to_uint32 total))"
      by (simp add: magic_version_def u32_le_def)
    have 2: "bytes ?s = (magic_version @ u32_le (to_uint32 total)) @ [0, 0, 0, 0]
                          @ ([0x4A, 0x53, 0x4F, 0x4E] @ rest)"
      by (simp add: glb2JsonHeader_def)
    have 3: "length (magic_version @ u32_le (to_uint32 total)) + 4 = 16"
      by (simp add: magic_version_def u32_le_def)
    show ?thesis unfolding s7_def a using put_u32_le_mid [OF 1 2] by (simp only: 3)
  qed
  have s7': "s7 = json_patched dump binary"
    by (simp add: s7 json_patched_def rest_def total_def J_def pj_def pb_def)
  have e1: "emit True dump binary fresh =
     (case pad_json s2 ((word_of_nat (tellp s2) :: uint32_t) - 20) of (s3, jsonLength) \<Rightarrow>
        (case pad_binary (write_s binary (write_s glb2BinaryHeader s3)) (length binary) of
           (s6, binaryLength) \<Rightarrow>
             seekp_end (put_size_le binaryLength
               (seekp (unat (word_of_nat (tellp s3) :: uint32_t))
                 (put_u32_le jsonLength (put_u32_le (to_uint32 (tellp s6)) (seekp 8 s6)))))))"
    by (simp only: emit_def Let_def if_True s2_def J_def)
  have "emit True dump binary fresh =
          seekp_end (put_size_le (length binary + pb)
            (seekp (unat (word_of_nat (20 + length J + pj) :: uint32_t)) s7))"
    by (simp only: e1 j0 p3 prod.case s5_def [symmetric] p6 t bh s7_def [symmetric])
  then show ?thesis by (simp only: s7' J_def pj_def pb_def)
qed

lemma json_patched_length:
  "length (bytes (json_patched dump binary)) =
     28 + length (dump 0) + pad4 (length (dump 0)) + length binary + pad4 (length binary)"
  by (simp add: json_patched_def magic_version_def u32_le_def glb2BinaryHeader_def)

lemma put_inside:
  "pos s < length (bytes s) \<Longrightarrow>
   length (bytes (put b s)) = length (bytes s) \<and> pos (put b s) = Suc (pos s)"
  by (simp add: put_def Let_def)

lemma bytes_seekp_end: "bytes (seekp_end s) = bytes s"
  by (simp add: seekp_end_def)

lemma bytes_seekp: "bytes (seekp p s) = bytes s"
  by (simp add: seekp_def)

lemma put_size_le_length:
  assumes "pos s + 4 \<le> length (bytes s)"
  shows "length (bytes (put_size_le n s)) = length (bytes s)"
proof -
  have 0: "\<And>b. length (bytes (put b s)) = length (bytes s) \<and> pos (put b s) = Suc (pos s)"
    using assms by (intro put_inside) simp
  have 1: "\<And>b c. length (bytes (put c (put b s))) = length (bytes s)
               \<and> pos (put c (put b s)) = Suc (Suc (pos s))"
    using assms 0 by (simp add: put_inside)
  have 2: "\<And>b c d. length (bytes (put d (put c (put b s)))) = length (bytes s)
               \<and> pos (put d (put c (put b s))) = Suc (Suc (Suc (pos s)))"
    using assms 1 by (simp add: put_inside)
  have 3: "\<And>b c d e. length (bytes (put e (put d (put c (put b s))))) = length (bytes s)"
    using assms 2 by (simp add: put_inside)
  show ?thesis unfolding put_size_le_def by (rule 3)
qed

lemma emit_binary_length:
  "length (bytes (emit True dump binary fresh)) =
     28 + length (dump 0) + pad4 (length (dump 0)) + length binary + pad4 (length binary)"
proof -
  let ?n = "20 + length (dump 0) + pad4 (length (dump 0))"
  have "unat (word_of_nat ?n :: uint32_t) \<le> ?n"
    by (simp only: unat_of_nat) simp
  then have "pos (seekp (unat (word_of_nat ?n :: uint32_t)) (json_patched dump binary)) + 4
               \<le> length (bytes (seekp (unat (word_of_nat ?n :: uint32_t)) (json_patched dump binary)))"
    by (simp add: seekp_def json_patched_length)
  then have "length (bytes (put_size_le (length binary + pad4 (length binary))
                 (seekp (unat (word_of_nat ?n :: uint32_t)) (json_patched dump binary)))) =
             length (bytes (seekp (unat (word_of_nat ?n :: uint32_t)) (json_patched dump binary)))"
    by (rule put_size_le_length)
  then show ?thesis
    by (simp only: emit_binary_pre bytes_seekp_end bytes_seekp json_patched_length)
qed

lemma emit_binary_bytes:
  assumes small: "20 + length (dump 0) + pad4 (length (dump 0)) < 2 ^ 32"
  shows "bytes (emit True dump binary fresh) =
           magic_version
         @ u32_le (to_uint32 (28 + length (dump 0) + pad4 (length (dump 0))
                                + length binary + pad4 (length binary)))
         @ u32_le (word_of_nat (length (dump 0) + pad4 (length (dump 0))))
         @ [0x4A, 0x53, 0x4F, 0x4E]
         @ dump 0 @ replicate (pad4 (length (dump 0))) 0x20
         @ size_le (length binary + pad4 (length binary))
         @ [0x42, 0x49, 0x4E, 0x00]
         @ binary @ replicate (pad4 (length binary)) 0x00"
proof -
  define pre where "pre = magic_version
         @ u32_le (to_uint32 (28 + length (dump 0) + pad4 (length (dump 0))
                                + length binary + pad4 (length binary)))
         @ u32_le (word_of_nat (length (dump 0) + pad4 (length (dump 0))))
         @ [0x4A, 0x53, 0x4F, 0x4E]
         @ dump 0 @ replicate (pad4 (length (dump 0))) 0x20"
  let ?n = "20 + length (dump 0) + pad4 (length (dump 0))"
  let ?c = "[0x42, 0x49, 0x4E, 0x00] @ binary @ replicate (pad4 (length binary)) 0x00"
  have lp: "length pre = ?n"
    by (simp add: pre_def magic_version_def u32_le_def)
  have u: "unat (word_of_nat ?n :: uint32_t) = ?n"
    using small by (rule unat_of_nat_small)
  have 1: "pos (seekp ?n (json_patched dump binary)) = length pre"
    by (simp add: seekp_def lp)
  have 2: "bytes (seekp ?n (json_patched dump binary)) = pre @ [0, 0, 0, 0] @ ?c"
    by (simp add: seekp_def json_patched_def pre_def glb2BinaryHeader_def)
  have "bytes (emit True dump binary fresh) =
          bytes (put_size_le (length binary + pad4 (length binary)) (seekp ?n (json_patched dump binary)))"
    by (simp only: emit_binary_pre u bytes_seekp_end)
  also have "\<dots> = pre @ size_le (length binary + pad4 (length binary)) @ ?c"
    by (simp only: put_size_le_mid [OF 1 2] ofstream.simps)
  finally show ?thesis by (simp add: pre_def)
qed

section \<open>Lemmas on the surfaces\<close>

lemma frame_refl: "frame g g"
  by (simp add: frame_def)

lemma frame_trans: "frame g1 g2 \<Longrightarrow> frame g2 g3 \<Longrightarrow> frame g1 g3"
  unfolding frame_def by (meson prefix_order.order_trans)

lemma prefix_update: "prefix xs ys \<Longrightarrow> length xs \<le> i \<Longrightarrow> prefix xs (ys[i := y])"
  by (auto simp: prefix_def list_update_append)

lemma prefix_nth: "prefix xs ys \<Longrightarrow> i < length xs \<Longrightarrow> ys ! i = xs ! i"
  by (auto simp: prefix_def nth_append)

lemma prefix_snoc: "prefix xs ys \<Longrightarrow> prefix xs (ys @ zs)"
  by (auto simp: prefix_def)

lemma frame_accessor: "frame g g' \<Longrightarrow> i < length (accessors g) \<Longrightarrow> accessors g' ! i = accessors g ! i"
  by (simp add: frame_def prefix_nth)

lemma frame_view: "frame g g' \<Longrightarrow> i < length (bufferViews g) \<Longrightarrow> bufferViews g' ! i = bufferViews g ! i"
  by (simp add: frame_def prefix_nth)

lemma frame_lengths:
  "frame g g' \<Longrightarrow> length (accessors g) \<le> length (accessors g') \<and> length (bufferViews g) \<le> length (bufferViews g')"
  by (simp add: frame_def prefix_length_le)

lemma GetAlignedBufferView_eq:
  "GetAlignedBufferView t g =
     (length (bufferViews g),
      g\<lparr>bufferViews := bufferViews g @
          [\<lparr>view_ix = length (bufferViews g), target = t, view_data = [], raw_length = 0\<rparr>]\<rparr>)"
  by (simp add: GetAlignedBufferView_def hold_bufferView_def)

lemma AddRawBufferView_eq:
  "AddRawBufferView n g =
     (length (bufferViews g),
      g\<lparr>bufferViews := bufferViews g @
          [\<lparr>view_ix = length (bufferViews g), target = GL_ARRAY_NONE, view_data = [], raw_length = n\<rparr>]\<rparr>)"
  by (simp add: AddRawBufferView_def hold_bufferView_def)

lemma frame_GetAlignedBufferView:
  "frame g0 g \<Longrightarrow> GetAlignedBufferView t g = (v, g') \<Longrightarrow>
     frame g0 g' \<and> v = length (bufferViews g) \<and> length (bufferViews g') = Suc v
     \<and> accessors g' = accessors g \<and> view_data (bufferViews g' ! v) = []"
  by (auto simp: GetAlignedBufferView_eq frame_def prefix_snoc)

lemma frame_CopyToBufferView:
  "frame g0 g \<Longrightarrow> length (bufferViews g0) \<le> v \<Longrightarrow> frame g0 (CopyToBufferView v xs T g)"
  by (simp add: frame_def CopyToBufferView_def prefix_update)

lemma CopyToBufferView_simps:
  "accessors (CopyToBufferView v xs T g) = accessors g"
  "length (bufferViews (CopyToBufferView v xs T g)) = length (bufferViews g)"
  "v < length (bufferViews g) \<Longrightarrow>
     view_data (bufferViews (CopyToBufferView v xs T g) ! v) = view_data (bufferViews g ! v) @ map (Pair T) xs"
  "i \<noteq> v \<Longrightarrow> bufferViews (CopyToBufferView v xs T g) ! i = bufferViews g ! i"
  by (simp_all add: CopyToBufferView_def)

lemma frame_set_min_max:
  "frame g0 g \<Longrightarrow> length (accessors g0) \<le> a \<Longrightarrow> frame g0 (set_min_max a lo hi g)"
  by (simp add: frame_def set_min_max_def prefix_update)

lemma set_min_max_simps:
  "bufferViews (set_min_max a lo hi g) = bufferViews g"
  "length (accessors (set_min_max a lo hi g)) = length (accessors g)"
  "i < length (accessors g) \<Longrightarrow> sparse (accessors (set_min_max a lo hi g) ! i) = sparse (accessors g ! i)"
  "i < length (accessors g) \<Longrightarrow> accessor_type (accessors (set_min_max a lo hi g) ! i) = accessor_type (accessors g ! i)"
  "i < length (accessors g) \<Longrightarrow> accessor_count (accessors (set_min_max a lo hi g) ! i) = accessor_count (accessors g ! i)"
  "i < length (accessors g) \<Longrightarrow> accessor_bufferView (accessors (set_min_max a lo hi g) ! i) = accessor_bufferView (accessors g ! i)"
  by (cases "a < length (accessors g)"; cases "i = a"; simp add: set_min_max_def)+

lemma hold_accessor_eq:
  "hold_accessor a g = (n, g') \<longleftrightarrow>
     n = length (accessors g) \<and> g' = g\<lparr>accessors := accessors g @ [a\<lparr>accessor_ix := length (accessors g)\<rparr>]\<rparr>"
  by (auto simp: hold_accessor_def)

lemma AddSparseAccessor_eq:
  "AddSparseAccessor base iv it vv vt name g =
     (length (accessors g),
      g\<lparr>accessors := accessors g @
         [(accessors g ! base)
            \<lparr>accessor_min := [], accessor_max := [], accessor_name := name,
             sparse := Some \<lparr>sparse_count = 1, sparse_indices = iv, sparse_indexType = it,
                             sparse_values = vv, sparse_valueType = vt\<rparr>,
             accessor_ix := length (accessors g)\<rparr>]\<rparr>)"
  by (simp add: AddSparseAccessor_def hold_accessor_def)

lemma AddSparseAccessorWithView_eq:
  "AddSparseAccessorWithView base iv it vv vt xs name g =
     (length (accessors g),
      (CopyToBufferView vv xs vt g)\<lparr>accessors := accessors g @
         [(accessors g ! base)
            \<lparr>accessor_min := [], accessor_max := [], accessor_name := name,
             sparse := Some \<lparr>sparse_count = length xs, sparse_indices = iv, sparse_indexType = it,
                             sparse_values = vv, sparse_valueType = vt\<rparr>,
             accessor_ix := length (accessors g)\<rparr>]\<rparr>)"
  by (simp add: AddSparseAccessorWithView_def hold_accessor_def CopyToBufferView_def)

lemma AddAccessorWithView_eq:
  "AddAccessorWithView v t xs name g =
     (length (accessors g),
      (CopyToBufferView v xs t g)\<lparr>accessors := accessors g @
         [(new_AccessorData t)
            \<lparr>accessor_bufferView := Some v,
             accessor_byteOffset := view_byteLength (bufferViews g ! v),
             accessor_count := length xs, accessor_name := name,
             accessor_ix := length (accessors g)\<rparr>]\<rparr>)"
  by (simp add: AddAccessorWithView_def hold_accessor_def CopyToBufferView_def)

lemma empty_channel_dummy_views:
  "empty_channel useLong b channel s =
     (case dummy_views useLong s of ((idxView, dataView), g2) \<Rightarrow>
       (case pAccBase b of
           None \<Rightarrow> None
         | Some base \<Rightarrow>
             (let (pAcc, g3) = AddSparseAccessor base idxView (index_type useLong) dataView
                                 GLT_VEC3F (channel_name channel) g2
              in Some (pAcc, s\<lparr>ts_gltf := g3, dummyIdxView := Some idxView,
                                dummyDataView := Some dataView\<rparr>))))"
  by (simp add: empty_channel_def dummy_views_def Let_def split: prod.splits option.splits)

lemma dummy_views_spec:
  assumes "dummy_views useLong s = ((di, dd), g2)"
    and "dummy_inv (index_type useLong) s"
  shows "frame (ts_gltf s) g2"
    and "accessors g2 = accessors (ts_gltf s)"
    and "di < length (bufferViews g2)" and "dd < length (bufferViews g2)"
    and "view_data (bufferViews g2 ! di) = [(index_type useLong, UIntV 0)]"
    and "view_data (bufferViews g2 ! dd) = [(GLT_VEC3F, Vec3V (0, 0, 0))]"
    and "dummyIdxView s = Some v \<Longrightarrow> di = v"
    and "dummyDataView s = Some v \<Longrightarrow> dd = v"
  using assms
  by (auto simp: dummy_views_def dummy_inv_def GetAlignedBufferView_eq appendAsBinaryArray_def
        CopyToBufferView_def frame_def prefix_snoc nth_append Let_def list_update_append
      split: option.splits prod.splits if_splits)

lemma empty_channel_spec:
  assumes e: "empty_channel useLong b channel s = Some (pAcc, s')"
    and inv: "dummy_inv (index_type useLong) s"
  shows "frame (ts_gltf s) (ts_gltf s')"
    and "dummy_inv (index_type useLong) s'"
    and "pAcc = length (accessors (ts_gltf s))"
    and "length (accessors (ts_gltf s')) = Suc pAcc"
    and "ts_primitive s' = ts_primitive s"
    and "\<exists>di dd base. dummyIdxView s' = Some di \<and> dummyDataView s' = Some dd
           \<and> pAccBase b = Some base
           \<and> accessors (ts_gltf s') ! pAcc =
               (accessors (ts_gltf s) ! base)
                 \<lparr>accessor_min := [], accessor_max := [], accessor_name := channel_name channel,
                  sparse := Some \<lparr>sparse_count = 1, sparse_indices = di,
                                  sparse_indexType = index_type useLong, sparse_values = dd,
                                  sparse_valueType = GLT_VEC3F\<rparr>,
                  accessor_ix := pAcc\<rparr>"
    and "\<And>v. dummyIdxView s = Some v \<Longrightarrow> dummyIdxView s' = Some v"
    and "\<And>v. dummyDataView s = Some v \<Longrightarrow> dummyDataView s' = Some v"
    and "sparse_ok (index_type useLong) (ts_gltf s') (accessors (ts_gltf s') ! pAcc)"
proof -
  obtain di dd g2 where dv: "dummy_views useLong s = ((di, dd), g2)"
    by (metis prod.exhaust)
  note d = dummy_views_spec [OF dv inv]
  from e dv obtain base where base: "pAccBase b = Some base"
    by (auto simp: empty_channel_dummy_views split: option.splits)
  from e dv base have p: "pAcc = length (accessors g2)"
    and s': "s' = s\<lparr>ts_gltf := g2\<lparr>accessors := accessors g2 @
         [(accessors g2 ! base)
            \<lparr>accessor_min := [], accessor_max := [], accessor_name := channel_name channel,
             sparse := Some \<lparr>sparse_count = 1, sparse_indices = di,
                             sparse_indexType = index_type useLong,
                             sparse_values = dd, sparse_valueType = GLT_VEC3F\<rparr>,
             accessor_ix := length (accessors g2)\<rparr>]\<rparr>,
         dummyIdxView := Some di, dummyDataView := Some dd\<rparr>"
    by (auto simp: empty_channel_dummy_views AddSparseAccessor_eq)
  show "frame (ts_gltf s) (ts_gltf s')"
    using d(1) by (simp add: s' frame_def prefix_snoc)
  show "dummy_inv (index_type useLong) s'"
    using d by (simp add: s' dummy_inv_def)
  show "pAcc = length (accessors (ts_gltf s))" using p d(2) by simp
  show "length (accessors (ts_gltf s')) = Suc pAcc" using p by (simp add: s')
  show "ts_primitive s' = ts_primitive s" by (simp add: s')
  show "\<exists>di dd base. dummyIdxView s' = Some di \<and> dummyDataView s' = Some dd
           \<and> pAccBase b = Some base
           \<and> accessors (ts_gltf s') ! pAcc =
               (accessors (ts_gltf s) ! base)
                 \<lparr>accessor_min := [], accessor_max := [], accessor_name := channel_name channel,
                  sparse := Some \<lparr>sparse_count = 1, sparse_indices = di,
                                  sparse_indexType = index_type useLong, sparse_values = dd,
                                  sparse_valueType = GLT_VEC3F\<rparr>,
                  accessor_ix := pAcc\<rparr>"
    using base p d(2) by (simp add: s')
  show "\<And>v. dummyIdxView s = Some v \<Longrightarrow> dummyIdxView s' = Some v"
    using d(7) by (simp add: s')
  show "\<And>v. dummyDataView s = Some v \<Longrightarrow> dummyDataView s' = Some v"
    using d(8) by (simp add: s')
  show "sparse_ok (index_type useLong) (ts_gltf s') (accessors (ts_gltf s') ! pAcc)"
    using p d(3) d(5) by (simp add: s' sparse_ok_def)
qed

lemma sparse_attr_spec:
  assumes "sparse_attr base iv T vt xs name g = (a, g')"
  shows "a = length (accessors g)"
    and "accessors g' = accessors g @
           [sparse_accessor (accessors g ! base) name (length xs) iv T (length (bufferViews g)) vt a]"
    and "bufferViews g' = bufferViews g @ [filled_view (length (bufferViews g)) GL_ARRAY_NONE vt xs]"
  using assms
  by (auto simp: sparse_attr_def GetAlignedBufferView_eq AddSparseAccessorWithView_eq
        CopyToBufferView_def sparse_accessor_def filled_view_def)

lemma fresh_view_spec:
  assumes "fresh_view t xs T g = (v, g1)"
  shows "v = length (bufferViews g)" and "accessors g1 = accessors g"
    and "bufferViews g1 = bufferViews g @ [filled_view v t T xs]"
  using assms
  by (auto simp: fresh_view_def GetAlignedBufferView_eq CopyToBufferView_def filled_view_def)

lemma index_view_spec:
  assumes "GetAlignedBufferView t g = (v, g0)" and "g1 = CopyToBufferView v xs T g0"
  shows "v = length (bufferViews g)" and "accessors g1 = accessors g"
    and "bufferViews g1 = bufferViews g @ [filled_view v t T xs]"
  using assms
  by (auto simp: GetAlignedBufferView_eq CopyToBufferView_def filled_view_def)

lemma sparse_channel_attr:
  "sparse_channel useLong b channel c g =
     (let (indexBufferView, g1) =
            fresh_view GL_ARRAY_NONE (map UIntV (sparseIndices c)) (index_type useLong) g
      in case pAccBase b of
           None \<Rightarrow> None
         | Some pBase \<Rightarrow>
             (let (pAcc, g3) = sparse_attr pBase indexBufferView (index_type useLong) GLT_VEC3F
                                 (map Vec3V (positions c)) (channel_name channel) g1
              in case (if normals c \<noteq> [] then
                         (case nAccBase b of
                            None \<Rightarrow> None
                          | Some nBase \<Rightarrow>
                              (let (nAcc, g5) = sparse_attr nBase indexBufferView (index_type useLong)
                                     GLT_VEC3F (map Vec3V (normals c)) (channel_name channel) g3
                               in Some (Some nAcc, g5)))
                       else Some (None, g3)) of
                   None \<Rightarrow> None
                 | Some (nAcc, g5) \<Rightarrow>
                     (if tangents c \<noteq> [] then
                        (case nAccBase b of
                           None \<Rightarrow> None
                         | Some nBase \<Rightarrow>
                             (let (tAcc, g7) = sparse_attr nBase indexBufferView (index_type useLong)
                                    GLT_VEC4F (map Vec4V (tangents c)) (channel_name channel) g5
                              in Some (\<lparr>target_position = pAcc, target_normal = nAcc,
                                        target_tangent = Some tAcc\<rparr>, g7)))
                      else Some (\<lparr>target_position = pAcc, target_normal = nAcc,
                                  target_tangent = None\<rparr>, g5))))"
  by (simp add: sparse_channel_def sparse_attr_def fresh_view_def Let_def split: prod.splits option.splits)

lemma sparse_attr_specD:
  "sparse_attr base iv T vt xs name g = (a, g') \<Longrightarrow>
     a = length (accessors g)
     \<and> accessors g' = accessors g @
           [sparse_accessor (accessors g ! base) name (length xs) iv T (length (bufferViews g)) vt
              (length (accessors g))]
     \<and> bufferViews g' = bufferViews g @ [filled_view (length (bufferViews g)) GL_ARRAY_NONE vt xs]"
  using sparse_attr_spec [of base iv T vt xs name g a g'] by simp

lemma fresh_viewD:
  "fresh_view t xs T g = (v, g1) \<Longrightarrow>
     v = length (bufferViews g) \<and> accessors g1 = accessors g
     \<and> bufferViews g1 = bufferViews g @ [filled_view (length (bufferViews g)) t T xs]"
  using fresh_view_spec [of t xs T g v g1] by simp

lemma sparse_ok_sparse_accessor:
  "sparse_ok T g (sparse_accessor base name n iv T vv vt ix) \<longleftrightarrow>
     0 < n \<and> iv < length (bufferViews g) \<and> list_all (\<lambda>tx. fst tx = T) (view_data (bufferViews g ! iv))"
  by (simp add: sparse_ok_def sparse_accessor_def)

lemma view_data_filled: "view_data (filled_view ix t T xs) = map (Pair T) xs"
  by (simp add: filled_view_def)

lemma list_all_Pair: "list_all (\<lambda>tx. fst tx = T) (map (Pair T) xs)"
  by (simp add: list_all_iff)

lemma list_all_Pair_comp: "list_all (\<lambda>tx. fst tx = T) (map (Pair T \<circ> f) xs)"
  by (simp add: list_all_iff)

lemma mirrors_sparse_accessor: "mirrors (sparse_accessor base name n iv T vv vt ix) base"
  by (simp add: mirrors_def sparse_accessor_def)

lemma sparse_sparse_accessor:
  "sparse (sparse_accessor base name n iv T vv vt ix) =
     Some \<lparr>sparse_count = n, sparse_indices = iv, sparse_indexType = T,
            sparse_values = vv, sparse_valueType = vt\<rparr>"
  by (simp add: sparse_accessor_def)

lemma sparse_channel_spec:
  assumes "sparse_channel useLong b channel c g = Some (t, g')"
    and "positions c \<noteq> []"
  shows "frame g g'"
    and "list_all (sparse_ok (index_type useLong) g') (created g g')"
    and "target_position t = length (accessors g)"
    and "target_position t < length (accessors g')"
    and "tangents c = [] \<Longrightarrow> target_tangent t = None"
  using assms
  by (auto simp: sparse_channel_attr Let_def frame_def created_def sparse_ok_sparse_accessor
        view_data_filled list_all_Pair list_all_Pair_comp nth_append
      split: prod.splits option.splits if_splits
      dest!: sparse_attr_specD fresh_viewD)

lemma sparse_channel_tangent:
  assumes "sparse_channel useLong b channel c g = Some (t, g')"
    and "tangents c \<noteq> []"
    and "\<And>x. nAccBase b = Some x \<Longrightarrow> x < length (accessors g)"
  shows "\<exists>ta nb sp. target_tangent t = Some ta \<and> nAccBase b = Some nb
             \<and> length (accessors g) \<le> ta \<and> ta < length (accessors g')
             \<and> ta \<noteq> target_position t
             \<and> mirrors (accessors g' ! ta) (accessors g ! nb)
             \<and> sparse (accessors g' ! ta) = Some sp
             \<and> sparse_count sp = length (tangents c)
             \<and> sparse_indices sp = length (bufferViews g)
             \<and> sparse_indexType sp = index_type useLong
             \<and> sparse_valueType sp = GLT_VEC4F"
  using assms
  by (auto simp: sparse_channel_attr Let_def nth_append mirrors_sparse_accessor
        sparse_sparse_accessor
      split: prod.splits option.splits if_splits
      dest!: sparse_attr_specD fresh_viewD)

lemma dense_attrD:
  "dense_attr t T xs name g = (a, g') \<Longrightarrow>
     a = length (accessors g)
     \<and> accessors g' = accessors g @
           [dense_accessor T (length (bufferViews g)) (length xs) name (length (accessors g))]
     \<and> bufferViews g' = bufferViews g @ [filled_view (length (bufferViews g)) t T xs]"
  by (auto simp: dense_attr_def GetAlignedBufferView_eq AddAccessorWithView_eq
        CopyToBufferView_def dense_accessor_def filled_view_def new_AccessorData_def
        view_byteLength_def)

lemma dense_channel_attr:
  "dense_channel channel c g =
     (let (pAcc, g2) = dense_attr GL_ARRAY_BUFFER GLT_VEC3F (map Vec3V (positions c))
                         (channel_name channel) g;
          (nAcc, g4) =
            (if normals c \<noteq> [] then
               (let (a, g') = dense_attr GL_ARRAY_BUFFER GLT_VEC3F (map Vec3V (normals c))
                                (channel_name channel) g2
                in (Some a, g'))
             else (None, g2));
          (nAcc', g6) =
            (if tangents c \<noteq> [] then
               (let (a, g') = dense_attr GL_ARRAY_BUFFER GLT_VEC4F (map Vec4V (tangents c))
                                (channel_name channel) g4
                in (Some a, g'))
             else (nAcc, g4))
      in (\<lparr>target_position = pAcc, target_normal = nAcc', target_tangent = None\<rparr>, g6))"
  by (simp add: dense_channel_def dense_attr_def Let_def split: prod.splits)

lemma sparse_ok_dense [simp]: "sparse_ok T g (dense_accessor T' v n name ix)"
  by (simp add: sparse_ok_def dense_accessor_def)

lemma dense_channel_spec:
  assumes "dense_channel channel c g = (t, g')"
  defines "k \<equiv> (if normals c = [] then 1 else 2 :: nat)"
  shows "frame g g'"
    and "list_all (sparse_ok T g') (created g g')"
    and "target_position t = length (accessors g)"
    and "target_position t < length (accessors g')"
    and "target_tangent t = None"
    and "tangents c \<noteq> [] \<Longrightarrow>
           target_normal t = Some (length (accessors g) + k)
           \<and> length (accessors g) + k < length (accessors g')
           \<and> accessors g' ! (length (accessors g) + k) =
                 dense_accessor GLT_VEC4F (length (bufferViews g) + k) (length (tangents c))
                   (channel_name channel) (length (accessors g) + k)
           \<and> length (bufferViews g) + k < length (bufferViews g')
           \<and> bufferViews g' ! (length (bufferViews g) + k) =
                 filled_view (length (bufferViews g) + k) GL_ARRAY_BUFFER GLT_VEC4F
                   (map Vec4V (tangents c))"
    and "normals c \<noteq> [] \<Longrightarrow>
           Suc (length (accessors g)) < length (accessors g')
           \<and> accessors g' ! Suc (length (accessors g)) =
                 dense_accessor GLT_VEC3F (Suc (length (bufferViews g))) (length (normals c))
                   (channel_name channel) (Suc (length (accessors g)))"
    and "tangents c = [] \<Longrightarrow> normals c \<noteq> [] \<Longrightarrow>
           target_normal t = Some (Suc (length (accessors g)))"
    and "tangents c = [] \<Longrightarrow> normals c = [] \<Longrightarrow> target_normal t = None"
  using assms(1) unfolding k_def
  by (auto simp: dense_channel_attr Let_def frame_def created_def nth_append
      split: prod.splits if_splits dest!: dense_attrD)

lemma mfold_invariant:
  assumes "mfold f xs s = Some s'" and "P s"
    and "\<And>x s s'. x \<in> set xs \<Longrightarrow> P s \<Longrightarrow> f x s = Some s' \<Longrightarrow> P s'"
  shows "P s'"
  using assms
proof (induction xs arbitrary: s)
  case Nil
  then show ?case by simp
next
  case (Cons x xs)
  from Cons.prems(1) obtain s1 where 1: "f x s = Some s1" and 2: "mfold f xs s1 = Some s'"
    by (auto split: option.splits)
  have p1: "P s1" using Cons.prems(3) [of x s s1] Cons.prems(2) 1 by simp
  show ?case
  proof (rule Cons.IH [OF 2 p1])
    fix y t t' assume "y \<in> set xs" "P t" "f y t = Some t'"
    then show "P t'" using Cons.prems(3) [of y t t'] by simp
  qed
qed

lemma mfold_indexed:
  assumes "mfold f (zip [n ..< n + length xs] xs) s = Some s'" and "I n s"
    and "\<And>k s s'. n \<le> k \<Longrightarrow> k < n + length xs \<Longrightarrow> I k s
            \<Longrightarrow> f (k, xs ! (k - n)) s = Some s' \<Longrightarrow> I (Suc k) s'"
  shows "I (n + length xs) s'"
  using assms
proof (induction xs arbitrary: s n)
  case Nil
  then show ?case by simp
next
  case (Cons x xs)
  have z: "zip [n ..< n + length (x # xs)] (x # xs) = (n, x) # zip [Suc n ..< Suc n + length xs] xs"
  proof -
    have "[n ..< n + length (x # xs)] = n # [Suc n ..< Suc n + length xs]"
      by (simp add: upt_conv_Cons del: upt_Suc)
    then show ?thesis by simp
  qed
  from Cons.prems(1) obtain s1 where 1: "f (n, x) s = Some s1"
    and 2: "mfold f (zip [Suc n ..< Suc n + length xs] xs) s1 = Some s'"
    unfolding z by (auto split: option.splits)
  have i1: "I (Suc n) s1"
    using Cons.prems(3) [of n s s1] Cons.prems(2) 1 by simp
  have "I (Suc n + length xs) s'"
  proof (rule Cons.IH [OF 2 i1])
    fix k s s'
    assume a: "Suc n \<le> k" "k < Suc n + length xs" "I k s" "f (k, xs ! (k - Suc n)) s = Some s'"
    then have "(x # xs) ! (k - n) = xs ! (k - Suc n)"
      by (simp add: nth_Cons')
    with a show "I (Suc k) s'"
      using Cons.prems(3) [of k s s'] by simp
  qed
  then show ?case by simp
qed

lemma collect_vertex_lengths:
  "collect_vertex Length options channel ci jv c = Some c' \<Longrightarrow>
     length (positions c) = length (sparseIndices c) \<Longrightarrow>
     length (positions c') = length (sparseIndices c')"
  by (auto simp: collect_vertex_def Let_def split: option.splits if_splits)

lemma collect_lengths:
  assumes "collect Length options sm channel ci = Some c"
  shows "length (positions c) = length (sparseIndices c)"
  using assms unfolding collect_def
  by (rule mfold_invariant) (simp_all add: new_Collected_def collect_vertex_lengths)

lemma dummy_inv_frame:
  assumes "dummy_inv T s" and "frame (ts_gltf s) g'"
  shows "dummy_inv T (s\<lparr>ts_gltf := g'\<rparr>)"
proof -
  have "\<And>v. v < length (bufferViews (ts_gltf s)) \<Longrightarrow>
          v < length (bufferViews g') \<and> bufferViews g' ! v = bufferViews (ts_gltf s) ! v"
    using assms(2) frame_lengths [OF assms(2)] by (simp add: frame_view)
  with assms(1) show ?thesis by (simp add: dummy_inv_def)
qed

lemma sparse_ok_frame:
  assumes "sparse_ok T g a" and "frame g g'"
  shows "sparse_ok T g' a"
proof (cases "sparse a")
  case None
  then show ?thesis by (simp add: sparse_ok_def)
next
  case (Some sp)
  with assms(1) have 1: "sparse_indices sp < length (bufferViews g)"
    by (simp add: sparse_ok_def)
  then have "sparse_indices sp < length (bufferViews g')"
    and "bufferViews g' ! sparse_indices sp = bufferViews g ! sparse_indices sp"
    using frame_lengths [OF assms(2)] frame_view [OF assms(2) 1] by simp_all
  with assms(1) Some show ?thesis by (simp add: sparse_ok_def)
qed


lemma created_single:
  "length (accessors g') = Suc (length (accessors g)) \<Longrightarrow>
   created g g' = [accessors g' ! length (accessors g)]"
  unfolding created_def
  by (metis Cons_nth_drop_Suc drop_all lessI order_refl)

lemma channel_accessors_spec:
  assumes ca: "channel_accessors options useLong b channel c s = Some (t, s1)"
    and inv: "dummy_inv (index_type useLong) s"
    and pos: "length (positions c) = length (sparseIndices c)"
  shows "frame (ts_gltf s) (ts_gltf s1)"
    and "list_all (sparse_ok (index_type useLong) (ts_gltf s1)) (created (ts_gltf s) (ts_gltf s1))"
    and "dummy_inv (index_type useLong) s1"
    and "target_position t = length (accessors (ts_gltf s))"
    and "target_position t < length (accessors (ts_gltf s1))"
    and "ts_primitive s1 = ts_primitive s"
    and "\<And>v. dummyIdxView s = Some v \<Longrightarrow> dummyIdxView s1 = Some v"
    and "\<And>v. dummyDataView s = Some v \<Longrightarrow> dummyDataView s1 = Some v"
proof -
  let ?T = "index_type useLong"
  consider (empty) "\<not> disableSparseBlendShapes options" "sparseIndices c = []"
    | (sparse) "\<not> disableSparseBlendShapes options" "sparseIndices c \<noteq> []"
    | (dense) "disableSparseBlendShapes options" by blast
  then have "frame (ts_gltf s) (ts_gltf s1)
    \<and> list_all (sparse_ok ?T (ts_gltf s1)) (created (ts_gltf s) (ts_gltf s1))
    \<and> dummy_inv ?T s1
    \<and> target_position t = length (accessors (ts_gltf s))
    \<and> target_position t < length (accessors (ts_gltf s1))
    \<and> ts_primitive s1 = ts_primitive s
    \<and> (\<forall>v. dummyIdxView s = Some v \<longrightarrow> dummyIdxView s1 = Some v)
    \<and> (\<forall>v. dummyDataView s = Some v \<longrightarrow> dummyDataView s1 = Some v)"
  proof cases
    case empty
    with ca obtain pAcc where e: "empty_channel useLong b channel s = Some (pAcc, s1)"
      and t: "t = \<lparr>target_position = pAcc, target_normal = None, target_tangent = None\<rparr>"
      by (auto simp: channel_accessors_def split: option.splits)
    note sp = empty_channel_spec [OF e inv]
    have "created (ts_gltf s) (ts_gltf s1) = [accessors (ts_gltf s1) ! pAcc]"
      using sp(3) sp(4) created_single [of "ts_gltf s1" "ts_gltf s"] by simp
    with sp show ?thesis by (simp add: t)
  next
    case sparse
    with ca obtain g1 where e: "sparse_channel useLong b channel c (ts_gltf s) = Some (t, g1)"
      and s1: "s1 = s\<lparr>ts_gltf := g1\<rparr>"
      by (auto simp: channel_accessors_def split: option.splits)
    from sparse pos have "positions c \<noteq> []" by auto
    note sp = sparse_channel_spec [OF e this]
    from sp show ?thesis using dummy_inv_frame [OF inv sp(1)] by (simp add: s1)
  next
    case dense
    with ca obtain g1 where e: "dense_channel channel c (ts_gltf s) = (t, g1)"
      and s1: "s1 = s\<lparr>ts_gltf := g1\<rparr>"
      by (auto simp: channel_accessors_def split: prod.splits)
    note sp = dense_channel_spec [OF e]
    from sp(1,3,4) sp(2) [of ?T] show ?thesis
      using dummy_inv_frame [OF inv sp(1)] by (simp add: s1)
  qed
  then show "frame (ts_gltf s) (ts_gltf s1)"
    and "list_all (sparse_ok (index_type useLong) (ts_gltf s1)) (created (ts_gltf s) (ts_gltf s1))"
    and "dummy_inv (index_type useLong) s1"
    and "target_position t = length (accessors (ts_gltf s))"
    and "target_position t < length (accessors (ts_gltf s1))"
    and "ts_primitive s1 = ts_primitive s"
    and "\<And>v. dummyIdxView s = Some v \<Longrightarrow> dummyIdxView s1 = Some v"
    and "\<And>v. dummyDataView s = Some v \<Longrightarrow> dummyDataView s1 = Some v"
    by simp_all
qed

lemma sparse_ok_set_min_max:
  assumes "list_all (sparse_ok T g1) (created g g1)"
  shows "list_all (sparse_ok T (set_min_max a lo hi g1)) (created g (set_min_max a lo hi g1))"
proof -
  have 1: "\<And>x. sparse_ok T (set_min_max a lo hi g1) x = sparse_ok T g1 x"
    by (simp add: sparse_ok_def set_min_max_simps split: option.splits)
  have 2: "\<And>i. i < length (accessors g1) \<Longrightarrow>
             sparse_ok T g1 (accessors (set_min_max a lo hi g1) ! i) = sparse_ok T g1 (accessors g1 ! i)"
    by (simp add: sparse_ok_def set_min_max_simps)
  show ?thesis
    using assms unfolding created_def list_all_length
    by (simp add: 1 2 set_min_max_simps)
qed

lemma created_trans:
  assumes "frame g0 g1" and "frame g1 g2"
  shows "created g0 g2 = created g0 g1 @ created g1 g2"
proof -
  from assms(2) obtain zs where z: "accessors g2 = accessors g1 @ zs"
    by (auto simp: frame_def prefix_def)
  from assms(1) obtain ys where y: "accessors g1 = accessors g0 @ ys"
    by (auto simp: frame_def prefix_def)
  show ?thesis by (simp add: created_def z y)
qed

lemma list_all_sparse_ok_frame:
  "list_all (sparse_ok T g) xs \<Longrightarrow> frame g g' \<Longrightarrow> list_all (sparse_ok T g') xs"
  by (induction xs) (auto intro: sparse_ok_frame)

lemma sparse_ok_trans:
  assumes "frame g0 g1" and "frame g1 g2"
    and "list_all (sparse_ok T g1) (created g0 g1)"
    and "list_all (sparse_ok T g2) (created g1 g2)"
  shows "list_all (sparse_ok T g2) (created g0 g2)"
  using assms by (simp add: created_trans list_all_sparse_ok_frame)

lemma channel_step_spec:
  assumes cs: "channel_step Length options sm useLong b ic s = Some s'"
    and inv: "dummy_inv (index_type useLong) s"
  shows "frame (ts_gltf s) (ts_gltf s')"
    and "list_all (sparse_ok (index_type useLong) (ts_gltf s')) (created (ts_gltf s) (ts_gltf s'))"
    and "dummy_inv (index_type useLong) s'"
    and "length (targets (ts_primitive s')) = Suc (length (targets (ts_primitive s)))"
    and "take (length (targets (ts_primitive s))) (targets (ts_primitive s')) = targets (ts_primitive s)"
    and "\<And>v. dummyIdxView s = Some v \<Longrightarrow> dummyIdxView s' = Some v"
    and "\<And>v. dummyDataView s = Some v \<Longrightarrow> dummyDataView s' = Some v"
proof -
  from cs obtain c t s1 where c: "collect Length options sm (snd ic) (fst ic) = Some c"
    and ca: "channel_accessors options useLong b (snd ic) c s = Some (t, s1)"
    and s': "s' = s1\<lparr>ts_gltf := set_min_max (target_position t)
                                      (toStdVec (bounds_lo (shapeBounds c)))
                                      (toStdVec (bounds_hi (shapeBounds c))) (ts_gltf s1),
                        ts_primitive := AddTarget t (ts_primitive s1)\<rparr>"
    by (auto simp: channel_step_def split: option.splits)
  note sp = channel_accessors_spec [OF ca inv collect_lengths [OF c]]
  show f: "frame (ts_gltf s) (ts_gltf s')"
    using sp(1) sp(4) by (simp add: s' frame_set_min_max)
  show "list_all (sparse_ok (index_type useLong) (ts_gltf s')) (created (ts_gltf s) (ts_gltf s'))"
    using sp(2) by (simp add: s' sparse_ok_set_min_max)
  show "dummy_inv (index_type useLong) s'"
    using sp(3) by (simp add: s' dummy_inv_def set_min_max_simps)
  show "length (targets (ts_primitive s')) = Suc (length (targets (ts_primitive s)))"
    by (simp add: s' AddTarget_def sp(6))
  show "take (length (targets (ts_primitive s))) (targets (ts_primitive s')) = targets (ts_primitive s)"
    by (simp add: s' AddTarget_def sp(6))
  show "\<And>v. dummyIdxView s = Some v \<Longrightarrow> dummyIdxView s' = Some v"
    using sp(7) by (simp add: s')
  show "\<And>v. dummyDataView s = Some v \<Longrightarrow> dummyDataView s' = Some v"
    using sp(8) by (simp add: s')
qed

lemma ts_ext_refl: "ts_ext s s"
  by (simp add: ts_ext_def frame_refl)

lemma ts_ext_trans: "ts_ext s1 s2 \<Longrightarrow> ts_ext s2 s3 \<Longrightarrow> ts_ext s1 s3"
  unfolding ts_ext_def by (meson frame_trans prefix_order.order_trans)

lemma channel_step_ext:
  assumes cs: "channel_step Length options sm useLong b ic s = Some s'"
    and inv: "dummy_inv (index_type useLong) s"
  shows "ts_ext s s'"
proof -
  note sp = channel_step_spec [OF cs inv]
  have "prefix (targets (ts_primitive s)) (targets (ts_primitive s'))"
    using sp(5) by (metis take_is_prefix)
  with sp show ?thesis by (simp add: ts_ext_def)
qed

lemma build_targets_invariant:
  assumes bt: "build_targets Length options sm rawSurface useLong b primitive g = Some s"
    and stab: "\<And>ci t s s'. R ci t s \<Longrightarrow> ts_ext s s' \<Longrightarrow> R ci t s'"
    and est: "\<And>ci s0 s1. ci < length (blendChannels rawSurface)
                \<Longrightarrow> dummy_inv (index_type useLong) s0
                \<Longrightarrow> frame g (ts_gltf s0)
                \<Longrightarrow> channel_step Length options sm useLong b (ci, blendChannels rawSurface ! ci) s0 = Some s1
                \<Longrightarrow> R ci (last (targets (ts_primitive s1))) s1"
  shows "targets_inv (index_type useLong) b
           \<lparr>ts_gltf = g, ts_primitive = primitive, dummyIdxView = None, dummyDataView = None\<rparr>
           R (length (blendChannels rawSurface)) s"
proof -
  let ?T = "index_type useLong"
  let ?s0 = "\<lparr>ts_gltf = g, ts_primitive = primitive, dummyIdxView = None, dummyDataView = None\<rparr>"
  let ?xs = "blendChannels rawSurface"
  let ?n0 = "length (targets primitive)"
  have m: "mfold (channel_step Length options sm useLong b) (zip [0 ..< 0 + length ?xs] ?xs) ?s0 = Some s"
    using bt by (simp add: build_targets_def)
  have i0: "targets_inv ?T b ?s0 R 0 ?s0"
    by (simp add: targets_inv_def ts_ext_refl dummy_inv_def created_def)
  have "targets_inv ?T b ?s0 R (0 + length ?xs) s"
  proof (rule mfold_indexed [OF m, where I = "targets_inv ?T b ?s0 R", OF i0])
    fix k s1 s2
    assume k: "0 \<le> k" "k < 0 + length ?xs" and inv: "targets_inv ?T b ?s0 R k s1"
      and step: "channel_step Length options sm useLong b (k, ?xs ! (k - 0)) s1 = Some s2"
    from inv have e1: "ts_ext ?s0 s1" and d1: "dummy_inv ?T s1"
      and ok1: "list_all (sparse_ok ?T (ts_gltf s1)) (created g (ts_gltf s1))"
      and l1: "length (targets (ts_primitive s1)) = ?n0 + k"
      and r1: "\<forall>ci<k. R ci (targets (ts_primitive s1) ! (?n0 + ci)) s1"
      by (simp_all add: targets_inv_def)
    from e1 have f1: "frame g (ts_gltf s1)" by (simp add: ts_ext_def)
    from step have step': "channel_step Length options sm useLong b (k, ?xs ! k) s1 = Some s2" by simp
    note sp = channel_step_spec [OF step' d1]
    have e12: "ts_ext s1 s2" by (rule channel_step_ext [OF step' d1])
    have e2: "ts_ext ?s0 s2" by (rule ts_ext_trans [OF e1 e12])
    have ok2: "list_all (sparse_ok ?T (ts_gltf s2)) (created g (ts_gltf s2))"
      using sparse_ok_trans [OF f1 sp(1) ok1 sp(2)] .
    have l2: "length (targets (ts_primitive s2)) = ?n0 + Suc k"
      using sp(4) l1 by simp
    have new: "R k (last (targets (ts_primitive s2))) s2"
      using est [OF _ d1 f1 step'] k by simp
    have lastk: "last (targets (ts_primitive s2)) = targets (ts_primitive s2) ! (?n0 + k)"
      using l2 by (metis add_Suc_right diff_Suc_1 last_conv_nth length_0_conv nat.distinct(1))
    have old: "\<And>ci. ci < k \<Longrightarrow> targets (ts_primitive s2) ! (?n0 + ci) = targets (ts_primitive s1) ! (?n0 + ci)"
      using sp(5) l1 by (metis add_less_cancel_left nth_take)
    have "\<forall>ci<Suc k. R ci (targets (ts_primitive s2) ! (?n0 + ci)) s2"
    proof (intro allI impI)
      fix ci assume "ci < Suc k"
      then consider "ci < k" | "ci = k" by linarith
      then show "R ci (targets (ts_primitive s2) ! (?n0 + ci)) s2"
      proof cases
        case 1
        with r1 have "R ci (targets (ts_primitive s1) ! (?n0 + ci)) s1" by simp
        then have "R ci (targets (ts_primitive s1) ! (?n0 + ci)) s2" using e12 by (rule stab)
        with 1 show ?thesis by (simp add: old)
      next
        case 2
        with new lastk show ?thesis by simp
      qed
    qed
    with e2 sp(3) ok2 l2 show "targets_inv ?T b ?s0 R (Suc k) s2"
      by (simp add: targets_inv_def)
  qed
  then show ?thesis by simp
qed

lemma tangent_in_normal_slot_frame:
  assumes "tangent_in_normal_slot c channel t g" and "frame g g'"
  shows "tangent_in_normal_slot c channel t g'"
proof -
  from assms(1) obtain a v where a: "target_normal t = Some a" "a < length (accessors g)"
      "accessors g ! a = dense_accessor GLT_VEC4F v (length (tangents c)) (channel_name channel) a"
      "v < length (bufferViews g)"
      "bufferViews g ! v = filled_view v GL_ARRAY_BUFFER GLT_VEC4F (map Vec4V (tangents c))"
    and n: "normals c \<noteq> [] \<longrightarrow>
             (\<exists>n w. n < length (accessors g) \<and> n \<noteq> a \<and> n \<noteq> target_position t
                \<and> accessors g ! n =
                     dense_accessor GLT_VEC3F w (length (normals c)) (channel_name channel) n)"
    unfolding tangent_in_normal_slot_def by blast
  note l = frame_lengths [OF assms(2)]
  have acc: "\<And>i. i < length (accessors g) \<Longrightarrow> i < length (accessors g') \<and> accessors g' ! i = accessors g ! i"
    using l frame_accessor [OF assms(2)] by simp
  have vw: "v < length (bufferViews g') \<and> bufferViews g' ! v = bufferViews g ! v"
    using l a(4) frame_view [OF assms(2)] by simp
  have "normals c \<noteq> [] \<longrightarrow>
             (\<exists>n w. n < length (accessors g') \<and> n \<noteq> a \<and> n \<noteq> target_position t
                \<and> accessors g' ! n =
                     dense_accessor GLT_VEC3F w (length (normals c)) (channel_name channel) n)"
    using n acc by metis
  with a acc [OF a(2)] vw show ?thesis
    unfolding tangent_in_normal_slot_def by (intro exI [of _ a] exI [of _ v]) simp
qed

lemma channel_stepE:
  assumes "channel_step Length options sm useLong b ic s = Some s'"
  obtains c t s1 where "collect Length options sm (snd ic) (fst ic) = Some c"
    and "channel_accessors options useLong b (snd ic) c s = Some (t, s1)"
    and "s' = s1\<lparr>ts_gltf := set_min_max (target_position t)
                                      (toStdVec (bounds_lo (shapeBounds c)))
                                      (toStdVec (bounds_hi (shapeBounds c))) (ts_gltf s1),
                        ts_primitive := AddTarget t (ts_primitive s1)\<rparr>"
  using assms by (auto simp: channel_step_def split: option.splits)

lemma set_min_max_other:
  "i \<noteq> a \<Longrightarrow> accessors (set_min_max a lo hi g) ! i = accessors g ! i"
  by (simp add: set_min_max_def)

lemma channel_step_dense:
  assumes cs: "channel_step Length options sm useLong b (ci, channel) s0 = Some s1"
    and dis: "disableSparseBlendShapes options"
  shows "target_tangent (last (targets (ts_primitive s1))) = None"
    and "\<And>c. collect Length options sm channel ci = Some c \<Longrightarrow> tangents c \<noteq> [] \<Longrightarrow>
           tangent_in_normal_slot c channel (last (targets (ts_primitive s1))) (ts_gltf s1)"
proof -
  from cs obtain c t s2 where c: "collect Length options sm channel ci = Some c"
    and ca: "channel_accessors options useLong b channel c s0 = Some (t, s2)"
    and s1: "s1 = s2\<lparr>ts_gltf := set_min_max (target_position t)
                                      (toStdVec (bounds_lo (shapeBounds c)))
                                      (toStdVec (bounds_hi (shapeBounds c))) (ts_gltf s2),
                        ts_primitive := AddTarget t (ts_primitive s2)\<rparr>"
    by (rule channel_stepE) simp_all
  from ca dis obtain g1 where d: "dense_channel channel c (ts_gltf s0) = (t, g1)"
    and s2: "s2 = s0\<lparr>ts_gltf := g1\<rparr>"
    by (auto simp: channel_accessors_def split: prod.splits)
  note sp = dense_channel_spec [OF d]
  have last: "last (targets (ts_primitive s1)) = t" by (simp add: s1 AddTarget_def)
  show "target_tangent (last (targets (ts_primitive s1))) = None"
    using sp(5) last by simp
  fix c' assume "collect Length options sm channel ci = Some c'" and tn: "tangents c' \<noteq> []"
  with c have cc: "c' = c" by simp
  let ?k = "if normals c = [] then 1 else 2 :: nat"
  let ?n = "length (accessors (ts_gltf s0))"
  let ?g = "ts_gltf s1"
  from tn cc have tn: "tangents c \<noteq> []" by simp
  note t6 = sp(6) [OF tn]
  have g: "?g = set_min_max ?n (toStdVec (bounds_lo (shapeBounds c)))
                  (toStdVec (bounds_hi (shapeBounds c))) g1"
    using sp(3) by (simp add: s1 s2)
  have len: "length (accessors ?g) = length (accessors g1)" "bufferViews ?g = bufferViews g1"
    by (simp_all add: g set_min_max_simps)
  have a: "accessors ?g ! (?n + ?k) = accessors g1 ! (?n + ?k)"
    unfolding g by (rule set_min_max_other) simp
  have nrm: "normals c \<noteq> [] \<longrightarrow>
      (\<exists>n w. n < length (accessors ?g) \<and> n \<noteq> ?n + ?k \<and> n \<noteq> target_position t
         \<and> accessors ?g ! n = dense_accessor GLT_VEC3F w (length (normals c)) (channel_name channel) n)"
  proof
    assume nn: "normals c \<noteq> []"
    note t7 = sp(7) [OF nn]
    have "accessors ?g ! Suc ?n = accessors g1 ! Suc ?n"
      unfolding g by (rule set_min_max_other) simp
    with t7 nn sp(3) len show "\<exists>n w. n < length (accessors ?g) \<and> n \<noteq> ?n + ?k \<and> n \<noteq> target_position t
         \<and> accessors ?g ! n = dense_accessor GLT_VEC3F w (length (normals c)) (channel_name channel) n"
      by (intro exI [of _ "Suc ?n"] exI [of _ "Suc (length (bufferViews (ts_gltf s0)))"]) simp
  qed
  show "tangent_in_normal_slot c' channel (last (targets (ts_primitive s1))) (ts_gltf s1)"
    unfolding tangent_in_normal_slot_def cc last
    using t6 a len nrm
    by (intro exI [of _ "?n + ?k"] exI [of _ "length (bufferViews (ts_gltf s0)) + ?k"]) simp
qed

lemma ex_options_simps:
  "disableSparseBlendShapes (ex_options d) = d"
  "useBlendShapeNormals (ex_options d) = True"
  "useBlendShapeTangents (ex_options d) = True"
  "useLongIndices (ex_options d) = AUTO"
  "draco_enabled (draco (ex_options d)) = False"
  by (simp_all add: ex_options_def)

lemma ex_surface_simps:
  "blendChannels (ex_surface i) = [ex_channel]"
  "surface_id (ex_surface i) = i"
  by (simp_all add: ex_surface_def)

lemma ex_channel_simps:
  "hasNormals ex_channel" "hasTangents ex_channel" "channel_name ex_channel = ''smile''"
  by (simp_all add: ex_channel_def)

lemma ex_collect_moved:
  "collect exact_Length (ex_options d) (ex_model i [ex_moved]) ex_channel 0 =
     Some \<lparr>sparseIndices = [0], positions = [(1, 0, 0)], normals = [(0, 0, 0)],
           tangents = [(0, 0, 0, 0)],
           shapeBounds = \<lparr>bounds_lo = (1, 0, 0), bounds_hi = (1, 0, 0), initialized = True\<rparr>\<rparr>"
  by (simp add: collect_def collect_vertex_def ex_options_simps ex_channel_simps ex_model_def
        ex_moved_def ex_vertex_def nth_at_def exact_Length_def new_Collected_def
        new_Bounds_def AddPoint_def)


lemma ex_dense_some:
  "\<exists>s. build_targets exact_Length (ex_options True) (ex_model 1 [ex_moved]) (ex_surface 1) False ex_no_base
     (new_PrimitiveData 0 0 False) new_GltfModel = Some s"
  by (simp add: build_targets_def channel_step_def ex_collect_moved channel_accessors_def
        ex_surface_simps ex_options_simps dense_channel_def GetAlignedBufferView_def hold_bufferView_def
        AddAccessorWithView_def hold_accessor_def Let_def
        split: prod.splits)

lemma targets_inv_all:
  assumes "targets_inv T b s0 R k s" and "targets (ts_primitive s0) = []"
  shows "length (targets (ts_primitive s)) = k"
    and "\<And>ci. ci < k \<Longrightarrow> R ci (targets (ts_primitive s) ! ci) s"
  using assms by (simp_all add: targets_inv_def)

lemma tangent_over_normal_base_frame:
  assumes "tangent_over_normal_base b T c t g" and "frame g g'"
  shows "tangent_over_normal_base b T c t g'"
proof -
  from assms(1) obtain ta nb sp where a: "target_tangent t = Some ta" "nAccBase b = Some nb"
      "ta < length (accessors g)" "nb < length (accessors g)"
      "mirrors (accessors g ! ta) (accessors g ! nb)"
      "sparse (accessors g ! ta) = Some sp" "sparse_count sp = length (tangents c)"
      "sparse_indexType sp = T" "sparse_valueType sp = GLT_VEC4F"
    unfolding tangent_over_normal_base_def by blast
  note l = frame_lengths [OF assms(2)]
  have acc: "\<And>i. i < length (accessors g) \<Longrightarrow> i < length (accessors g') \<and> accessors g' ! i = accessors g ! i"
    using l frame_accessor [OF assms(2)] by simp
  from a acc [OF a(3)] acc [OF a(4)] show ?thesis
    unfolding tangent_over_normal_base_def
    by (intro exI [of _ ta] exI [of _ nb] exI [of _ sp]) simp
qed


lemma channel_step_sparse_tangent:
  assumes cs: "channel_step Length options sm useLong b (ci, channel) s0 = Some s1"
    and dis: "\<not> disableSparseBlendShapes options"
    and nb: "\<And>x. nAccBase b = Some x \<Longrightarrow> x < length (accessors (ts_gltf s0))"
    and c: "collect Length options sm channel ci = Some c"
    and ne: "sparseIndices c \<noteq> []" and tn: "tangents c \<noteq> []"
  shows "tangent_over_normal_base b (index_type useLong) c (last (targets (ts_primitive s1))) (ts_gltf s1)"
proof -
  from cs c obtain t s2 where
        ca: "channel_accessors options useLong b channel c s0 = Some (t, s2)"
    and s1: "s1 = s2\<lparr>ts_gltf := set_min_max (target_position t)
                                      (toStdVec (bounds_lo (shapeBounds c)))
                                      (toStdVec (bounds_hi (shapeBounds c))) (ts_gltf s2),
                        ts_primitive := AddTarget t (ts_primitive s2)\<rparr>"
    by (auto elim!: channel_stepE)
  from ca dis ne obtain g1 where d: "sparse_channel useLong b channel c (ts_gltf s0) = Some (t, g1)"
    and s2: "s2 = s0\<lparr>ts_gltf := g1\<rparr>"
    by (auto simp: channel_accessors_def split: option.splits)
  from collect_lengths [OF c] ne have pos: "positions c \<noteq> []" by auto
  note sp = sparse_channel_spec [OF d pos]
  from sparse_channel_tangent [OF d tn nb] obtain ta nb' sp' where
    a: "target_tangent t = Some ta" "nAccBase b = Some nb'"
       "length (accessors (ts_gltf s0)) \<le> ta" "ta < length (accessors g1)"
       "ta \<noteq> target_position t"
       "mirrors (accessors g1 ! ta) (accessors (ts_gltf s0) ! nb')"
       "sparse (accessors g1 ! ta) = Some sp'" "sparse_count sp' = length (tangents c)"
       "sparse_indexType sp' = index_type useLong" "sparse_valueType sp' = GLT_VEC4F"
    by blast
  have nbl: "nb' < length (accessors (ts_gltf s0))" using nb a(2) by simp
  then have nb1: "nb' < length (accessors g1)" "accessors g1 ! nb' = accessors (ts_gltf s0) ! nb'"
    using frame_lengths [OF sp(1)] frame_accessor [OF sp(1)] by simp_all
  have last: "last (targets (ts_primitive s1)) = t" by (simp add: s1 AddTarget_def)
  let ?g = "ts_gltf s1"
  have g: "?g = set_min_max (target_position t) (toStdVec (bounds_lo (shapeBounds c)))
                  (toStdVec (bounds_hi (shapeBounds c))) g1"
    by (simp add: s1 s2)
  have len: "length (accessors ?g) = length (accessors g1)"
    by (simp add: g set_min_max_simps)
  have ta: "accessors ?g ! ta = accessors g1 ! ta"
    unfolding g using a(5) by (intro set_min_max_other) simp
  have nbp: "nb' \<noteq> target_position t" using nbl sp(3) by simp
  have nbv: "accessors ?g ! nb' = accessors g1 ! nb'"
    unfolding g using nbp by (intro set_min_max_other) simp
  show ?thesis
    unfolding tangent_over_normal_base_def last
    using a nb1 len ta nbv
    by (intro exI [of _ ta] exI [of _ nb'] exI [of _ sp']) simp
qed

lemma ex_base_simps:
  "pAccBase ex_base = Some 0" "nAccBase ex_base = Some 1" "tAccBase ex_base = None"
  "length (accessors ex_document) = 2" "length (bufferViews ex_document) = 2"
  by (simp_all add: ex_base_def ex_document_def new_GltfModel_def)

lemma ex_sparse_some:
  "\<exists>s. build_targets exact_Length (ex_options False) (ex_model 1 [ex_moved]) (ex_surface 1) False ex_base
     (new_PrimitiveData 0 0 False) ex_document = Some s"
  by (simp add: build_targets_def channel_step_def ex_collect_moved channel_accessors_def
        ex_surface_simps ex_options_simps sparse_channel_def GetAlignedBufferView_def hold_bufferView_def
        AddSparseAccessorWithView_def hold_accessor_def Let_def ex_base_simps
        split: prod.splits)



lemma ex_model_simps:
  "surfaces (ex_model i vs) = [ex_surface i]"
  "vertices (ex_model i vs) = vs"
  "triangles (ex_model i vs) = [\<lparr>verts = (0, 0, 0), materialIndex = 0\<rparr>]"
  "raw_materials (ex_model i vs) = [ex_material]"
  "vertexAttributes (ex_model i vs) = {RAW_VERTEX_ATTRIBUTE_POSITION, RAW_VERTEX_ATTRIBUTE_NORMAL}"
  "globalWeightCount (ex_model i vs) = 0"
  by (simp_all add: ex_model_def)










lemma mfold_total:
  assumes "\<And>x s. x \<in> set xs \<Longrightarrow> \<exists>s'. f x s = Some s'"
  shows "\<exists>s'. mfold f xs s = Some s'"
  using assms
proof (induction xs arbitrary: s)
  case Nil
  then show ?case by simp
next
  case (Cons x xs)
  from Cons.prems [of x s] obtain s1 where 1: "f x s = Some s1" by auto
  from Cons.IH [of s1] Cons.prems obtain s' where "mfold f xs s1 = Some s'" by auto
  with 1 show ?case by simp
qed

lemma collect_vertex_total:
  assumes "channelIx < length (blends (snd jv))"
  shows "\<exists>c'. collect_vertex Length options channel channelIx jv c = Some c'"
  using assms by (simp add: collect_vertex_def nth_at_def Let_def)

lemma collect_total:
  assumes "has_blends surfaceModel rawSurface" and "channelIx < length (blendChannels rawSurface)"
  shows "\<exists>c. collect Length options surfaceModel channel channelIx = Some c"
  unfolding collect_def
proof (rule mfold_total)
  fix x :: "nat \<times> RawVertex" and s
  assume "x \<in> set (zip [0 ..< length (vertices surfaceModel)] (vertices surfaceModel))"
  then have "snd x \<in> set (vertices surfaceModel)" by (metis in_set_zipE prod.collapse)
  with assms have "channelIx < length (blends (snd x))"
    by (auto simp: has_blends_def list_all_iff)
  then show "\<exists>s'. collect_vertex Length options channel channelIx x s = Some s'"
    by (rule collect_vertex_total)
qed

lemma collect_vertex_wants:
  assumes "collect_vertex Length options channel ci jv c = Some c'"
    and "normals c \<noteq> [] \<or> tangents c \<noteq> [] \<longrightarrow> wants_normal_base options channel"
  shows "normals c' \<noteq> [] \<or> tangents c' \<noteq> [] \<longrightarrow> wants_normal_base options channel"
  using assms
  by (auto simp: collect_vertex_def wants_normal_base_def Let_def split: option.splits if_splits)

lemma collect_wants:
  assumes "collect Length options surfaceModel channel ci = Some c"
    and "normals c \<noteq> [] \<or> tangents c \<noteq> []"
  shows "wants_normal_base options channel"
proof -
  let ?P = "\<lambda>c. normals c \<noteq> [] \<or> tangents c \<noteq> [] \<longrightarrow> wants_normal_base options channel"
  have "?P c"
  proof (rule mfold_invariant [OF assms(1) [unfolded collect_def], where P = ?P])
    show "?P new_Collected" by (simp add: new_Collected_def)
  next
    fix x s s'
    assume "?P s" and "collect_vertex Length options channel ci x s = Some s'"
    then show "?P s'" using collect_vertex_wants by blast
  qed
  with assms(2) show ?thesis by simp
qed

lemma channel_accessors_total:
  assumes "pAccBase b \<noteq> None"
    and "normals c \<noteq> [] \<or> tangents c \<noteq> [] \<longrightarrow> nAccBase b \<noteq> None"
  shows "\<exists>t s1. channel_accessors options useLong b channel c s = Some (t, s1)"
  using assms
  by (auto simp: channel_accessors_def empty_channel_def sparse_channel_def Let_def
        split: prod.splits option.splits)

lemma channel_step_total:
  assumes hb: "has_blends surfaceModel rawSurface"
    and bp: "bases_present options rawSurface b"
    and ci: "ci < length (blendChannels rawSurface)"
  shows "\<exists>s'. channel_step Length options surfaceModel useLong b
                 (ci, blendChannels rawSurface ! ci) s = Some s'"
proof -
  let ?ch = "blendChannels rawSurface ! ci"
  from collect_total [OF hb ci] obtain c where
    c: "collect Length options surfaceModel ?ch ci = Some c" by blast
  have n: "normals c \<noteq> [] \<or> tangents c \<noteq> [] \<longrightarrow> nAccBase b \<noteq> None"
  proof
    assume "normals c \<noteq> [] \<or> tangents c \<noteq> []"
    from collect_wants [OF c this] have "wants_normal_base options ?ch" .
    with bp ci show "nAccBase b \<noteq> None"
      by (auto simp: bases_present_def list_all_length)
  qed
  from bp have "pAccBase b \<noteq> None" by (simp add: bases_present_def)
  from channel_accessors_total [OF this n] obtain t s1 where
    "channel_accessors options useLong b ?ch c s = Some (t, s1)" by blast
  with c show ?thesis by (simp add: channel_step_def)
qed

lemma build_targets_total:
  assumes hb: "has_blends surfaceModel rawSurface"
    and bp: "bases_present options rawSurface b"
  shows "\<exists>s. build_targets Length options surfaceModel rawSurface useLong b primitive g = Some s"
  unfolding build_targets_def
proof (rule mfold_total)
  fix x :: "nat \<times> RawBlendChannel" and s
  assume "x \<in> set (zip [0 ..< length (blendChannels rawSurface)] (blendChannels rawSurface))"
  then obtain i where "i < length (blendChannels rawSurface)"
    and "x = (i, blendChannels rawSurface ! i)"
    by (auto simp: in_set_zip)
  with channel_step_total [OF hb bp, of i]
  show "\<exists>s'. channel_step Length options surfaceModel useLong b x s = Some s'" by simp
qed








lemma build_targets_sparse_tangent:
  assumes "\<not> disableSparseBlendShapes options"
    and "build_targets Length options surfaceModel rawSurface useLong b primitive g = Some s"
    and "targets primitive = []"
    and "\<forall>x. nAccBase b = Some x \<longrightarrow> x < length (accessors g)"
  shows "\<forall>ci < length (blendChannels rawSurface). \<forall>c.
           collect Length options surfaceModel (blendChannels rawSurface ! ci) ci = Some c
           \<longrightarrow> sparseIndices c \<noteq> [] \<longrightarrow> tangents c \<noteq> []
           \<longrightarrow> tangent_over_normal_base b (index_type useLong) c
                 (targets (ts_primitive s) ! ci) (ts_gltf s)"
proof -
  let ?R = "\<lambda>ci t s. \<forall>c. collect Length options surfaceModel (blendChannels rawSurface ! ci) ci = Some c
           \<longrightarrow> sparseIndices c \<noteq> [] \<longrightarrow> tangents c \<noteq> []
           \<longrightarrow> tangent_over_normal_base b (index_type useLong) c t (ts_gltf s)"
  let ?s0 = "\<lparr>ts_gltf = g, ts_primitive = primitive, dummyIdxView = None, dummyDataView = None\<rparr>"
  have inv: "targets_inv (index_type useLong) b ?s0 ?R (length (blendChannels rawSurface)) s"
  proof (rule build_targets_invariant [OF assms(2)])
    fix ci t s s'
    assume "?R ci t s" and "ts_ext s s'"
    then show "?R ci t s'"
      using tangent_over_normal_base_frame [of b _ _ t "ts_gltf s" "ts_gltf s'"]
      by (auto simp: ts_ext_def)
  next
    fix ci s0 s1
    assume f: "frame g (ts_gltf s0)"
      and cs: "channel_step Length options surfaceModel useLong b (ci, blendChannels rawSurface ! ci) s0 = Some s1"
    have nb: "\<And>x. nAccBase b = Some x \<Longrightarrow> x < length (accessors (ts_gltf s0))"
      using assms(4) frame_lengths [OF f] by fastforce
    show "?R ci (last (targets (ts_primitive s1))) s1"
      using channel_step_sparse_tangent [OF cs assms(1) nb] by blast
  qed
  show ?thesis using targets_inv_all(2) [OF inv] assms(3) by simp
qed


lemma build_targets_length:
  assumes bt: "build_targets Length options sm rawSurface useLong b primitive g = Some s"
    and "targets primitive = []"
  shows "length (targets (ts_primitive s)) = length (blendChannels rawSurface)"
proof -
  let ?s0 = "\<lparr>ts_gltf = g, ts_primitive = primitive, dummyIdxView = None, dummyDataView = None\<rparr>"
  have "targets_inv (index_type useLong) b ?s0 (\<lambda>ci t s. True) (length (blendChannels rawSurface)) s"
    by (rule build_targets_invariant [OF bt]) simp_all
  from targets_inv_all(1) [OF this] assms(2) show ?thesis by simp
qed

lemma collect_vertices_cong:
  "vertices sm = vertices sm' \<Longrightarrow>
     collect Length options sm channel ci = collect Length options sm' channel ci"
  by (simp add: collect_def)

lemma ex_model_with_simps:
  "vertices (ex_model_with attrs vs) = vs"
  "vertexAttributes (ex_model_with attrs vs) = attrs"
  "triangles (ex_model_with attrs vs) = [\<lparr>verts = (0, 0, 0), materialIndex = 0\<rparr>]"
  "globalWeightCount (ex_model_with attrs vs) = 0"
  by (simp_all add: ex_model_with_def ex_model_def)

lemma ex_model_two_simps:
  "vertices (ex_model_two attrs vs) = vs"
  "vertexAttributes (ex_model_two attrs vs) = attrs"
  "triangles (ex_model_two attrs vs) = [\<lparr>verts = (0, 0, 0), materialIndex = 0\<rparr>]"
  "globalWeightCount (ex_model_two attrs vs) = 0"
  by (simp_all add: ex_model_two_def ex_model_def)

lemma ex_surface_two_simps:
  "blendChannels ex_surface_two = [ex_channel, ex_channel\<lparr>channel_name := ''frown''\<rparr>]"
  "bounds_min ex_surface_two = (0, 0, 0)" "bounds_max ex_surface_two = (0, 0, 0)"
  by (simp_all add: ex_surface_two_def ex_surface_def)

lemma ex_has_blends:
  "has_blends (ex_model i [ex_vertex d]) (ex_surface j)"
  "has_blends (ex_model_two attrs [ex_vertex_two d1 d2]) ex_surface_two"
  by (simp_all add: has_blends_def ex_model_simps ex_model_two_simps ex_surface_simps
        ex_surface_two_simps ex_vertex_def ex_vertex_two_def)




lemma AddAttributeToPrimitive_cases:
  obtains a p' g' where "AddAttributeToPrimitive n T d xs p g = (a, p', g')"
  by (metis prod_cases3)

lemma add_position_bases:
  "add_position sm rs (b, p, g) = (b', p', g') \<Longrightarrow>
     nAccBase b' = nAccBase b
     \<and> (pAccBase b' \<noteq> None \<longleftrightarrow> pAccBase b \<noteq> None \<or> RAW_VERTEX_ATTRIBUTE_POSITION \<in> vertexAttributes sm)"
  by (auto simp: add_position_def Let_def split: if_splits prod.splits)

lemma add_normal_bases:
  "add_normal sm (b, p, g) = (b', p', g') \<Longrightarrow>
     pAccBase b' = pAccBase b
     \<and> (nAccBase b' \<noteq> None \<longleftrightarrow> nAccBase b \<noteq> None \<or> RAW_VERTEX_ATTRIBUTE_NORMAL \<in> vertexAttributes sm)"
  by (auto simp: add_normal_def Let_def split: if_splits prod.splits)

lemma add_tangent_bases:
  "add_tangent sm (b, p, g) = (b', p', g') \<Longrightarrow>
     pAccBase b' = pAccBase b \<and> nAccBase b' = nAccBase b"
  by (auto simp: add_tangent_def Let_def split: if_splits prod.splits)

lemma build_attributes_bases:
  assumes "build_attributes sm rs p g = Some (b, p', g')"
  shows "pAccBase b \<noteq> None \<longleftrightarrow> RAW_VERTEX_ATTRIBUTE_POSITION \<in> vertexAttributes sm"
    and "nAccBase b \<noteq> None \<longleftrightarrow> RAW_VERTEX_ATTRIBUTE_NORMAL \<in> vertexAttributes sm"
proof -
  let ?b0 = "\<lparr>pAccBase = None, nAccBase = None, tAccBase = None\<rparr>"
  obtain b1 p1 g1 where 1: "add_position sm rs (?b0, p, g) = (b1, p1, g1)"
    by (metis prod_cases3)
  obtain b2 p2 g2 where 2: "add_normal sm (b1, p1, g1) = (b2, p2, g2)"
    by (metis prod_cases3)
  obtain b3 p3 g3 where 3: "add_tangent sm (b2, p2, g2) = (b3, p3, g3)"
    by (metis prod_cases3)
  from assms 1 2 3 have b: "b = b3"
    by (auto simp: build_attributes_def Let_def split: option.splits prod.splits)
  from add_position_bases [OF 1] add_normal_bases [OF 2] add_tangent_bases [OF 3]
  show "pAccBase b \<noteq> None \<longleftrightarrow> RAW_VERTEX_ATTRIBUTE_POSITION \<in> vertexAttributes sm"
    and "nAccBase b \<noteq> None \<longleftrightarrow> RAW_VERTEX_ATTRIBUTE_NORMAL \<in> vertexAttributes sm"
    unfolding b by simp_all
qed

lemma build_primitive_no_targets:
  assumes "\<And>b p g. build_attributes sm rs p0 g0 = Some (b, p, g)
             \<Longrightarrow> build_targets Length options sm rs (useLongIndices_of options sm) b p g = None"
    and "build_indices options sm m g = (p0, g0)"
  shows "build_primitive Length options encode sm rs m g = None"
  using assms by (auto simp: build_primitive_def Let_def split: option.splits prod.splits)

lemma build_indices_cases:
  obtains p0 g0 where "build_indices options sm m g = (p0, g0)"
  by (metis surj_pair)

lemma ex_no_normal_base_moved:
  assumes "nAccBase b = None"
  shows "build_targets exact_Length (ex_options False) (ex_model_with attrs [ex_moved]) (ex_surface 1)
           useLong b p g = None"
proof -
  have c: "collect exact_Length (ex_options False) (ex_model_with attrs [ex_moved]) ex_channel 0 =
             collect exact_Length (ex_options False) (ex_model 1 [ex_moved]) ex_channel 0"
    by (rule collect_vertices_cong) (simp add: ex_model_with_simps ex_model_simps)
  show ?thesis
    using assms
    by (simp add: build_targets_def channel_step_def c ex_collect_moved channel_accessors_def
          ex_surface_simps ex_options_simps sparse_channel_def Let_def
          split: prod.splits option.splits)
qed



section \<open>C1: the layout of the binary container\<close>

lemma get_u32_le_u32: "off = length a \<Longrightarrow> get_u32_le (a @ u32_le w @ c) off = unat w"
proof -
  assume off: "off = length a"
  have "unat w < 2 ^ 32" using unsigned_less [of w, where ?'a = nat] by simp
  then have "unat w div 2 ^ 0 mod 256 + 2 ^ 8 * (unat w div 2 ^ 8 mod 256)
        + 2 ^ 16 * (unat w div 2 ^ 16 mod 256) + 2 ^ 24 * (unat w div 2 ^ 24 mod 256) = unat w"
    by (rule four_bytes)
  then show ?thesis
    unfolding get_u32_le_def off u32_le_def
    by (simp only: nth_append_length nth_append_length_plus byte_of_u32 append_Cons nth_Cons_0
          nth_Cons_Suc One_nat_def numeral_2_eq_2 numeral_3_eq_3 append_Nil)
qed

lemma get_u32_le_size:
  "off = length a \<Longrightarrow> n < 2 ^ 32 \<Longrightarrow> get_u32_le (a @ size_le n @ c) off = n"
proof -
  assume off: "off = length a" and "n < 2 ^ 32"
  then have "n div 2 ^ 0 mod 256 + 2 ^ 8 * (n div 2 ^ 8 mod 256)
        + 2 ^ 16 * (n div 2 ^ 16 mod 256) + 2 ^ 24 * (n div 2 ^ 24 mod 256) = n"
    by (intro four_bytes)
  then show ?thesis
    unfolding get_u32_le_def off size_le_def
    by (simp only: nth_append_length nth_append_length_plus byte_of_size append_Cons nth_Cons_0
          nth_Cons_Suc One_nat_def numeral_2_eq_2 numeral_3_eq_3 append_Nil)
qed

lemma field_u32:
  "bs = a @ u32_le w @ c \<Longrightarrow> length a = off \<Longrightarrow> get_u32_le bs off = unat w"
  using get_u32_le_u32 [of off a w c] by simp

lemma field_size:
  "bs = a @ size_le n @ c \<Longrightarrow> length a = off \<Longrightarrow> n < 2 ^ 32 \<Longrightarrow> get_u32_le bs off = n"
  using get_u32_le_size [of off a n c] by simp

lemma drop_prefix: "bs = a @ c \<Longrightarrow> length a = n \<Longrightarrow> drop n bs = c"
  by simp

lemma take_drop_middle:
  "bs = a @ m @ c \<Longrightarrow> length a = n \<Longrightarrow> length m = k \<Longrightarrow> take k (drop n bs) = m"
  by simp

lemma glb_file_explicit:
  assumes "length (glb_file dump binary) < 2 ^ 32"
  defines "jl \<equiv> length (dump 0) + pad4 (length (dump 0))"
    and "bl \<equiv> length binary + pad4 (length binary)"
  shows "glb_file dump binary =
           magic_version @ u32_le (to_uint32 (28 + jl + bl)) @ u32_le (word_of_nat jl)
         @ [0x4A, 0x53, 0x4F, 0x4E] @ dump 0 @ replicate (pad4 (length (dump 0))) 0x20
         @ size_le bl @ [0x42, 0x49, 0x4E, 0x00] @ binary @ replicate (pad4 (length binary)) 0x00"
    and "length (glb_file dump binary) = 28 + jl + bl"
    and "unat (to_uint32 (28 + jl + bl)) = 28 + jl + bl"
    and "unat (word_of_nat jl :: uint32_t) = jl"
    and "bl < 2 ^ 32"
proof -
  show len: "length (glb_file dump binary) = 28 + jl + bl"
    by (simp add: glb_file_def emit_binary_length jl_def bl_def)
  with assms(1) have total: "28 + jl + bl < 2 ^ 32" by simp
  then show "unat (to_uint32 (28 + jl + bl)) = 28 + jl + bl"
    unfolding to_uint32_def by (rule unat_of_nat_small)
  from total have "jl < 2 ^ 32" by simp
  then show "unat (word_of_nat jl :: uint32_t) = jl" by (rule unat_of_nat_small)
  from total show "bl < 2 ^ 32" by simp
  from total have "20 + length (dump 0) + pad4 (length (dump 0)) < 2 ^ 32"
    by (simp add: jl_def)
  then show "glb_file dump binary =
           magic_version @ u32_le (to_uint32 (28 + jl + bl)) @ u32_le (word_of_nat jl)
         @ [0x4A, 0x53, 0x4F, 0x4E] @ dump 0 @ replicate (pad4 (length (dump 0))) 0x20
         @ size_le bl @ [0x42, 0x49, 0x4E, 0x00] @ binary @ replicate (pad4 (length binary)) 0x00"
    unfolding glb_file_def jl_def bl_def
    by (simp only: emit_binary_bytes add.assoc)
qed

text \<open>
  Claim C1, as amended. For every run with \<^verbatim>\<open>outputBinary\<close> enabled on a freshly opened
  stream whose final file is shorter than \<open>2 ^ 32\<close> bytes: the file begins with the magic
  \<^verbatim>\<open>glTF\<close> and the version 2 as a little-endian 32-bit value; the field at offset 8 is the
  total length and equals the size of the file, a multiple of 4; the field at offset 12 is the
  length of the JSON chunk, a multiple of 4, and the chunk is the JSON text followed by fewer
  than four spaces; the field at the offset of the BIN sub-header, which is 20 plus the length
  of the JSON chunk, is the length of the BIN chunk, a multiple of 4, and the chunk is the binary
  buffer followed by fewer than four zero bytes, up to the end of the file.
\<close>

theorem glb_container_layout:
  assumes "length (glb_file dump binary) < 2 ^ 32"
  shows "take 4 (glb_file dump binary) = [0x67, 0x6C, 0x54, 0x46]
       \<and> get_u32_le (glb_file dump binary) 4 = 2
       \<and> get_u32_le (glb_file dump binary) 8 = length (glb_file dump binary)
       \<and> length (glb_file dump binary) mod 4 = 0
       \<and> get_u32_le (glb_file dump binary) 12 mod 4 = 0
       \<and> (\<exists>k<4. take (get_u32_le (glb_file dump binary) 12) (drop 20 (glb_file dump binary))
                    = dump 0 @ replicate k 0x20)
       \<and> get_u32_le (glb_file dump binary) (20 + get_u32_le (glb_file dump binary) 12) mod 4 = 0
       \<and> (\<exists>k<4. drop (28 + get_u32_le (glb_file dump binary) 12) (glb_file dump binary)
                    = binary @ replicate k 0x00)
       \<and> length (glb_file dump binary)
           = 28 + get_u32_le (glb_file dump binary) 12
                + get_u32_le (glb_file dump binary) (20 + get_u32_le (glb_file dump binary) 12)"
proof -
  define pj where "pj = pad4 (length (dump 0))"
  define pb where "pb = pad4 (length binary)"
  define jl where "jl = length (dump 0) + pj"
  define bl where "bl = length binary + pb"
  define out where "out = glb_file dump binary"
  define T where "T = u32_le (to_uint32 (28 + jl + bl))"
  define JL where "JL = u32_le (word_of_nat jl)"
  define JD where "JD = dump 0 @ replicate pj 0x20"
  define BD where "BD = binary @ replicate pb 0x00"
  note ex = glb_file_explicit [OF assms, folded pj_def pb_def, folded jl_def bl_def, folded out_def]
  have out: "out = magic_version @ T @ JL @ [0x4A, 0x53, 0x4F, 0x4E] @ JD
                   @ size_le bl @ [0x42, 0x49, 0x4E, 0x00] @ BD"
    using ex(1) by (simp add: T_def JL_def JD_def BD_def)
  have lens: "length magic_version = 8" "length T = 4" "length JL = 4" "length JD = jl"
     "length BD = bl" "length (size_le bl) = 4"
    by (simp_all add: magic_version_def T_def JL_def JD_def BD_def u32_le_def size_le_def jl_def bl_def)
  have jmod: "jl mod 4 = 0" by (simp add: jl_def pj_def pad4_mod)
  have bmod: "bl mod 4 = 0" by (simp add: bl_def pb_def pad4_mod)
  have c1: "take 4 out = [0x67, 0x6C, 0x54, 0x46]"
    by (simp add: out magic_version_def)
  have c2: "get_u32_le out 4 = 2"
    by (simp add: out magic_version_def get_u32_le_def)
  have c3: "get_u32_le out 8 = length out"
  proof -
    have "out = magic_version @ u32_le (to_uint32 (28 + jl + bl)) @ (JL @ [0x4A, 0x53, 0x4F, 0x4E] @ JD
                   @ size_le bl @ [0x42, 0x49, 0x4E, 0x00] @ BD)"
      by (simp add: out T_def)
    then have "get_u32_le out 8 = unat (to_uint32 (28 + jl + bl))"
      by (rule field_u32) (simp add: lens)
    then show ?thesis by (simp only: ex(3) ex(2))
  qed
  have f12: "get_u32_le out 12 = jl"
  proof -
    have "out = (magic_version @ T) @ u32_le (word_of_nat jl) @ ([0x4A, 0x53, 0x4F, 0x4E] @ JD
                   @ size_le bl @ [0x42, 0x49, 0x4E, 0x00] @ BD)"
      by (simp add: out JL_def)
    then have "get_u32_le out 12 = unat (word_of_nat jl :: uint32_t)"
      by (rule field_u32) (simp add: lens)
    then show ?thesis by (simp only: ex(4))
  qed
  have fbin: "get_u32_le out (20 + jl) = bl"
  proof -
    have "out = (magic_version @ T @ JL @ [0x4A, 0x53, 0x4F, 0x4E] @ JD) @ size_le bl
                  @ ([0x42, 0x49, 0x4E, 0x00] @ BD)"
      by (simp add: out)
    then show ?thesis
      by (rule field_size) (use ex(5) in \<open>simp_all add: lens\<close>)
  qed
  have c6: "take jl (drop 20 out) = dump 0 @ replicate pj 0x20"
  proof -
    have "out = (magic_version @ T @ JL @ [0x4A, 0x53, 0x4F, 0x4E]) @ JD
                  @ (size_le bl @ [0x42, 0x49, 0x4E, 0x00] @ BD)"
      by (simp add: out)
    then have "take jl (drop 20 out) = JD"
      by (rule take_drop_middle) (simp_all add: lens)
    then show ?thesis by (simp only: JD_def)
  qed
  have c8: "drop (28 + jl) out = binary @ replicate pb 0x00"
  proof -
    have "out = (magic_version @ T @ JL @ [0x4A, 0x53, 0x4F, 0x4E] @ JD
                  @ size_le bl @ [0x42, 0x49, 0x4E, 0x00]) @ BD"
      by (simp add: out)
    then have "drop (28 + jl) out = BD"
      by (rule drop_prefix) (simp_all add: lens)
    then show ?thesis by (simp only: BD_def)
  qed
  have pj: "pj < 4" and pb: "pb < 4" by (simp_all add: pj_def pb_def pad4_less)
  have len: "length out = 28 + jl + bl" by (rule ex(2))
  have c4: "length out mod 4 = 0"
  proof -
    have "(4::nat) dvd 28" by simp
    moreover have "4 dvd jl" "4 dvd bl" using jmod bmod by (simp_all add: mod_eq_0_iff_dvd)
    ultimately have "4 dvd 28 + jl + bl" by (simp only: dvd_add)
    then show ?thesis unfolding len by (simp add: mod_eq_0_iff_dvd)
  qed
  show ?thesis
    unfolding out_def [symmetric] f12 fbin
    using c1 c2 c3 c4 jmod bmod c6 c8 pj pb len by blast
qed

text \<open>
  The layout theorem at the document \<^verbatim>\<open>{}\<close> and a binary buffer of five bytes: two spaces
  and three zero bytes of padding, 40 bytes in all.
\<close>

theorem glb_container_layout_witness:
  "length (glb_file example_dump [1, 2, 3, 4, 5]) < 2 ^ 32
   \<and> take 4 (glb_file example_dump [1, 2, 3, 4, 5]) = [0x67, 0x6C, 0x54, 0x46]
   \<and> get_u32_le (glb_file example_dump [1, 2, 3, 4, 5]) 8 = 40
   \<and> length (glb_file example_dump [1, 2, 3, 4, 5]) = 40
   \<and> get_u32_le (glb_file example_dump [1, 2, 3, 4, 5]) 12 = 4
   \<and> get_u32_le (glb_file example_dump [1, 2, 3, 4, 5]) 24 = 8"
proof -
  have v: "glb_file example_dump [1, 2, 3, 4, 5] =
     [0x67, 0x6C, 0x54, 0x46, 2, 0, 0, 0, 40, 0, 0, 0, 4, 0, 0, 0, 0x4A, 0x53, 0x4F, 0x4E,
      0x7B, 0x7D, 0x20, 0x20, 8, 0, 0, 0, 0x42, 0x49, 0x4E, 0, 1, 2, 3, 4, 5, 0, 0, 0]"
  proof -
    have pj: "pad4 2 = 2" and pb: "pad4 5 = 3"
      and lj: "length (example_dump 0) = 2" and lb: "length [1, 2, 3, 4, 5 :: byte] = 5"
      by (simp_all add: example_dump_def pad4_def)
    have small: "20 + length (example_dump 0) + pad4 (length (example_dump 0)) < 2 ^ 32"
      by (simp only: lj pj) simp
    have t: "u32_le (to_uint32 (28 + 2 + 2 + 5 + 3)) = [40, 0, 0, 0]"
      and j: "u32_le (word_of_nat (2 + 2)) = [4, 0, 0, 0]"
      and b: "size_le (5 + 3) = [8, 0, 0, 0]"
      by (simp_all add: u32_le_def size_le_def to_uint32_def)
    have r: "replicate 2 (0x20 :: byte) = [0x20, 0x20]" "replicate 3 (0 :: byte) = [0, 0, 0]"
      by (simp_all add: numeral_2_eq_2 numeral_3_eq_3)
    have "glb_file example_dump [1, 2, 3, 4, 5] =
            magic_version @ [40, 0, 0, 0] @ [4, 0, 0, 0] @ [0x4A, 0x53, 0x4F, 0x4E]
            @ example_dump 0 @ [0x20, 0x20] @ [8, 0, 0, 0] @ [0x42, 0x49, 0x4E, 0x00]
            @ [1, 2, 3, 4, 5] @ [0, 0, 0]"
      unfolding glb_file_def
      by (simp only: emit_binary_bytes [of example_dump "[1, 2, 3, 4, 5]", OF small] pj pb lj lb t j b r)
    then show ?thesis by (simp add: magic_version_def example_dump_def)
  qed
  have h: "length (glb_file example_dump [1, 2, 3, 4, 5]) < 2 ^ 32"
    by (simp add: v)
  show ?thesis
    using glb_container_layout [OF h] h by (simp add: v get_u32_le_def)
qed


text \<open>
  Claim C1 as it is written fails on a binary buffer of \<open>2 ^ 32\<close> bytes: the file has
  \<open>2 ^ 32 + 32\<close> bytes and the total length field, which has 32 bits, holds 32.
\<close>

theorem glb_total_length_counterexample:
  "get_u32_le (glb_file example_dump (replicate (2 ^ 32) 0)) 8
     \<noteq> length (glb_file example_dump (replicate (2 ^ 32) 0))"
proof -
  let ?bin = "replicate (2 ^ 32) (0 :: byte)"
  have pj: "pad4 2 = 2" and lj: "length (example_dump 0) = 2"
    by (simp_all add: example_dump_def pad4_def)
  have pb: "pad4 (length ?bin) = 0" by (simp add: pad4_def)
  have small: "20 + length (example_dump 0) + pad4 (length (example_dump 0)) < 2 ^ 32"
    by (simp only: lj pj) simp
  have len: "length (glb_file example_dump ?bin) = 32 + 2 ^ 32"
    unfolding glb_file_def by (simp only: emit_binary_length lj pj pb) simp
  have "glb_file example_dump ?bin =
          magic_version @ u32_le (to_uint32 (28 + length (example_dump 0)
              + pad4 (length (example_dump 0)) + length ?bin + pad4 (length ?bin)))
          @ (u32_le (word_of_nat (length (example_dump 0) + pad4 (length (example_dump 0))))
             @ [0x4A, 0x53, 0x4F, 0x4E] @ example_dump 0
             @ replicate (pad4 (length (example_dump 0))) 0x20
             @ size_le (length ?bin + pad4 (length ?bin)) @ [0x42, 0x49, 0x4E, 0x00]
             @ ?bin @ replicate (pad4 (length ?bin)) 0x00)"
    unfolding glb_file_def
    by (simp only: emit_binary_bytes [of example_dump ?bin, OF small] append_assoc)
  then have "get_u32_le (glb_file example_dump ?bin) 8 =
          unat (to_uint32 (28 + length (example_dump 0)
              + pad4 (length (example_dump 0)) + length ?bin + pad4 (length ?bin)))"
    by (rule field_u32) (simp add: magic_version_def)
  also have "\<dots> = 32"
    by (simp only: lj pj pb) (simp add: to_uint32_def unat_of_nat)
  finally show ?thesis by (simp only: len) simp
qed

section \<open>C2: channels that move no vertex\<close>




section \<open>C8: the sparse tangent accessor\<close>

text \<open>
  Claim C8, for a surface model with its base accessors. With sparse blend shapes, when
  every vertex has a delta for each blend channel, \<^verbatim>\<open>pAccBase\<close> is not null and
  \<^verbatim>\<open>nAccBase\<close> is an accessor that the document holds, the loop over the blend channels
  of a surface model has a result, with one target for each channel. Every channel that
  moves a vertex and for which tangents were collected has in its target a sparse tangent
  accessor built over \<^verbatim>\<open>*nAccBase\<close>, the base accessor of the normals: its buffer view,
  byte offset, type and count are those of the normal base accessor, not those of the
  tangent base accessor, and it substitutes the collected tangents as four-component
  vectors at indices of the surface model's index type. This holds whatever
  \<^verbatim>\<open>Vec3f::Length()\<close> returns.
\<close>

theorem sparse_tangent_over_normal_base:
  assumes "\<not> disableSparseBlendShapes options"
    and "has_blends surfaceModel rawSurface"
    and "pAccBase b \<noteq> None"
    and "nAccBase b = Some nb" and "nb < length (accessors g)"
    and "targets primitive = []"
  shows "\<exists>s. build_targets Length options surfaceModel rawSurface useLong b primitive g = Some s
     \<and> length (targets (ts_primitive s)) = length (blendChannels rawSurface)
     \<and> (\<forall>ci < length (blendChannels rawSurface). \<forall>c.
           collect Length options surfaceModel (blendChannels rawSurface ! ci) ci = Some c
           \<longrightarrow> sparseIndices c \<noteq> [] \<longrightarrow> tangents c \<noteq> []
           \<longrightarrow> tangent_over_normal_base b (index_type useLong) c
                 (targets (ts_primitive s) ! ci) (ts_gltf s))"
proof -
  have bp: "bases_present options rawSurface b"
    using assms(3,4) by (simp add: bases_present_def)
  from build_targets_total [OF assms(2) bp] obtain s where
    s: "build_targets Length options surfaceModel rawSurface useLong b primitive g = Some s"
    by blast
  have nb: "\<forall>x. nAccBase b = Some x \<longrightarrow> x < length (accessors g)"
    using assms(4,5) by simp
  from build_targets_sparse_tangent [OF assms(1) s assms(6) nb]
    build_targets_length [OF s assms(6)] s
  show ?thesis by blast
qed

text \<open>
  The theorem on claim C8 at the small scene with one moved vertex, over a document that
  holds the two base accessors: the loop has a result, and the tangent accessor of the one
  target mirrors the accessor 1, the base of the normals.
\<close>

theorem sparse_tangent_over_normal_base_witness:
  "\<not> disableSparseBlendShapes (ex_options False)
   \<and> has_blends (ex_model 1 [ex_moved]) (ex_surface 1)
   \<and> pAccBase ex_base \<noteq> None \<and> nAccBase ex_base = Some 1
   \<and> 1 < length (accessors ex_document)
   \<and> targets (new_PrimitiveData 0 0 False) = []
   \<and> (\<exists>s c. build_targets exact_Length (ex_options False) (ex_model 1 [ex_moved]) (ex_surface 1)
                False ex_base (new_PrimitiveData 0 0 False) ex_document = Some s
          \<and> collect exact_Length (ex_options False) (ex_model 1 [ex_moved]) ex_channel 0 = Some c
          \<and> sparseIndices c \<noteq> [] \<and> tangents c \<noteq> []
          \<and> length (targets (ts_primitive s)) = 1
          \<and> tangent_over_normal_base ex_base (index_type False) c
               (targets (ts_primitive s) ! 0) (ts_gltf s))"
proof -
  have h1: "\<not> disableSparseBlendShapes (ex_options False)" by (simp add: ex_options_simps)
  have h2: "has_blends (ex_model 1 [ex_moved]) (ex_surface 1)"
    unfolding ex_moved_def by (rule ex_has_blends)
  have h3: "pAccBase ex_base \<noteq> None" by (simp add: ex_base_simps)
  have h4: "nAccBase ex_base = Some 1" by (simp add: ex_base_simps)
  have h5: "1 < length (accessors ex_document)" by (simp add: ex_base_simps)
  have h6: "targets (new_PrimitiveData 0 0 False) = []" by (simp add: new_PrimitiveData_def)
  from sparse_tangent_over_normal_base [OF h1 h2 h3 h4 h5 h6,
      where Length = exact_Length and useLong = False]
    ex_collect_moved [of False 1] h1 h2 h3 h4 h5 h6
  show ?thesis by (auto simp: ex_surface_simps)
qed

text \<open>
  Claim C8 without a base accessor of the normals. The surface model has the attributes
  POSITION and TANGENT and no NORMAL, so \<^verbatim>\<open>nAccBase\<close> stays null; the channel moves the
  vertex and its tangents are collected. The program dereferences \<^verbatim>\<open>*nAccBase\<close> for the
  tangent accessor, and the primitive has no result.
\<close>

theorem sparse_tangent_null_normal_base_counterexample:
  "\<not> disableSparseBlendShapes (ex_options False)
   \<and> map_option (\<lambda>c. (sparseIndices c, tangents c))
        (collect exact_Length (ex_options False)
           (ex_model_with {RAW_VERTEX_ATTRIBUTE_POSITION, RAW_VERTEX_ATTRIBUTE_TANGENT} [ex_moved])
           ex_channel 0) = Some ([0], [(0, 0, 0, 0)])
   \<and> build_primitive exact_Length (ex_options False) ex_no_codec
        (ex_model_with {RAW_VERTEX_ATTRIBUTE_POSITION, RAW_VERTEX_ATTRIBUTE_TANGENT} [ex_moved])
        (ex_surface 1) 0 new_GltfModel = None"
proof -
  let ?sm = "ex_model_with {RAW_VERTEX_ATTRIBUTE_POSITION, RAW_VERTEX_ATTRIBUTE_TANGENT} [ex_moved]"
  have c: "collect exact_Length (ex_options False) ?sm ex_channel 0 =
             collect exact_Length (ex_options False) (ex_model 1 [ex_moved]) ex_channel 0"
    by (rule collect_vertices_cong) (simp add: ex_model_with_simps ex_model_simps)
  obtain p0 g0 where i: "build_indices (ex_options False) ?sm 0 new_GltfModel = (p0, g0)"
    by (rule build_indices_cases)
  have "build_primitive exact_Length (ex_options False) ex_no_codec ?sm (ex_surface 1) 0
          new_GltfModel = None"
  proof (rule build_primitive_no_targets [OF _ i])
    fix b p g
    assume "build_attributes ?sm (ex_surface 1) p0 g0 = Some (b, p, g)"
    from build_attributes_bases(2) [OF this] have "nAccBase b = None"
      by (simp add: ex_model_with_simps)
    then show "build_targets exact_Length (ex_options False) ?sm (ex_surface 1)
                 (useLongIndices_of (ex_options False) ?sm) b p g = None"
      by (rule ex_no_normal_base_moved)
  qed
  then show ?thesis by (simp add: c ex_collect_moved ex_options_simps)
qed

section \<open>C9: morph targets without sparse accessors\<close>

text \<open>
  Claim C9. When \<^verbatim>\<open>disableSparseBlendShapes\<close> is set, the loop over the blend channels of
  a surface model attaches one target for each channel to a primitive that had none, and
  every target has a null tangent accessor. When tangents were collected for the channel,
  the normal slot of its target holds the dense accessor of four-component vectors over the
  tangents; the dense accessor of the normals, if one was made for the channel, is held by
  the document and is not in the target.
\<close>

theorem dense_targets:
  assumes "disableSparseBlendShapes options"
    and "build_targets Length options surfaceModel rawSurface useLong b primitive g = Some s"
    and "targets primitive = []"
  shows "length (targets (ts_primitive s)) = length (blendChannels rawSurface)
     \<and> (\<forall>t \<in> set (targets (ts_primitive s)). target_tangent t = None)
     \<and> (\<forall>ci < length (blendChannels rawSurface). \<forall>c.
           collect Length options surfaceModel (blendChannels rawSurface ! ci) ci = Some c
           \<longrightarrow> tangents c \<noteq> []
           \<longrightarrow> tangent_in_normal_slot c (blendChannels rawSurface ! ci)
                 (targets (ts_primitive s) ! ci) (ts_gltf s))"
proof -
  let ?R = "\<lambda>ci t s. target_tangent t = None
      \<and> (\<forall>c. collect Length options surfaceModel (blendChannels rawSurface ! ci) ci = Some c
           \<longrightarrow> tangents c \<noteq> []
           \<longrightarrow> tangent_in_normal_slot c (blendChannels rawSurface ! ci) t (ts_gltf s))"
  let ?s0 = "\<lparr>ts_gltf = g, ts_primitive = primitive, dummyIdxView = None, dummyDataView = None\<rparr>"
  have inv: "targets_inv (index_type useLong) b ?s0 ?R (length (blendChannels rawSurface)) s"
  proof (rule build_targets_invariant [OF assms(2)])
    fix ci t s s'
    assume "?R ci t s" and "ts_ext s s'"
    then show "?R ci t s'"
      using tangent_in_normal_slot_frame [of _ _ t "ts_gltf s" "ts_gltf s'"]
      by (auto simp: ts_ext_def)
  next
    fix ci s0 s1
    assume "channel_step Length options surfaceModel useLong b (ci, blendChannels rawSurface ! ci) s0 = Some s1"
    from channel_step_dense [OF this assms(1)]
    show "?R ci (last (targets (ts_primitive s1))) s1" by blast
  qed
  note a = targets_inv_all [OF inv]
  have len: "length (targets (ts_primitive s)) = length (blendChannels rawSurface)"
    using a(1) assms(3) by simp
  have each: "\<And>ci. ci < length (blendChannels rawSurface) \<Longrightarrow> ?R ci (targets (ts_primitive s) ! ci) s"
    using a(2) assms(3) by simp
  have "\<forall>t \<in> set (targets (ts_primitive s)). target_tangent t = None"
    using each len by (metis in_set_conv_nth)
  with len each show ?thesis by blast
qed

text \<open>
  The theorem on claim C9 at the small scene with one moved vertex: normals and tangents
  are collected, and the one target has the tangents in its normal slot.
\<close>

theorem dense_targets_witness:
  "disableSparseBlendShapes (ex_options True) \<and> targets (new_PrimitiveData 0 0 False) = []
   \<and> (\<exists>s c. build_targets exact_Length (ex_options True) (ex_model 1 [ex_moved]) (ex_surface 1) False
                ex_no_base (new_PrimitiveData 0 0 False) new_GltfModel = Some s
          \<and> collect exact_Length (ex_options True) (ex_model 1 [ex_moved]) ex_channel 0 = Some c
          \<and> tangents c \<noteq> [] \<and> normals c \<noteq> []
          \<and> length (targets (ts_primitive s)) = 1
          \<and> target_tangent (targets (ts_primitive s) ! 0) = None
          \<and> tangent_in_normal_slot c ex_channel (targets (ts_primitive s) ! 0) (ts_gltf s))"
proof -
  have h1: "disableSparseBlendShapes (ex_options True)" by (simp add: ex_options_simps)
  have h3: "targets (new_PrimitiveData 0 0 False) = []" by (simp add: new_PrimitiveData_def)
  obtain s where h2: "build_targets exact_Length (ex_options True) (ex_model 1 [ex_moved]) (ex_surface 1) False
                ex_no_base (new_PrimitiveData 0 0 False) new_GltfModel = Some s"
    using ex_dense_some by blast
  from dense_targets [OF h1 h2 h3] ex_collect_moved [of True 1] h1 h2 h3
  show ?thesis by (auto simp: ex_surface_simps)
qed

end
